theory Spec2Isabelle
  imports Complex_Main
begin

section \<open>Errors and results\<close>

text \<open>
  The exceptions that the notebook's code and the library calls it makes can raise.
  \<open>InvalidRef\<close> has no Python counterpart: it is what the model answers when a
  reference does not point into the heap, which a Python program cannot produce.
\<close>

datatype error =
    TypeError
  | ValueError
  | KeyError string
  | IndexError
  | AttributeError
  | NameError
  | ZeroDivisionError
  | FileNotFoundError
  | InvalidRef

text \<open>
  How an argument with or without a default reaches a Python function:
  \<open>Omitted\<close> is a call that leaves the argument out, \<open>Passed v\<close> one that gives it.
\<close>

datatype 'a pyarg = Omitted | Passed 'a

section \<open>numpy: float64 values and 2-D arrays\<close>

text \<open>
  A float64 is a real number that the format holds, or one of the three special
  values. The sign of zero is not modelled: the two zeros, which compare equal, are the
  one value \<open>Fin 0\<close>.
\<close>

datatype npfloat = Fin real | PInf | NInf | NaN

subsection \<open>Rounding\<close>

text \<open>
  An arithmetic operation on finite values returns its exact result, rounded to the
  format. The rounding is the argument \<open>rnd\<close> of every operation below. The code runs
  on \<open>float64\<close>; \<open>exact\<close> is arithmetic that never rounds. What is proved for every
  \<open>rnd\<close> holds of both.
\<close>

type_synonym rounding = "real \<Rightarrow> npfloat"

definition exact :: rounding where
  "exact x = Fin x"

text \<open>
  The binary exponent of a positive number \<open>a\<close>: the \<open>e\<close> with \<open>2^e \<le> a < 2^(e+1)\<close>, but
  not above 1023 and not below -1022, the exponents of the largest and of the smallest
  normal float64. It is found by halving or doubling \<open>a\<close>.
\<close>

primrec exponent_up :: "nat \<Rightarrow> real \<Rightarrow> int \<Rightarrow> int" where
  "exponent_up 0 a e = e"
| "exponent_up (Suc k) a e = (if a < 2 then e else exponent_up k (a / 2) (e + 1))"

primrec exponent_down :: "nat \<Rightarrow> real \<Rightarrow> int \<Rightarrow> int" where
  "exponent_down 0 a e = e"
| "exponent_down (Suc k) a e = (if 1 \<le> a then e else exponent_down k (2 * a) (e - 1))"

definition exponent :: "real \<Rightarrow> int" where
  "exponent a = (if 1 \<le> a then exponent_up 1023 a 0 else exponent_down 1022 a 0)"

definition pow2 :: "int \<Rightarrow> real" where
  "pow2 e = (if 0 \<le> e then 2 ^ nat e else 1 / 2 ^ nat (- e))"

text \<open>The nearest integer, and of two nearest integers the even one.\<close>

definition round_half_even :: "real \<Rightarrow> int" where
  "round_half_even q =
     (let f = \<lfloor>q\<rfloor>
      in if q - of_int f < 1 / 2 then f
         else if 1 / 2 < q - of_int f then f + 1
         else if even f then f else f + 1)"

text \<open>
  IEEE 754 binary64, rounding to nearest, ties to even. A float64 of exponent \<open>e\<close> is
  a multiple of \<open>2^(e-52)\<close>, so the number is rounded to the nearest such multiple;
  below the smallest normal number the multiples are those of \<open>2^(-1074)\<close>, and a
  result that reaches \<open>2^1024\<close> is an infinity.
\<close>

definition float64 :: rounding where
  "float64 x =
     (if x = 0 then Fin 0
      else
        let u = pow2 (exponent \<bar>x\<bar> - 52);
            r = of_int (round_half_even (\<bar>x\<bar> / u)) * u
        in if pow2 1024 \<le> r then (if 0 < x then PInf else NInf)
           else Fin (if 0 < x then r else - r))"

subsection \<open>Arithmetic\<close>

fun fneg :: "npfloat \<Rightarrow> npfloat" where
  "fneg (Fin a) = Fin (- a)"
| "fneg PInf = NInf"
| "fneg NInf = PInf"
| "fneg NaN = NaN"

fun fadd :: "rounding \<Rightarrow> npfloat \<Rightarrow> npfloat \<Rightarrow> npfloat" where
  "fadd rnd (Fin a) (Fin b) = rnd (a + b)"
| "fadd rnd NaN _ = NaN"
| "fadd rnd _ NaN = NaN"
| "fadd rnd PInf NInf = NaN"
| "fadd rnd NInf PInf = NaN"
| "fadd rnd PInf _ = PInf"
| "fadd rnd _ PInf = PInf"
| "fadd rnd NInf _ = NInf"
| "fadd rnd _ NInf = NInf"

definition fsub :: "rounding \<Rightarrow> npfloat \<Rightarrow> npfloat \<Rightarrow> npfloat" where
  "fsub rnd x y = fadd rnd x (fneg y)"

text \<open>The sign of a value as a multiplier: \<open>1\<close>, \<open>-1\<close>, or \<open>0\<close> for zero and NaN.\<close>

fun fsign :: "npfloat \<Rightarrow> real" where
  "fsign (Fin a) = sgn a"
| "fsign PInf = 1"
| "fsign NInf = - 1"
| "fsign NaN = 0"

definition inf_of_sign :: "real \<Rightarrow> npfloat" where
  "inf_of_sign s = (if s = 0 then NaN else if 0 < s then PInf else NInf)"

fun fmul :: "rounding \<Rightarrow> npfloat \<Rightarrow> npfloat \<Rightarrow> npfloat" where
  "fmul rnd (Fin a) (Fin b) = rnd (a * b)"
| "fmul rnd NaN _ = NaN"
| "fmul rnd _ NaN = NaN"
| "fmul rnd x y = inf_of_sign (fsign x * fsign y)"

text \<open>
  A finite value divided by zero is an infinity of its sign, and \<open>0/0\<close> is NaN; numpy
  warns and returns them, it does not raise.
\<close>

fun fdiv :: "rounding \<Rightarrow> npfloat \<Rightarrow> npfloat \<Rightarrow> npfloat" where
  "fdiv rnd (Fin a) (Fin b) = (if b = 0 then inf_of_sign (sgn a) else rnd (a / b))"
| "fdiv rnd NaN _ = NaN"
| "fdiv rnd _ NaN = NaN"
| "fdiv rnd (Fin a) _ = Fin 0"
| "fdiv rnd x (Fin b) = inf_of_sign (fsign x * (if b < 0 then - 1 else 1))"
| "fdiv rnd _ _ = NaN"

fun fsqrt :: "rounding \<Rightarrow> npfloat \<Rightarrow> npfloat" where
  "fsqrt rnd (Fin a) = (if a < 0 then NaN else rnd (sqrt a))"
| "fsqrt rnd PInf = PInf"
| "fsqrt rnd NInf = NaN"
| "fsqrt rnd NaN = NaN"


subsection \<open>Arrays\<close>

text \<open>
  A 2-D array of float64 of shape \<open>(nrows, length cols)\<close>, stored by columns. In an
  array that numpy can build every column has \<open>nrows\<close> entries.
\<close>

record ndarray =
  nrows :: nat
  cols :: "npfloat list list"

definition wf_ndarray :: "ndarray \<Rightarrow> bool" where
  "wf_ndarray a = list_all (\<lambda>c. length c = nrows a) (cols a)"

text \<open>
  A 2-D array of int64, and an array of either type as the heap keeps it. numpy
  computes the mean and the standard deviation of an integer array in float64, on the
  entries converted to float64.
\<close>

record intarray =
  int_nrows :: nat
  int_cols :: "int list list"

datatype array = Float64 ndarray | Int64 intarray

fun asfloat :: "rounding \<Rightarrow> array \<Rightarrow> ndarray" where
  "asfloat rnd (Float64 a) = a"
| "asfloat rnd (Int64 a) =
     \<lparr>nrows = int_nrows a, cols = map (map (\<lambda>i. rnd (real_of_int i))) (int_cols a)\<rparr>"

text \<open>
  The sum of one column: the entries are added to the running sum in the order of the
  rows. (On a single contiguous column of eight or more entries numpy adds in blocks;
  the order matters to the rounding only.)
\<close>

definition np_sum :: "rounding \<Rightarrow> npfloat list \<Rightarrow> npfloat" where
  "np_sum rnd c = foldl (fadd rnd) (Fin 0) c"

text \<open>\<open>np.mean\<close> of one column: the sum divided by the number of entries.\<close>

definition np_mean1 :: "rounding \<Rightarrow> npfloat list \<Rightarrow> npfloat" where
  "np_mean1 rnd c = fdiv rnd (np_sum rnd c) (rnd (real (length c)))"

text \<open>
  \<open>np.var\<close> and \<open>np.std\<close> of one column with the default \<open>ddof=0\<close>: the mean of the
  squared deviations from the mean, and its square root.
\<close>

definition np_var1 :: "rounding \<Rightarrow> npfloat list \<Rightarrow> npfloat" where
  "np_var1 rnd c =
     (let m = np_mean1 rnd c;
          d = map (\<lambda>x. fsub rnd x m) c
      in fdiv rnd (np_sum rnd (map (\<lambda>x. fmul rnd x x) d)) (rnd (real (length c))))"

definition np_std1 :: "rounding \<Rightarrow> npfloat list \<Rightarrow> npfloat" where
  "np_std1 rnd c = fsqrt rnd (np_var1 rnd c)"

text \<open>\<open>np.mean(X, axis=0)\<close> and \<open>np.std(X, axis=0)\<close>: one value per column.\<close>

definition np_mean :: "rounding \<Rightarrow> ndarray \<Rightarrow> npfloat list" where
  "np_mean rnd X = map (np_mean1 rnd) (cols X)"

definition np_std :: "rounding \<Rightarrow> ndarray \<Rightarrow> npfloat list" where
  "np_std rnd X = map (np_std1 rnd) (cols X)"

text \<open>
  An in-place operation \<open>Xt op= v\<close> between a 2-D float64 array and a 1-D float64 array
  \<open>v\<close>. Broadcasting pairs column \<open>j\<close> with \<open>v[j]\<close> when \<open>v\<close> has one entry per column,
  and every column with \<open>v[0]\<close> when \<open>v\<close> has a single entry; any other length raises
  ValueError, as the result would not have the shape of \<open>Xt\<close>.
\<close>

definition np_inplace ::
  "(npfloat \<Rightarrow> npfloat \<Rightarrow> npfloat) \<Rightarrow> ndarray \<Rightarrow> npfloat list \<Rightarrow> error + ndarray" where
  "np_inplace f Xt v =
     (if length v = length (cols Xt)
      then Inr (Xt\<lparr>cols := map2 (\<lambda>c m. map (\<lambda>x. f x m) c) (cols Xt) v\<rparr>)
      else if length v = 1
      then Inr (Xt\<lparr>cols := map (map (\<lambda>x. f x (hd v))) (cols Xt)\<rparr>)
      else Inl ValueError)"

text \<open>
  On an int64 array the same statement raises: the float64 result cannot be written
  back to the integers (\<open>UFuncTypeError\<close>, a TypeError). numpy finds this when it
  chooses the loop for the two types, before it looks at the shapes.
\<close>

definition np_inplace_array ::
  "(npfloat \<Rightarrow> npfloat \<Rightarrow> npfloat) \<Rightarrow> array \<Rightarrow> npfloat list \<Rightarrow> error + array" where
  "np_inplace_array f Xt v =
     (case Xt of
        Int64 a \<Rightarrow> Inl TypeError
      | Float64 a \<Rightarrow>
         (case np_inplace f a v of
            Inl e \<Rightarrow> Inl e
          | Inr r \<Rightarrow> Inr (Float64 r)))"

section \<open>pandas: cells, Series and DataFrames\<close>

text \<open>
  One entry of a table: missing (\<open>NaN\<close> or \<open>None\<close>, which pandas treats alike), an
  integer, a float or a string.
\<close>

datatype cell = NA | IntC int | FltC real | StrC string

text \<open>A Series: row labels and the values at them, in row order.\<close>

record series =
  s_index :: "int list"
  s_values :: "cell list"

text \<open>
  A DataFrame: the row labels, and the named columns in their order, each with one
  cell per row label.
\<close>

record dataframe =
  index :: "int list"
  columns :: "(string \<times> cell list) list"

section \<open>The heap\<close>

text \<open>
  Objects live in a heap and are passed by reference, so that a method which changes
  an object in place can be told from one that builds a new object. The heap keeps
  the objects of each class in a list of its own; a reference is a position in the
  list of its class, and a new object is appended.
\<close>

type_synonym ref = nat

text \<open>The attributes of the four transformer classes; \<open>None\<close> is an attribute not set yet.\<close>

record MyScaler =
  mean :: "npfloat list option"
  scale :: "npfloat list option"

record CustomSelector =
  categorical :: bool

record CustomCategoricalImputer =
  fill :: "(string \<times> cell) list option"

record heap =
  arrays :: "array list"
  frames :: "dataframe list"
  scalers :: "MyScaler list"
  selectors :: "CustomSelector list"
  imputers :: "CustomCategoricalImputer list"
  encoders :: "unit list"

text \<open>
  The outcome of a call: the value returned or the exception raised, and the heap the
  call leaves behind in either case.
\<close>

type_synonym 'a hres = "(error + 'a) \<times> heap"

definition lookup :: "'a list \<Rightarrow> ref \<Rightarrow> error + 'a" where
  "lookup xs r = (if r < length xs then Inr (xs ! r) else Inl InvalidRef)"

section \<open>MyScaler\<close>

text \<open>
  \<^verbatim>\<open>
  def fit(self, X, y):
      self.mean = np.mean(X, axis=0)
      self.scale = np.std(X, axis=0)
      return self
  \<close>
  The label argument has no default: a call that leaves it out raises TypeError before
  the body runs. \<open>X\<close> is a reference to a 2-D array of float64 or of int64; the class
  is not modelled on other kinds of tables.
\<close>

definition MyScaler_fit :: "rounding \<Rightarrow> heap \<Rightarrow> ref \<Rightarrow> ref \<Rightarrow> 'y pyarg \<Rightarrow> ref hres" where
  "MyScaler_fit rnd h self X y =
     (case y of
        Omitted \<Rightarrow> (Inl TypeError, h)
      | Passed _ \<Rightarrow>
         (case lookup (scalers h) self of
            Inl e \<Rightarrow> (Inl e, h)
          | Inr s \<Rightarrow>
             (case lookup (arrays h) X of
                Inl e \<Rightarrow> (Inl e, h)
              | Inr a \<Rightarrow>
                 (let s1 = s\<lparr>mean := Some (np_mean rnd (asfloat rnd a))\<rparr>;
                      s2 = s1\<lparr>scale := Some (np_std rnd (asfloat rnd a))\<rparr>
                  in (Inr self, h\<lparr>scalers := (scalers h)[self := s2]\<rparr>)))))"

text \<open>
  \<^verbatim>\<open>
  def transform(self, X):
      Xt = X.copy()
      Xt -= self.mean
      Xt /= self.scale
      return Xt
  \<close>
  The copy is a new array in the heap, of the type of \<open>X\<close>; the two in-place
  operations write to the copy. Nothing stands between the reading of \<open>self.scale\<close>
  and the division.
\<close>

definition MyScaler_transform :: "rounding \<Rightarrow> heap \<Rightarrow> ref \<Rightarrow> ref \<Rightarrow> ref hres" where
  "MyScaler_transform rnd h self X =
     (case lookup (scalers h) self of
        Inl e \<Rightarrow> (Inl e, h)
      | Inr s \<Rightarrow>
         (case lookup (arrays h) X of
            Inl e \<Rightarrow> (Inl e, h)
          | Inr a \<Rightarrow>
             (let Xt = length (arrays h);
                  h1 = h\<lparr>arrays := arrays h @ [a]\<rparr>
              in case mean s of
                   None \<Rightarrow> (Inl AttributeError, h1)
                 | Some m \<Rightarrow>
                    (case np_inplace_array (fsub rnd) a m of
                       Inl e \<Rightarrow> (Inl e, h1)
                     | Inr a1 \<Rightarrow>
                        (let h2 = h1\<lparr>arrays := (arrays h1)[Xt := a1]\<rparr>
                         in case scale s of
                              None \<Rightarrow> (Inl AttributeError, h2)
                            | Some sc \<Rightarrow>
                               (case np_inplace_array (fdiv rnd) a1 sc of
                                  Inl e \<Rightarrow> (Inl e, h2)
                                | Inr a2 \<Rightarrow>
                                   (Inr Xt, h2\<lparr>arrays := (arrays h2)[Xt := a2]\<rparr>)))))))"

section \<open>pandas operations\<close>

subsection \<open>Ordering and counting cells\<close>

text \<open>
  Strings compare character by character on their code points; numbers compare by
  value. A column of more than one kind of value has no order in pandas; the model
  puts numbers before strings, which no result below depends on.
\<close>

fun str_le :: "string \<Rightarrow> string \<Rightarrow> bool" where
  "str_le [] ys = True"
| "str_le (x # xs) [] = False"
| "str_le (x # xs) (y # ys) =
     ((of_char x :: nat) < of_char y \<or> (x = y \<and> str_le xs ys))"

fun num_of :: "cell \<Rightarrow> real option" where
  "num_of (IntC i) = Some (real_of_int i)"
| "num_of (FltC r) = Some r"
| "num_of _ = None"

fun cell_le :: "cell \<Rightarrow> cell \<Rightarrow> bool" where
  "cell_le (StrC s) (StrC t) = str_le s t"
| "cell_le (StrC s) _ = False"
| "cell_le _ (StrC t) = True"
| "cell_le a b = (case (num_of a, num_of b) of
                    (Some x, Some y) \<Rightarrow> x \<le> y
                  | (None, _) \<Rightarrow> True
                  | (_, None) \<Rightarrow> False)"

fun cell_insort :: "cell \<Rightarrow> cell list \<Rightarrow> cell list" where
  "cell_insort v [] = [v]"
| "cell_insort v (w # ws) = (if cell_le v w then v # w # ws else w # cell_insort v ws)"

definition cell_sort :: "cell list \<Rightarrow> cell list" where
  "cell_sort vs = foldr cell_insort vs []"

definition notna :: "cell list \<Rightarrow> cell list" where
  "notna vs = filter (\<lambda>v. v \<noteq> NA) vs"

text \<open>
  The modes of a column: the values other than the missing one that occur most often,
  each once, in ascending order. A column with no value has no mode.
\<close>

definition max_count :: "cell list \<Rightarrow> nat" where
  "max_count xs = foldr max (map (count_list xs) xs) 0"

definition mode_values :: "cell list \<Rightarrow> cell list" where
  "mode_values vs =
     (let xs = notna vs
      in cell_sort (remdups (filter (\<lambda>v. count_list xs v = max_count xs) xs)))"

subsection \<open>Series\<close>

text \<open>\<open>Series.mode()\<close>: the modes, labelled \<open>0, 1, ...\<close>.\<close>

definition Series_mode :: "series \<Rightarrow> series" where
  "Series_mode s =
     (let m = mode_values (s_values s)
      in \<lparr>s_index = map int [0..<length m], s_values = m\<rparr>)"

text \<open>
  \<open>Series.median()\<close>: the median of the values that are not missing, a missing value
  when there is none, and TypeError on a column that holds a string.
\<close>

definition median_sorted :: "real list \<Rightarrow> real" where
  "median_sorted xs =
     (let n = length xs
      in if odd n then xs ! (n div 2)
         else (xs ! (n div 2 - 1) + xs ! (n div 2)) / 2)"

definition Series_median :: "series \<Rightarrow> error + cell" where
  "Series_median s =
     (let vs = notna (s_values s)
      in if list_ex (\<lambda>v. num_of v = None) vs then Inl TypeError
         else if vs = [] then Inr NA
         else Inr (FltC (median_sorted (sort (map (\<lambda>v. the (num_of v)) vs)))))"

text \<open>\<open>fillna\<close> with a scalar: every missing entry becomes the scalar.\<close>

definition fillna_scalar :: "cell list \<Rightarrow> cell \<Rightarrow> cell list" where
  "fillna_scalar vs v = map (\<lambda>c. if c = NA then v else c) vs"

text \<open>
  \<open>fillna\<close> with a Series: the Series is aligned on the row labels, so a missing entry
  at label \<open>l\<close> becomes the value that the Series has at label \<open>l\<close>, and stays missing
  when the Series has no such label.
\<close>

definition fillna_aligned :: "int list \<Rightarrow> cell list \<Rightarrow> series \<Rightarrow> cell list" where
  "fillna_aligned idx vs value =
     map2 (\<lambda>l c. if c = NA
                  then (case map_of (zip (s_index value) (s_values value)) l of
                          None \<Rightarrow> NA
                        | Some v \<Rightarrow> v)
                  else c) idx vs"

subsection \<open>DataFrames\<close>

text \<open>\<open>X[col]\<close>: the column as a Series, KeyError when there is no such column.\<close>

definition getitem :: "dataframe \<Rightarrow> string \<Rightarrow> error + series" where
  "getitem X col =
     (case map_of (columns X) col of
        None \<Rightarrow> Inl (KeyError col)
      | Some vs \<Rightarrow> Inr \<lparr>s_index = index X, s_values = vs\<rparr>)"

text \<open>
  \<open>X[[c1, c2, ...]]\<close>: a new frame of the named columns in the order asked for;
  KeyError (here with the first missing name) when one is absent.
\<close>

fun select_columns ::
  "(string \<times> cell list) list \<Rightarrow> string list \<Rightarrow> error + (string \<times> cell list) list" where
  "select_columns cs [] = Inr []"
| "select_columns cs (n # ns) =
     (case map_of cs n of
        None \<Rightarrow> Inl (KeyError n)
      | Some vs \<Rightarrow>
         (case select_columns cs ns of
            Inl e \<Rightarrow> Inl e
          | Inr r \<Rightarrow> Inr ((n, vs) # r)))"

definition getitem_list :: "dataframe \<Rightarrow> string list \<Rightarrow> error + dataframe" where
  "getitem_list X names =
     (case select_columns (columns X) names of
        Inl e \<Rightarrow> Inl e
      | Inr cs \<Rightarrow> Inr \<lparr>index = index X, columns = cs\<rparr>)"

text \<open>
  The column \<open>col\<close> of the frame replaced by \<open>vs\<close>: what an in-place change to the
  Series \<open>X[col]\<close> does to \<open>X\<close>.
\<close>

definition set_column :: "dataframe \<Rightarrow> string \<Rightarrow> cell list \<Rightarrow> dataframe" where
  "set_column X col vs =
     X\<lparr>columns := map (\<lambda>(n, old). if n = col then (n, vs) else (n, old)) (columns X)\<rparr>"

text \<open>
  \<open>DataFrame.mode()\<close>: the modes of each column, one column beside the other, the
  shorter ones padded with missing values; the rows are labelled \<open>0, 1, ...\<close>.
\<close>

definition DataFrame_mode :: "dataframe \<Rightarrow> dataframe" where
  "DataFrame_mode X =
     (let ms = map (\<lambda>(n, vs). (n, mode_values vs)) (columns X);
          k = foldr max (map (\<lambda>(n, m). length m) ms) 0
      in \<lparr>index = map int [0..<k],
          columns = map (\<lambda>(n, m). (n, m @ replicate (k - length m) NA)) ms\<rparr>)"

text \<open>
  \<open>df.iloc[0]\<close>: the first row, as the value of each column name; IndexError on a
  frame with no row.
\<close>

definition iloc0 :: "dataframe \<Rightarrow> error + (string \<times> cell) list" where
  "iloc0 df =
     (if index df = [] then Inl IndexError
      else Inr (map (\<lambda>(n, vs). (n, case vs of [] \<Rightarrow> NA | v # _ \<Rightarrow> v)) (columns df)))"

text \<open>
  \<open>df.fillna(value)\<close> with a value per column name: a new frame in which the missing
  entries of each column named in \<open>value\<close> are filled with its value there; columns
  not named, or whose value is itself missing, are left as they are.
\<close>

definition DataFrame_fillna :: "dataframe \<Rightarrow> (string \<times> cell) list \<Rightarrow> dataframe" where
  "DataFrame_fillna df value =
     df\<lparr>columns :=
          map (\<lambda>(n, vs). (n, case map_of value n of
                                None \<Rightarrow> vs
                              | Some v \<Rightarrow> fillna_scalar vs v)) (columns df)\<rparr>"

text \<open>
  \<open>df.drop(col, axis=1)\<close>: the frame without the columns named \<open>col\<close>, KeyError when
  there is none.
\<close>

definition drop_column :: "dataframe \<Rightarrow> string \<Rightarrow> error + dataframe" where
  "drop_column df col =
     (if col \<in> set (map fst (columns df))
      then Inr (df\<lparr>columns := filter (\<lambda>(n, vs). n \<noteq> col) (columns df)\<rparr>)
      else Inl (KeyError col))"

text \<open>
  \<open>pd.concat([a, b], axis=1)\<close> for two frames with the same row labels: the columns
  of \<open>b\<close> after those of \<open>a\<close>. The notebook only joins a frame with the indicator
  columns made from one of its own columns, so the labels always agree.
\<close>

definition concat_axis1 :: "dataframe \<Rightarrow> dataframe \<Rightarrow> dataframe" where
  "concat_axis1 a b = \<lparr>index = index a, columns = columns a @ columns b\<rparr>"

text \<open>Python's \<open>str\<close> on an integer.\<close>

definition digit :: "nat \<Rightarrow> char" where
  "digit d = char_of (48 + d)"

function str_nat :: "nat \<Rightarrow> string" where
  "str_nat n = (if n < 10 then [digit n] else str_nat (n div 10) @ [digit (n mod 10)])"
  by pat_completeness auto
termination
  by (relation "measure id") auto

definition str_int :: "int \<Rightarrow> string" where
  "str_int i = (if i < 0 then CHR ''-'' # str_nat (nat (- i)) else str_nat (nat i))"

text \<open>
  \<open>str\<close> of a cell, as it appears in the name of an indicator column. The digits that
  Python prints for a float are given by \<open>fstr\<close>, which is not modelled further.
\<close>

fun str_cell :: "(real \<Rightarrow> string) \<Rightarrow> cell \<Rightarrow> string" where
  "str_cell fstr (StrC s) = s"
| "str_cell fstr (IntC i) = str_int i"
| "str_cell fstr (FltC r) = fstr r"
| "str_cell fstr NA = ''nan''"

text \<open>
  \<open>pd.get_dummies(s, prefix=p, drop_first=True)\<close>: one 0/1 column per distinct value
  of the Series other than the missing one, in ascending order of the values and
  without the first, named \<open>p_value\<close>. A row with a missing value has 0 everywhere.
\<close>

definition get_dummies :: "(real \<Rightarrow> string) \<Rightarrow> series \<Rightarrow> string \<Rightarrow> dataframe" where
  "get_dummies fstr s prefix =
     (let levels = cell_sort (remdups (notna (s_values s)))
      in \<lparr>index = s_index s,
          columns = map (\<lambda>l. (prefix @ ''_'' @ str_cell fstr l,
                               map (\<lambda>v. if v = l then IntC 1 else IntC 0) (s_values s)))
                        (tl levels)\<rparr>)"

section \<open>FunctionTransformer and FeatureUnion\<close>

text \<open>
  \<open>np.sqrt(X)\<close> and \<open>X ** n\<close> work entry by entry and keep the shape. numpy computes
  \<open>x ** 2\<close> as the product \<open>x * x\<close>. (For an exponent above 2 it calls the power function
  of the C library, which the products here follow up to rounding only.)
\<close>

fun fpow :: "rounding \<Rightarrow> npfloat \<Rightarrow> nat \<Rightarrow> npfloat" where
  "fpow rnd x 0 = Fin 1"
| "fpow rnd x (Suc 0) = x"
| "fpow rnd x (Suc (Suc n)) = fmul rnd x (fpow rnd x (Suc n))"

definition np_sqrt :: "rounding \<Rightarrow> ndarray \<Rightarrow> ndarray" where
  "np_sqrt rnd X = X\<lparr>cols := map (map (fsqrt rnd)) (cols X)\<rparr>"

definition np_power :: "rounding \<Rightarrow> ndarray \<Rightarrow> nat \<Rightarrow> ndarray" where
  "np_power rnd X n = X\<lparr>cols := map (map (\<lambda>x. fpow rnd x n)) (cols X)\<rparr>"

text \<open>
  \<open>FunctionTransformer(func)\<close>: \<open>transform\<close> hands \<open>X\<close> to \<open>func\<close> and returns what it
  returns; without a function it returns \<open>X\<close>. \<open>fit\<close> learns nothing.
  The check of the input that some versions of the library make first is not modelled.
\<close>

datatype FunctionTransformer = FunctionTransformer "(ndarray \<Rightarrow> ndarray) option"

fun FunctionTransformer_transform :: "FunctionTransformer \<Rightarrow> ndarray \<Rightarrow> ndarray" where
  "FunctionTransformer_transform (FunctionTransformer None) X = X"
| "FunctionTransformer_transform (FunctionTransformer (Some func)) X = func X"

text \<open>
  \<open>np.hstack\<close> of 2-D arrays: the columns of the first, then those of the second, and
  so on; ValueError when the arrays do not all have the same number of rows or
  there is no array.
\<close>

definition np_hstack :: "ndarray list \<Rightarrow> error + ndarray" where
  "np_hstack bs =
     (case bs of
        [] \<Rightarrow> Inl ValueError
      | b # rest \<Rightarrow>
         if list_all (\<lambda>c. nrows c = nrows b) rest
         then Inr \<lparr>nrows = nrows b, cols = concat (map cols bs)\<rparr>
         else Inl ValueError)"

text \<open>
  \<open>FeatureUnion(transformer_list).fit_transform(X)\<close>: every transformer of the list is
  fitted to \<open>X\<close> and transforms it, and the results are stacked side by side in the
  order of the list.
\<close>

definition FeatureUnion_fit_transform ::
  "(string \<times> FunctionTransformer) list \<Rightarrow> ndarray \<Rightarrow> error + ndarray" where
  "FeatureUnion_fit_transform transformer_list X =
     np_hstack (map (\<lambda>(name, t). FunctionTransformer_transform t X) transformer_list)"

text \<open>
  \<^verbatim>\<open>
  feat_union = FeatureUnion([('identity', FunctionTransformer()),
                      ('sqrt', FunctionTransformer(np.sqrt)),
                      ('square', FunctionTransformer(lambda x: x**2))])
  \<close>
\<close>

definition feat_union :: "rounding \<Rightarrow> (string \<times> FunctionTransformer) list" where
  "feat_union rnd =
     [(''identity'', FunctionTransformer None),
      (''sqrt'', FunctionTransformer (Some (np_sqrt rnd))),
      (''square'', FunctionTransformer (Some (\<lambda>x. np_power rnd x 2)))]"

section \<open>The transformers of the pipeline cell\<close>

text \<open>A frame built by a call becomes a new object of the heap.\<close>

definition new_frame :: "heap \<Rightarrow> dataframe \<Rightarrow> ref hres" where
  "new_frame h df = (Inr (length (frames h)), h\<lparr>frames := frames h @ [df]\<rparr>)"

subsection \<open>CustomSelector\<close>

text \<open>
  \<^verbatim>\<open>
  def __init__(self, categorical=True):
      self.categorical = categorical

  def fit(self, X, y=None):
      return self

  def transform(self, X):
      if self.categorical:
          return X[['Sex', 'Embarked', 'Pclass']]
      else:
          return X[['Fare', 'Age', 'SibSp', 'Parch']]
  \<close>
\<close>

definition CustomSelector_init :: "heap \<Rightarrow> bool pyarg \<Rightarrow> ref hres" where
  "CustomSelector_init h arg =
     (let c = (case arg of Omitted \<Rightarrow> True | Passed b \<Rightarrow> b)
      in (Inr (length (selectors h)),
          h\<lparr>selectors := selectors h @ [\<lparr>categorical = c\<rparr>]\<rparr>))"

definition CustomSelector_fit :: "heap \<Rightarrow> ref \<Rightarrow> ref \<Rightarrow> 'y pyarg \<Rightarrow> ref hres" where
  "CustomSelector_fit h self X y = (Inr self, h)"

definition CustomSelector_transform :: "heap \<Rightarrow> ref \<Rightarrow> ref \<Rightarrow> ref hres" where
  "CustomSelector_transform h self X =
     (case lookup (selectors h) self of
        Inl e \<Rightarrow> (Inl e, h)
      | Inr s \<Rightarrow>
         (case lookup (frames h) X of
            Inl e \<Rightarrow> (Inl e, h)
          | Inr df \<Rightarrow>
             if categorical s
             then (case getitem_list df [''Sex'', ''Embarked'', ''Pclass''] of
                     Inl e \<Rightarrow> (Inl e, h)
                   | Inr r \<Rightarrow> new_frame h r)
             else (case getitem_list df [''Fare'', ''Age'', ''SibSp'', ''Parch''] of
                     Inl e \<Rightarrow> (Inl e, h)
                   | Inr r \<Rightarrow> new_frame h r)))"

subsection \<open>CustomCategoricalImputer\<close>

text \<open>
  \<^verbatim>\<open>
  def fit(self, X, y=None):
      self.fill = X.mode().iloc[0]
      return self

  def transform(self, X):
      return X.fillna(self.fill)
  \<close>
\<close>

definition CustomCategoricalImputer_fit :: "heap \<Rightarrow> ref \<Rightarrow> ref \<Rightarrow> 'y pyarg \<Rightarrow> ref hres" where
  "CustomCategoricalImputer_fit h self X y =
     (case lookup (frames h) X of
        Inl e \<Rightarrow> (Inl e, h)
      | Inr df \<Rightarrow>
         (case iloc0 (DataFrame_mode df) of
            Inl e \<Rightarrow> (Inl e, h)
          | Inr row \<Rightarrow>
             (case lookup (imputers h) self of
                Inl e \<Rightarrow> (Inl e, h)
              | Inr imp \<Rightarrow>
                 (Inr self, h\<lparr>imputers := (imputers h)[self := imp\<lparr>fill := Some row\<rparr>]\<rparr>))))"

definition CustomCategoricalImputer_transform :: "heap \<Rightarrow> ref \<Rightarrow> ref \<Rightarrow> ref hres" where
  "CustomCategoricalImputer_transform h self X =
     (case lookup (frames h) X of
        Inl e \<Rightarrow> (Inl e, h)
      | Inr df \<Rightarrow>
         (case lookup (imputers h) self of
            Inl e \<Rightarrow> (Inl e, h)
          | Inr imp \<Rightarrow>
             (case fill imp of
                None \<Rightarrow> (Inl AttributeError, h)
              | Some value \<Rightarrow> new_frame h (DataFrame_fillna df value))))"

subsection \<open>CustomCategoricalEncoder\<close>

text \<open>
  \<^verbatim>\<open>
  def fit(self, X, y=None):
      return self

  def transform(self, X):
      for col in ['Sex', 'Embarked', 'Pclass']:
          X = pd.concat([X, pd.get_dummies(X[col], prefix=col,
                      drop_first=True)], axis=1)
          X.drop(col, inplace=True, axis=1)
      return X
  \<close>
  In the loop the variable \<open>X\<close> is bound anew to the frame that \<open>pd.concat\<close> builds,
  and the in-place \<open>drop\<close> changes that frame.
\<close>

definition CustomCategoricalEncoder_fit :: "heap \<Rightarrow> ref \<Rightarrow> ref \<Rightarrow> 'y pyarg \<Rightarrow> ref hres" where
  "CustomCategoricalEncoder_fit h self X y = (Inr self, h)"

fun encode_columns :: "(real \<Rightarrow> string) \<Rightarrow> heap \<Rightarrow> ref \<Rightarrow> string list \<Rightarrow> ref hres" where
  "encode_columns fstr h X [] = (Inr X, h)"
| "encode_columns fstr h X (col # rest) =
     (case lookup (frames h) X of
        Inl e \<Rightarrow> (Inl e, h)
      | Inr df \<Rightarrow>
         (case getitem df col of
            Inl e \<Rightarrow> (Inl e, h)
          | Inr s \<Rightarrow>
             (let X' = length (frames h);
                  h1 = h\<lparr>frames := frames h @ [concat_axis1 df (get_dummies fstr s col)]\<rparr>
              in case drop_column (frames h1 ! X') col of
                   Inl e \<Rightarrow> (Inl e, h1)
                 | Inr d \<Rightarrow>
                    encode_columns fstr (h1\<lparr>frames := (frames h1)[X' := d]\<rparr>) X' rest)))"

definition CustomCategoricalEncoder_transform ::
  "(real \<Rightarrow> string) \<Rightarrow> heap \<Rightarrow> ref \<Rightarrow> ref \<Rightarrow> ref hres" where
  "CustomCategoricalEncoder_transform fstr h self X =
     encode_columns fstr h X [''Sex'', ''Embarked'', ''Pclass'']"

section \<open>The imputation of the cell without a pipeline\<close>

text \<open>
  The two partitions that \<open>train_test_split\<close> returns; they are separate frames.
\<close>

record partitions =
  X_train :: dataframe
  X_test :: dataframe

text \<open>
  \<open>target[col].fillna(source[col].median(), inplace=True)\<close>. The Series \<open>target[col]\<close>
  is the column of the frame itself, so filling it in place fills the frame. (The
  cell goes on to standardise \<open>Age\<close>, which fails on a missing value, and it ran.)
\<close>

definition fillna_median_inplace :: "dataframe \<Rightarrow> dataframe \<Rightarrow> string \<Rightarrow> error + dataframe" where
  "fillna_median_inplace target source col =
     (case getitem target col of
        Inl e \<Rightarrow> Inl e
      | Inr s \<Rightarrow>
         (case getitem source col of
            Inl e \<Rightarrow> Inl e
          | Inr t \<Rightarrow>
             (case Series_median t of
                Inl e \<Rightarrow> Inl e
              | Inr m \<Rightarrow> Inr (set_column target col (fillna_scalar (s_values s) m)))))"

text \<open>\<open>target[col].fillna(source[col].mode(), inplace=True)\<close>: the value is a Series.\<close>

definition fillna_mode_inplace :: "dataframe \<Rightarrow> dataframe \<Rightarrow> string \<Rightarrow> error + dataframe" where
  "fillna_mode_inplace target source col =
     (case getitem target col of
        Inl e \<Rightarrow> Inl e
      | Inr s \<Rightarrow>
         (case getitem source col of
            Inl e \<Rightarrow> Inl e
          | Inr t \<Rightarrow>
             Inr (set_column target col
                    (fillna_aligned (s_index s) (s_values s) (Series_mode t)))))"

definition bind :: "error + 'a \<Rightarrow> ('a \<Rightarrow> error + 'b) \<Rightarrow> error + 'b" where
  "bind m f = (case m of Inl e \<Rightarrow> Inl e | Inr v \<Rightarrow> f v)"

text \<open>
  \<^verbatim>\<open>
  X_train['Fare'].fillna(X_test['Fare'].median(), inplace=True)
  X_train['Age'].fillna(X_test['Age'].median(), inplace=True)
  X_train['Embarked'].fillna(X_test['Embarked'].mode(), inplace=True)

  X_test['Fare'].fillna(X_test['Fare'].median(), inplace=True)
  X_test['Age'].fillna(X_test['Age'].median(), inplace=True)
  X_test['Embarked'].fillna(X_test['Embarked'].mode(), inplace=True)
  \<close>
\<close>

definition manual_impute :: "partitions \<Rightarrow> error + partitions" where
  "manual_impute s0 =
     bind (fillna_median_inplace (X_train s0) (X_test s0) ''Fare'') (\<lambda>d.
     let s1 = s0\<lparr>X_train := d\<rparr> in
     bind (fillna_median_inplace (X_train s1) (X_test s1) ''Age'') (\<lambda>d.
     let s2 = s1\<lparr>X_train := d\<rparr> in
     bind (fillna_mode_inplace (X_train s2) (X_test s2) ''Embarked'') (\<lambda>d.
     let s3 = s2\<lparr>X_train := d\<rparr> in
     bind (fillna_median_inplace (X_test s3) (X_test s3) ''Fare'') (\<lambda>d.
     let s4 = s3\<lparr>X_test := d\<rparr> in
     bind (fillna_median_inplace (X_test s4) (X_test s4) ''Age'') (\<lambda>d.
     let s5 = s4\<lparr>X_test := d\<rparr> in
     bind (fillna_mode_inplace (X_test s5) (X_test s5) ''Embarked'') (\<lambda>d.
     Inr (s5\<lparr>X_test := d\<rparr>)))))))"

section \<open>The two Titanic cells, statement by statement\<close>

text \<open>
  What the cells use of scikit-learn, and of pandas and numpy beyond the operations
  modelled above, is a parameter: a record of functions, each returning a value or the
  exception it raises. \<open>'est\<close> is the type of estimator objects, \<open>'pred\<close> of a vector
  of predictions, \<open>'score\<close> of an accuracy.
\<close>

datatype pval = PNone | PInt int | PBool bool | PStr string

type_synonym param_grid = "(string \<times> pval list) list"

text \<open>The objects of the three classes that the pipeline cell defines, as it builds them.\<close>

datatype custom_transformer =
    New_CustomSelector bool
  | New_CustomCategoricalImputer
  | New_CustomCategoricalEncoder

record ('est, 'pred, 'score) library =
  read_csv :: "string \<Rightarrow> error + dataframe"
  train_test_split ::
    "dataframe \<Rightarrow> series \<Rightarrow> series \<Rightarrow> int \<Rightarrow> error + (dataframe \<times> dataframe \<times> series \<times> series)"
  StandardScaler :: "error + 'est"
  Imputer :: "string \<Rightarrow> error + 'est"
  RandomForestClassifier :: "error + 'est"
  custom :: "custom_transformer \<Rightarrow> 'est"
  Pipeline :: "(string \<times> 'est) list \<Rightarrow> error + 'est"
  FeatureUnion :: "(string \<times> 'est) list \<Rightarrow> error + 'est"
  GridSearchCV :: "'est \<Rightarrow> param_grid \<Rightarrow> string \<Rightarrow> int \<Rightarrow> int \<Rightarrow> error + 'est"
  fit :: "'est \<Rightarrow> dataframe \<Rightarrow> series option \<Rightarrow> error + 'est"
  transform :: "'est \<Rightarrow> dataframe \<Rightarrow> error + ndarray"
  predict :: "'est \<Rightarrow> dataframe \<Rightarrow> error + 'pred"
  accuracy_score :: "series \<Rightarrow> 'pred \<Rightarrow> error + 'score"
  setitem_list :: "dataframe \<Rightarrow> string list \<Rightarrow> ndarray \<Rightarrow> error + dataframe"

text \<open>
  The variables of a cell. A variable that no statement has assigned yet is \<open>None\<close>,
  and reading it raises NameError. \<open>printed\<close> is what the cell has printed.
\<close>

record ('est, 'pred, 'score) env =
  v_df :: "dataframe option"
  v_df_features :: "dataframe option"
  v_y :: "series option"
  v_X :: "dataframe option"
  v_X_train :: "dataframe option"
  v_X_test :: "dataframe option"
  v_y_train :: "series option"
  v_y_test :: "series option"
  v_features_to_scale :: "string list option"
  v_scaler :: "'est option"
  v_random_forest_param_list :: "param_grid option"
  v_rf :: "'est option"
  v_g :: "'est option"
  v_num_pipeline :: "'est option"
  v_cat_pipeline :: "'est option"
  v_full_pipeline :: "'est option"
  v_grid :: "'est option"
  v_y_pred :: "'pred option"
  printed :: "(string \<times> 'score) list"

definition var :: "'a option \<Rightarrow> error + 'a" where
  "var v = (case v of None \<Rightarrow> Inl NameError | Some x \<Rightarrow> Inr x)"

text \<open>
  A cell is the list of its statements. They run in order, each on the variables the
  one before left; the first exception ends the run and is its outcome.
\<close>

fun run :: "('s \<Rightarrow> error + 's) list \<Rightarrow> 's \<Rightarrow> error + 's" where
  "run [] s = Inr s"
| "run (c # cs) s = (case c s of Inl e \<Rightarrow> Inl e | Inr s' \<Rightarrow> run cs s')"

text \<open>\<open>np.arange(start, stop, step)\<close> on integers.\<close>

definition np_arange :: "int \<Rightarrow> int \<Rightarrow> int \<Rightarrow> error + int list" where
  "np_arange start stop step =
     (if step = 0 then Inl ZeroDivisionError
      else let n = (if 0 < step then (stop - start + step - 1) div step
                    else (start - stop - step - 1) div (- step))
           in Inr (map (\<lambda>k. start + int k * step) [0..<nat n]))"

text \<open>\<open>df.pop(col)\<close>: the column, and the frame without it.\<close>

definition pop :: "dataframe \<Rightarrow> string \<Rightarrow> error + (series \<times> dataframe)" where
  "pop df col =
     bind (getitem df col) (\<lambda>s.
     bind (drop_column df col) (\<lambda>d. Inr (s, d)))"

subsection \<open>Statements that both cells have\<close>

text \<open>\<^verbatim>\<open>df = pd.read_csv('../data/titanic.csv')\<close>\<close>

definition stmt_read_csv ::
  "('est, 'pred, 'score) library \<Rightarrow> ('est, 'pred, 'score) env \<Rightarrow> error + ('est, 'pred, 'score) env" where
  "stmt_read_csv lib env =
     bind (read_csv lib ''../data/titanic.csv'') (\<lambda>d. Inr (env\<lparr>v_df := Some d\<rparr>))"

text \<open>
  \<^verbatim>\<open>df_features = df[['Sex', 'Embarked', 'Pclass', 'Fare', 'Age', 'SibSp', 'Parch', 'Survived']]\<close>
\<close>

definition stmt_select_features ::
  "('est, 'pred, 'score) env \<Rightarrow> error + ('est, 'pred, 'score) env" where
  "stmt_select_features env =
     bind (var (v_df env)) (\<lambda>df.
     bind (getitem_list df [''Sex'', ''Embarked'', ''Pclass'', ''Fare'', ''Age'', ''SibSp'',
                            ''Parch'', ''Survived'']) (\<lambda>d.
     Inr (env\<lparr>v_df_features := Some d\<rparr>)))"

text \<open>\<^verbatim>\<open>y = df_features.pop('Survived')\<close>; the frame loses the column.\<close>

definition stmt_pop_Survived ::
  "('est, 'pred, 'score) env \<Rightarrow> error + ('est, 'pred, 'score) env" where
  "stmt_pop_Survived env =
     bind (var (v_df_features env)) (\<lambda>df_features.
     bind (pop df_features ''Survived'') (\<lambda>(s, d).
     Inr (env\<lparr>v_y := Some s, v_df_features := Some d\<rparr>)))"

text \<open>\<^verbatim>\<open>X = df_features\<close>\<close>

definition stmt_X ::
  "('est, 'pred, 'score) env \<Rightarrow> error + ('est, 'pred, 'score) env" where
  "stmt_X env =
     bind (var (v_df_features env)) (\<lambda>df_features. Inr (env\<lparr>v_X := Some df_features\<rparr>))"

text \<open>
  \<^verbatim>\<open>X_train, X_test, y_train, y_test = train_test_split(X, y, stratify=y, random_state=0)\<close>
\<close>

definition stmt_train_test_split ::
  "('est, 'pred, 'score) library \<Rightarrow> ('est, 'pred, 'score) env \<Rightarrow> error + ('est, 'pred, 'score) env" where
  "stmt_train_test_split lib env =
     bind (var (v_X env)) (\<lambda>X.
     bind (var (v_y env)) (\<lambda>y.
     bind (train_test_split lib X y y 0) (\<lambda>(a, b, c, d).
     Inr (env\<lparr>v_X_train := Some a, v_X_test := Some b,
              v_y_train := Some c, v_y_test := Some d\<rparr>))))"

text \<open>\<^verbatim>\<open>y_pred = g.predict(X_test)\<close>, for the search object in \<open>g\<close> or in \<open>grid\<close>.\<close>

definition stmt_predict ::
  "('est, 'pred, 'score) library \<Rightarrow> (('est, 'pred, 'score) env \<Rightarrow> 'est option) \<Rightarrow>
   ('est, 'pred, 'score) env \<Rightarrow> error + ('est, 'pred, 'score) env" where
  "stmt_predict lib search env =
     bind (var (search env)) (\<lambda>g.
     bind (var (v_X_test env)) (\<lambda>X_test.
     bind (predict lib g X_test) (\<lambda>p. Inr (env\<lparr>v_y_pred := Some p\<rparr>))))"

text \<open>\<^verbatim>\<open>print('Final Model Accuracy: ', accuracy_score(y_test, y_pred))\<close>\<close>

definition stmt_print_accuracy ::
  "('est, 'pred, 'score) library \<Rightarrow> ('est, 'pred, 'score) env \<Rightarrow> error + ('est, 'pred, 'score) env" where
  "stmt_print_accuracy lib env =
     bind (var (v_y_test env)) (\<lambda>y_test.
     bind (var (v_y_pred env)) (\<lambda>y_pred.
     bind (accuracy_score lib y_test y_pred) (\<lambda>a.
     Inr (env\<lparr>printed := printed env @ [(''Final Model Accuracy: '', a)]\<rparr>))))"

subsection \<open>Statements of the cell without a pipeline\<close>

text \<open>The six \<open>fillna\<close> statements, by the partition they fill and the statistic.\<close>

definition stmt_train_fillna_median ::
  "string \<Rightarrow> ('est, 'pred, 'score) env \<Rightarrow> error + ('est, 'pred, 'score) env" where
  "stmt_train_fillna_median col env =
     bind (var (v_X_train env)) (\<lambda>X_train.
     bind (var (v_X_test env)) (\<lambda>X_test.
     bind (fillna_median_inplace X_train X_test col) (\<lambda>d.
     Inr (env\<lparr>v_X_train := Some d\<rparr>))))"

definition stmt_train_fillna_mode ::
  "string \<Rightarrow> ('est, 'pred, 'score) env \<Rightarrow> error + ('est, 'pred, 'score) env" where
  "stmt_train_fillna_mode col env =
     bind (var (v_X_train env)) (\<lambda>X_train.
     bind (var (v_X_test env)) (\<lambda>X_test.
     bind (fillna_mode_inplace X_train X_test col) (\<lambda>d.
     Inr (env\<lparr>v_X_train := Some d\<rparr>))))"

definition stmt_test_fillna_median ::
  "string \<Rightarrow> ('est, 'pred, 'score) env \<Rightarrow> error + ('est, 'pred, 'score) env" where
  "stmt_test_fillna_median col env =
     bind (var (v_X_test env)) (\<lambda>X_test.
     bind (fillna_median_inplace X_test X_test col) (\<lambda>d.
     Inr (env\<lparr>v_X_test := Some d\<rparr>)))"

definition stmt_test_fillna_mode ::
  "string \<Rightarrow> ('est, 'pred, 'score) env \<Rightarrow> error + ('est, 'pred, 'score) env" where
  "stmt_test_fillna_mode col env =
     bind (var (v_X_test env)) (\<lambda>X_test.
     bind (fillna_mode_inplace X_test X_test col) (\<lambda>d.
     Inr (env\<lparr>v_X_test := Some d\<rparr>)))"

text \<open>
  \<^verbatim>\<open>
  for col in ['Sex', 'Embarked', 'Pclass']:
      X_train = pd.concat([X_train, pd.get_dummies(X_train[col], prefix=col,
                          drop_first=True)], axis=1)
      X_train.drop(col, inplace=True, axis=1)
      X_test = pd.concat([X_test, pd.get_dummies(X_test[col],
                          prefix=col, drop_first=True)], axis=1)
      X_test.drop(col, inplace=True, axis=1)
  \<close>
  The four statements of the body, for one column.
\<close>

definition stmt_train_dummies ::
  "(real \<Rightarrow> string) \<Rightarrow> string \<Rightarrow> ('est, 'pred, 'score) env \<Rightarrow> error + ('est, 'pred, 'score) env" where
  "stmt_train_dummies fstr col env =
     bind (var (v_X_train env)) (\<lambda>X_train.
     bind (getitem X_train col) (\<lambda>s.
     Inr (env\<lparr>v_X_train := Some (concat_axis1 X_train (get_dummies fstr s col))\<rparr>)))"

definition stmt_train_drop ::
  "string \<Rightarrow> ('est, 'pred, 'score) env \<Rightarrow> error + ('est, 'pred, 'score) env" where
  "stmt_train_drop col env =
     bind (var (v_X_train env)) (\<lambda>X_train.
     bind (drop_column X_train col) (\<lambda>d. Inr (env\<lparr>v_X_train := Some d\<rparr>)))"

definition stmt_test_dummies ::
  "(real \<Rightarrow> string) \<Rightarrow> string \<Rightarrow> ('est, 'pred, 'score) env \<Rightarrow> error + ('est, 'pred, 'score) env" where
  "stmt_test_dummies fstr col env =
     bind (var (v_X_test env)) (\<lambda>X_test.
     bind (getitem X_test col) (\<lambda>s.
     Inr (env\<lparr>v_X_test := Some (concat_axis1 X_test (get_dummies fstr s col))\<rparr>)))"

definition stmt_test_drop ::
  "string \<Rightarrow> ('est, 'pred, 'score) env \<Rightarrow> error + ('est, 'pred, 'score) env" where
  "stmt_test_drop col env =
     bind (var (v_X_test env)) (\<lambda>X_test.
     bind (drop_column X_test col) (\<lambda>d. Inr (env\<lparr>v_X_test := Some d\<rparr>)))"

definition one_hot_loop ::
  "(real \<Rightarrow> string) \<Rightarrow> (('est, 'pred, 'score) env \<Rightarrow> error + ('est, 'pred, 'score) env) list" where
  "one_hot_loop fstr =
     concat (map (\<lambda>col. [stmt_train_dummies fstr col, stmt_train_drop col,
                          stmt_test_dummies fstr col, stmt_test_drop col])
                 [''Sex'', ''Embarked'', ''Pclass''])"

text \<open>\<^verbatim>\<open>features_to_scale = ['Fare', 'Age', 'SibSp', 'Parch']\<close>\<close>

definition stmt_features_to_scale ::
  "('est, 'pred, 'score) env \<Rightarrow> error + ('est, 'pred, 'score) env" where
  "stmt_features_to_scale env =
     Inr (env\<lparr>v_features_to_scale := Some [''Fare'', ''Age'', ''SibSp'', ''Parch'']\<rparr>)"

text \<open>\<^verbatim>\<open>scaler = StandardScaler()\<close>\<close>

definition stmt_scaler ::
  "('est, 'pred, 'score) library \<Rightarrow> ('est, 'pred, 'score) env \<Rightarrow> error + ('est, 'pred, 'score) env" where
  "stmt_scaler lib env =
     bind (StandardScaler lib) (\<lambda>s. Inr (env\<lparr>v_scaler := Some s\<rparr>))"

text \<open>\<^verbatim>\<open>scaler.fit(X_train[features_to_scale])\<close>; the scaler object is then the fitted one.\<close>

definition stmt_scaler_fit ::
  "('est, 'pred, 'score) library \<Rightarrow> ('est, 'pred, 'score) env \<Rightarrow> error + ('est, 'pred, 'score) env" where
  "stmt_scaler_fit lib env =
     bind (var (v_scaler env)) (\<lambda>scaler.
     bind (var (v_X_train env)) (\<lambda>X_train.
     bind (var (v_features_to_scale env)) (\<lambda>features_to_scale.
     bind (getitem_list X_train features_to_scale) (\<lambda>sel.
     bind (fit lib scaler sel None) (\<lambda>fitted.
     Inr (env\<lparr>v_scaler := Some fitted\<rparr>))))))"

text \<open>
  \<^verbatim>\<open>X_train[features_to_scale] = scaler.transform(X_train[features_to_scale])\<close> and the
  same for \<open>X_test\<close>. The right-hand side is evaluated first.
\<close>

definition stmt_scale_train ::
  "('est, 'pred, 'score) library \<Rightarrow> ('est, 'pred, 'score) env \<Rightarrow> error + ('est, 'pred, 'score) env" where
  "stmt_scale_train lib env =
     bind (var (v_scaler env)) (\<lambda>scaler.
     bind (var (v_X_train env)) (\<lambda>X_train.
     bind (var (v_features_to_scale env)) (\<lambda>features_to_scale.
     bind (getitem_list X_train features_to_scale) (\<lambda>sel.
     bind (transform lib scaler sel) (\<lambda>scaled.
     bind (setitem_list lib X_train features_to_scale scaled) (\<lambda>d.
     Inr (env\<lparr>v_X_train := Some d\<rparr>)))))))"

definition stmt_scale_test ::
  "('est, 'pred, 'score) library \<Rightarrow> ('est, 'pred, 'score) env \<Rightarrow> error + ('est, 'pred, 'score) env" where
  "stmt_scale_test lib env =
     bind (var (v_scaler env)) (\<lambda>scaler.
     bind (var (v_X_test env)) (\<lambda>X_test.
     bind (var (v_features_to_scale env)) (\<lambda>features_to_scale.
     bind (getitem_list X_test features_to_scale) (\<lambda>sel.
     bind (transform lib scaler sel) (\<lambda>scaled.
     bind (setitem_list lib X_test features_to_scale scaled) (\<lambda>d.
     Inr (env\<lparr>v_X_test := Some d\<rparr>)))))))"

text \<open>
  \<^verbatim>\<open>
  random_forest_param_list = {"max_depth": [None],
            "max_features": np.arange(1,9, 1),
            "min_samples_split": np.arange(2,100,10),
            "min_samples_leaf": np.arange(2,100, 100),
            "bootstrap": [True, False],
            "n_estimators" :[100,200, 300],
            "criterion": ["gini"]}
  \<close>
  In the pipeline cell every key has the prefix \<open>rf__\<close>.
\<close>

definition stmt_random_forest_param_list ::
  "string \<Rightarrow> ('est, 'pred, 'score) env \<Rightarrow> error + ('est, 'pred, 'score) env" where
  "stmt_random_forest_param_list prefix env =
     bind (np_arange 1 9 1) (\<lambda>max_features.
     bind (np_arange 2 100 10) (\<lambda>min_samples_split.
     bind (np_arange 2 100 100) (\<lambda>min_samples_leaf.
     Inr (env\<lparr>v_random_forest_param_list := Some
            [(prefix @ ''max_depth'', [PNone]),
             (prefix @ ''max_features'', map PInt max_features),
             (prefix @ ''min_samples_split'', map PInt min_samples_split),
             (prefix @ ''min_samples_leaf'', map PInt min_samples_leaf),
             (prefix @ ''bootstrap'', [PBool True, PBool False]),
             (prefix @ ''n_estimators'', [PInt 100, PInt 200, PInt 300]),
             (prefix @ ''criterion'', [PStr ''gini''])]\<rparr>))))"

text \<open>\<^verbatim>\<open>rf = RandomForestClassifier()\<close>\<close>

definition stmt_rf ::
  "('est, 'pred, 'score) library \<Rightarrow> ('est, 'pred, 'score) env \<Rightarrow> error + ('est, 'pred, 'score) env" where
  "stmt_rf lib env =
     bind (RandomForestClassifier lib) (\<lambda>r. Inr (env\<lparr>v_rf := Some r\<rparr>))"

text \<open>
  \<^verbatim>\<open>g = GridSearchCV(rf, random_forest_param_list, scoring='accuracy', cv=3, n_jobs=-1)\<close>
\<close>

definition stmt_g ::
  "('est, 'pred, 'score) library \<Rightarrow> ('est, 'pred, 'score) env \<Rightarrow> error + ('est, 'pred, 'score) env" where
  "stmt_g lib env =
     bind (var (v_rf env)) (\<lambda>rf.
     bind (var (v_random_forest_param_list env)) (\<lambda>params.
     bind (GridSearchCV lib rf params ''accuracy'' 3 (- 1)) (\<lambda>g.
     Inr (env\<lparr>v_g := Some g\<rparr>))))"

text \<open>\<^verbatim>\<open>g.fit(X_train, y_train)\<close>; the search object is then the fitted one.\<close>

definition stmt_g_fit ::
  "('est, 'pred, 'score) library \<Rightarrow> ('est, 'pred, 'score) env \<Rightarrow> error + ('est, 'pred, 'score) env" where
  "stmt_g_fit lib env =
     bind (var (v_g env)) (\<lambda>g.
     bind (var (v_X_train env)) (\<lambda>X_train.
     bind (var (v_y_train env)) (\<lambda>y_train.
     bind (fit lib g X_train (Some y_train)) (\<lambda>fitted.
     Inr (env\<lparr>v_g := Some fitted\<rparr>)))))"

text \<open>
  The cell from \<open># Load data\<close> to its last line. The imports and the setting of
  \<open>pd.options\<close> before it are not modelled.
\<close>

definition manual_cell ::
  "('est, 'pred, 'score) library \<Rightarrow> (real \<Rightarrow> string) \<Rightarrow>
   (('est, 'pred, 'score) env \<Rightarrow> error + ('est, 'pred, 'score) env) list" where
  "manual_cell lib fstr =
     [stmt_read_csv lib,
      stmt_select_features,
      stmt_pop_Survived,
      stmt_X,
      stmt_train_test_split lib,
      stmt_train_fillna_median ''Fare'',
      stmt_train_fillna_median ''Age'',
      stmt_train_fillna_mode ''Embarked'',
      stmt_test_fillna_median ''Fare'',
      stmt_test_fillna_median ''Age'',
      stmt_test_fillna_mode ''Embarked'']
     @ one_hot_loop fstr @
     [stmt_features_to_scale,
      stmt_scaler lib,
      stmt_scaler_fit lib,
      stmt_scale_train lib,
      stmt_scale_test lib,
      stmt_random_forest_param_list [],
      stmt_rf lib,
      stmt_g lib,
      stmt_g_fit lib,
      stmt_predict lib v_g,
      stmt_print_accuracy lib]"

subsection \<open>Statements of the cell with the pipeline\<close>

text \<open>
  \<^verbatim>\<open>
  num_pipeline = Pipeline([
      ('selector', CustomSelector(categorical=False)),
      ('imputer', Imputer(strategy='median')),
      ('scaler', StandardScaler()),
  ])
  \<close>
\<close>

definition stmt_num_pipeline ::
  "('est, 'pred, 'score) library \<Rightarrow> ('est, 'pred, 'score) env \<Rightarrow> error + ('est, 'pred, 'score) env" where
  "stmt_num_pipeline lib env =
     bind (Imputer lib ''median'') (\<lambda>imputer.
     bind (StandardScaler lib) (\<lambda>scaler.
     bind (Pipeline lib [(''selector'', custom lib (New_CustomSelector False)),
                         (''imputer'', imputer),
                         (''scaler'', scaler)]) (\<lambda>p.
     Inr (env\<lparr>v_num_pipeline := Some p\<rparr>))))"

text \<open>
  \<^verbatim>\<open>
  cat_pipeline = Pipeline([
      ('selector', CustomSelector(categorical=True)),
      ('imputer', CustomCategoricalImputer()),
      ('cat_encoder', CustomCategoricalEncoder())
  ])
  \<close>
\<close>

definition stmt_cat_pipeline ::
  "('est, 'pred, 'score) library \<Rightarrow> ('est, 'pred, 'score) env \<Rightarrow> error + ('est, 'pred, 'score) env" where
  "stmt_cat_pipeline lib env =
     bind (Pipeline lib [(''selector'', custom lib (New_CustomSelector True)),
                         (''imputer'', custom lib New_CustomCategoricalImputer),
                         (''cat_encoder'', custom lib New_CustomCategoricalEncoder)]) (\<lambda>p.
     Inr (env\<lparr>v_cat_pipeline := Some p\<rparr>))"

text \<open>
  \<^verbatim>\<open>
  full_pipeline = Pipeline([
      ('feat_union', FeatureUnion(transformer_list=[
      ('num_pipeline', num_pipeline),
      ('cat_pipeline', cat_pipeline),
      ])),
      ('rf', RandomForestClassifier())
  ])
  \<close>
\<close>

definition stmt_full_pipeline ::
  "('est, 'pred, 'score) library \<Rightarrow> ('est, 'pred, 'score) env \<Rightarrow> error + ('est, 'pred, 'score) env" where
  "stmt_full_pipeline lib env =
     bind (var (v_num_pipeline env)) (\<lambda>num_pipeline.
     bind (var (v_cat_pipeline env)) (\<lambda>cat_pipeline.
     bind (FeatureUnion lib [(''num_pipeline'', num_pipeline),
                             (''cat_pipeline'', cat_pipeline)]) (\<lambda>u.
     bind (RandomForestClassifier lib) (\<lambda>rf.
     bind (Pipeline lib [(''feat_union'', u), (''rf'', rf)]) (\<lambda>p.
     Inr (env\<lparr>v_full_pipeline := Some p\<rparr>))))))"

text \<open>
  \<^verbatim>\<open>
  grid = GridSearchCV(full_pipeline, param_grid=random_forest_param_list,
                      scoring='accuracy', cv=3, n_jobs=-1)
  grid.fit(X_train, y_train)
  \<close>
\<close>

definition stmt_grid ::
  "('est, 'pred, 'score) library \<Rightarrow> ('est, 'pred, 'score) env \<Rightarrow> error + ('est, 'pred, 'score) env" where
  "stmt_grid lib env =
     bind (var (v_full_pipeline env)) (\<lambda>full_pipeline.
     bind (var (v_random_forest_param_list env)) (\<lambda>params.
     bind (GridSearchCV lib full_pipeline params ''accuracy'' 3 (- 1)) (\<lambda>g.
     Inr (env\<lparr>v_grid := Some g\<rparr>))))"

definition stmt_grid_fit ::
  "('est, 'pred, 'score) library \<Rightarrow> ('est, 'pred, 'score) env \<Rightarrow> error + ('est, 'pred, 'score) env" where
  "stmt_grid_fit lib env =
     bind (var (v_grid env)) (\<lambda>grid.
     bind (var (v_X_train env)) (\<lambda>X_train.
     bind (var (v_y_train env)) (\<lambda>y_train.
     bind (fit lib grid X_train (Some y_train)) (\<lambda>fitted.
     Inr (env\<lparr>v_grid := Some fitted\<rparr>)))))"

text \<open>The cell from \<open># Load data\<close> to its last line; the class definitions before it bind names only.\<close>

definition pipeline_cell ::
  "('est, 'pred, 'score) library \<Rightarrow>
   (('est, 'pred, 'score) env \<Rightarrow> error + ('est, 'pred, 'score) env) list" where
  "pipeline_cell lib =
     [stmt_read_csv lib,
      stmt_select_features,
      stmt_pop_Survived,
      stmt_X,
      stmt_train_test_split lib,
      stmt_num_pipeline lib,
      stmt_cat_pipeline lib,
      stmt_full_pipeline lib,
      stmt_random_forest_param_list ''rf__'',
      stmt_grid lib,
      stmt_grid_fit lib,
      stmt_predict lib v_grid,
      stmt_print_accuracy lib]"

section \<open>What a call leaves of the heap\<close>

text \<open>
  Every object that was in the heap before a call is still there, at the same
  reference and with the same contents; the call may only have added objects.
\<close>

definition old_objects_unchanged :: "heap \<Rightarrow> heap \<Rightarrow> bool" where
  "old_objects_unchanged h h' =
     (take (length (arrays h)) (arrays h') = arrays h
    \<and> take (length (frames h)) (frames h') = frames h
    \<and> scalers h' = scalers h \<and> selectors h' = selectors h
    \<and> imputers h' = imputers h \<and> encoders h' = encoders h)"

section \<open>Example data\<close>


text \<open>
  A heap with three arrays of one column and a scaler that has not been fitted: the
  column \<open>2^53, 2^53, 2^53 + 4\<close>, whose mean \<open>2^53 + 4/3\<close> is not a float64; a column
  that is three times the float64 nearest to 0.1; and a column of integers.
\<close>

definition example_heap_columns :: heap where
  "example_heap_columns =
     \<lparr>arrays =
        [Float64 \<lparr>nrows = 3,
                  cols = [[Fin 9007199254740992, Fin 9007199254740992, Fin 9007199254740996]]\<rparr>,
         Float64 \<lparr>nrows = 3,
                  cols = [[Fin (3602879701896397 / 36028797018963968),
                           Fin (3602879701896397 / 36028797018963968),
                           Fin (3602879701896397 / 36028797018963968)]]\<rparr>,
         Int64 \<lparr>int_nrows = 2, int_cols = [[1, 3]]\<rparr>],
      frames = [], scalers = [\<lparr>mean = None, scale = None\<rparr>],
      selectors = [], imputers = [], encoders = []\<rparr>"

text \<open>Three passengers, with the seven feature columns of the notebook.\<close>

definition example_frame :: dataframe where
  "example_frame =
     \<lparr>index = [0, 1, 2],
      columns =
        [(''Sex'', [StrC ''male'', StrC ''female'', StrC ''male'']),
         (''Embarked'', [StrC ''S'', NA, StrC ''C'']),
         (''Pclass'', [IntC 3, IntC 1, IntC 3]),
         (''Fare'', [FltC 7, FltC 71, NA]),
         (''Age'', [FltC 22, NA, FltC 26]),
         (''SibSp'', [IntC 1, IntC 1, IntC 0]),
         (''Parch'', [IntC 0, IntC 0, IntC 0])]\<rparr>"

text \<open>
  A heap with an array whose first column is constant, the frame above, and one
  transformer of each class, the scaler and the imputer fitted.
\<close>

definition example_heap_fitted :: heap where
  "example_heap_fitted =
     \<lparr>arrays = [Float64 \<lparr>nrows = 2, cols = [[Fin 5, Fin 5], [Fin 0, Fin 4]]\<rparr>],
      frames = [example_frame],
      scalers = [\<lparr>mean = Some [Fin 5, Fin 2], scale = Some [Fin 1, Fin 2]\<rparr>],
      selectors = [\<lparr>categorical = True\<rparr>],
      imputers = [\<lparr>fill = Some [(''Sex'', StrC ''male''), (''Embarked'', StrC ''S''),
                                 (''Pclass'', IntC 3)]\<rparr>],
      encoders = [()]\<rparr>"

text \<open>
  A frame with a column that is missing throughout and a column in which the missing
  value is the most frequent entry; a frame with no value at all; a heap with both
  and an imputer that has not been fitted.
\<close>

definition example_frame_blank :: dataframe where
  "example_frame_blank =
     \<lparr>index = [0, 1, 2],
      columns = [(''Cabin'', [NA, NA, NA]), (''Embarked'', [NA, NA, StrC ''S''])]\<rparr>"

definition example_frame_all_missing :: dataframe where
  "example_frame_all_missing =
     \<lparr>index = [0, 1], columns = [(''Embarked'', [NA, NA])]\<rparr>"

definition example_heap_missing :: heap where
  "example_heap_missing =
     \<lparr>arrays = [], frames = [example_frame_blank, example_frame_all_missing],
      scalers = [], selectors = [], imputers = [\<lparr>fill = None\<rparr>], encoders = []\<rparr>"

text \<open>
  Two partitions of five passengers with the row labels 0 to 4. The medians of \<open>Fare\<close>
  are 20 in the training partition and 8 in the test partition.
\<close>

definition example_split :: partitions where
  "example_split =
     \<lparr>X_train =
        \<lparr>index = [3, 0, 2],
         columns =
           [(''Sex'', [StrC ''male'', StrC ''female'', StrC ''male'']),
            (''Embarked'', [NA, NA, StrC ''Q'']),
            (''Pclass'', [IntC 3, IntC 1, IntC 3]),
            (''Fare'', [NA, FltC 10, FltC 30]),
            (''Age'', [NA, FltC 40, NA]),
            (''SibSp'', [IntC 1, IntC 1, IntC 0]),
            (''Parch'', [IntC 0, IntC 0, IntC 0])]\<rparr>,
      X_test =
        \<lparr>index = [1, 4],
         columns =
           [(''Sex'', [StrC ''female'', StrC ''male'']),
            (''Embarked'', [StrC ''S'', NA]),
            (''Pclass'', [IntC 2, IntC 3]),
            (''Fare'', [FltC 8, NA]),
            (''Age'', [FltC 20, FltC 30]),
            (''SibSp'', [IntC 0, IntC 0]),
            (''Parch'', [IntC 0, IntC 1])]\<rparr>\<rparr>"

text \<open>The variables of a cell before its first statement.\<close>

definition empty_env :: "(nat, unit, unit) env" where
  "empty_env =
     \<lparr>v_df = None, v_df_features = None, v_y = None, v_X = None, v_X_train = None,
      v_X_test = None, v_y_train = None, v_y_test = None, v_features_to_scale = None,
      v_scaler = None, v_random_forest_param_list = None, v_rf = None, v_g = None,
      v_num_pipeline = None, v_cat_pipeline = None, v_full_pipeline = None, v_grid = None,
      v_y_pred = None, printed = []\<rparr>"

text \<open>The three passengers again, as the file holds them: with the label \<open>Survived\<close>.\<close>

definition example_titanic :: dataframe where
  "example_titanic =
     \<lparr>index = [0, 1, 2],
      columns =
        [(''Sex'', [StrC ''male'', StrC ''female'', StrC ''male'']),
         (''Embarked'', [StrC ''S'', NA, StrC ''C'']),
         (''Pclass'', [IntC 3, IntC 1, IntC 3]),
         (''Fare'', [FltC 7, FltC 71, NA]),
         (''Age'', [FltC 22, NA, FltC 26]),
         (''SibSp'', [IntC 1, IntC 1, IntC 0]),
         (''Parch'', [IntC 0, IntC 0, IntC 0]),
         (''Survived'', [IntC 0, IntC 1, IntC 1])]\<rparr>"

text \<open>
  A stand-in for the library, for the examples: the files are the given ones, the
  split returns the table as both partitions, estimators are numbers (0 a scaler or
  imputer, 1 a forest, 2 a pipeline or union, 3 a grid search), and fitting a grid
  search fails with ValueError, as it does for a parameter the estimator does not have.
\<close>

definition example_library :: "(string \<times> dataframe) list \<Rightarrow> (nat, unit, unit) library" where
  "example_library files =
     \<lparr>read_csv = (\<lambda>path. case map_of files path of
                             None \<Rightarrow> Inl FileNotFoundError
                           | Some d \<Rightarrow> Inr d),
      train_test_split = (\<lambda>X y stratify random_state. Inr (X, X, y, y)),
      StandardScaler = Inr 0,
      Imputer = (\<lambda>strategy. Inr 0),
      RandomForestClassifier = Inr 1,
      custom = (\<lambda>c. 0),
      Pipeline = (\<lambda>steps. Inr 2),
      FeatureUnion = (\<lambda>transformer_list. Inr 2),
      GridSearchCV = (\<lambda>estimator param_grid scoring cv n_jobs. Inr 3),
      fit = (\<lambda>est X y. if est = 3 then Inl ValueError else Inr est),
      transform = (\<lambda>est X. Inr \<lparr>nrows = length (index X), cols = []\<rparr>),
      predict = (\<lambda>est X. Inr ()),
      accuracy_score = (\<lambda>y_true y_pred. Inr ()),
      setitem_list = (\<lambda>X names values. Inr X)\<rparr>"


section \<open>Properties of the numpy model\<close>

subsection \<open>Evaluating the rounding\<close>

lemma exponent_up_numeral:
  "exponent_up (numeral k) a e =
     (if a < 2 then e else exponent_up (pred_numeral k) (a / 2) (e + 1))"
  by (simp add: numeral_eq_Suc)

lemma exponent_down_numeral:
  "exponent_down (numeral k) a e =
     (if 1 \<le> a then e else exponent_down (pred_numeral k) (2 * a) (e - 1))"
  by (simp add: numeral_eq_Suc)

lemmas float64_eval =
  float64_def exponent_def exponent_up_numeral exponent_down_numeral pow2_def
  round_half_even_def Let_def

lemma exact_eq_Fin: "exact = Fin"
  by (rule ext) (simp add: exact_def)

subsection \<open>Arithmetic that never rounds\<close>



















subsection \<open>A quotient by zero\<close>


section \<open>The fit and the transform of MyScaler\<close>

lemma lookup_Inr [simp]: "r < length xs \<Longrightarrow> lookup xs r = Inr (xs ! r)"
  by (simp add: lookup_def)

lemma MyScaler_update_all:
  "(s::MyScaler)\<lparr>mean := a, scale := b\<rparr> = \<lparr>mean = a, scale = b\<rparr>"
  by (cases s) simp

lemma MyScaler_fit_Passed:
  assumes "self < length (scalers h)" and "X < length (arrays h)"
  shows "MyScaler_fit rnd h self X (Passed y) =
           (Inr self, h\<lparr>scalers := (scalers h)[self :=
              \<lparr>mean = Some (np_mean rnd (asfloat rnd (arrays h ! X))),
               scale = Some (np_std rnd (asfloat rnd (arrays h ! X)))\<rparr>]\<rparr>)"
  using assms by (simp add: MyScaler_fit_def Let_def MyScaler_update_all)

lemma MyScaler_transform_ok:
  assumes "self < length (scalers h)" and "X < length (arrays h)"
    and "arrays h ! X = Float64 a"
    and "mean (scalers h ! self) = Some m" and "scale (scalers h ! self) = Some sc"
    and "length m = length (cols a)" and "length sc = length (cols a)"
  shows "MyScaler_transform rnd h self X =
           (Inr (length (arrays h)),
            h\<lparr>arrays := arrays h @
               [Float64 (a\<lparr>cols := map2 (\<lambda>c d. map (\<lambda>x. fdiv rnd x d) c)
                   (map2 (\<lambda>c d. map (\<lambda>x. fsub rnd x d) c) (cols a) m) sc\<rparr>)]\<rparr>)"
  using assms
  by (simp add: MyScaler_transform_def Let_def np_inplace_array_def np_inplace_def)

lemma MyScaler_transform_Int64:
  assumes "self < length (scalers h)" and "X < length (arrays h)"
    and "arrays h ! X = Int64 a" and "mean (scalers h ! self) = Some m"
  shows "MyScaler_transform rnd h self X =
           (Inl TypeError, h\<lparr>arrays := arrays h @ [Int64 a]\<rparr>)"
  using assms
  by (simp add: MyScaler_transform_def Let_def np_inplace_array_def)









section \<open>The division by the stored standard deviation\<close>










section \<open>The columns that the FeatureUnion returns\<close>

lemma fpow_2: "fpow rnd x 2 = fmul rnd x x"
  by (simp add: numeral_2_eq_2)

text \<open>
  C2. For every array \<open>X\<close>, and so for every column vector, and every rounding,
  \<open>feat_union.fit_transform(X)\<close> returns an array with the rows of \<open>X\<close> and three
  times its columns: the columns of \<open>X\<close>, then their square roots, then their squares,
  in the order in which the three transformers are listed.
\<close>

theorem feat_union_fit_transform_columns:
  "\<exists>R. FeatureUnion_fit_transform (feat_union rnd) X = Inr R
     \<and> nrows R = nrows X
     \<and> length (cols R) = 3 * length (cols X)
     \<and> cols R = cols X @ map (map (fsqrt rnd)) (cols X)
                @ map (map (\<lambda>x. fmul rnd x x)) (cols X)
     \<and> (wf_ndarray X \<longrightarrow> wf_ndarray R)"
  by (auto simp: FeatureUnion_fit_transform_def feat_union_def np_hstack_def np_sqrt_def
      np_power_def fpow_2 wf_ndarray_def list_all_iff)

theorem feat_union_fit_transform_columns_witness:
  "\<exists>R. FeatureUnion_fit_transform (feat_union float64) \<lparr>nrows = 2, cols = [[Fin 4, Fin 9]]\<rparr> = Inr R
     \<and> nrows R = 2
     \<and> cols R = [[Fin 4, Fin 9], [Fin 2, Fin 3], [Fin 16, Fin 81]]
     \<and> wf_ndarray R"
proof -
  let ?X = "\<lparr>nrows = 2, cols = [[Fin 4, Fin 9]]\<rparr>"
  have w: "wf_ndarray ?X" by (simp add: wf_ndarray_def)
  have s: "sqrt 4 = 2" "sqrt 9 = 3" by (rule real_sqrt_unique; simp)+
  from feat_union_fit_transform_columns [of float64 ?X] obtain R where
    r: "FeatureUnion_fit_transform (feat_union float64) ?X = Inr R" "nrows R = nrows ?X"
       "cols R = cols ?X @ map (map (fsqrt float64)) (cols ?X)
                   @ map (map (\<lambda>x. fmul float64 x x)) (cols ?X)"
       "wf_ndarray ?X \<longrightarrow> wf_ndarray R"
    by blast
  from r(3) have "cols R = [[Fin 4, Fin 9], [Fin 2, Fin 3], [Fin 16, Fin 81]]"
    by (simp add: s float64_eval)
  with r w show ?thesis by simp
qed

section \<open>What the transformers leave of the heap\<close>

lemma MyScaler_transform_frame:
  assumes "MyScaler_transform rnd h self X = (r, h')"
  shows "take (length (arrays h)) (arrays h') = arrays h
       \<and> frames h' = frames h \<and> scalers h' = scalers h \<and> selectors h' = selectors h
       \<and> imputers h' = imputers h \<and> encoders h' = encoders h
       \<and> (\<forall>Xt. r = Inr Xt \<longrightarrow> Xt = length (arrays h) \<and> length (arrays h') = Suc (length (arrays h)))"
  using assms
  by (auto simp: MyScaler_transform_def Let_def lookup_def split: sum.splits option.splits if_splits)

lemma take_length_le: "take n xs = ys \<Longrightarrow> length ys = n \<Longrightarrow> n \<le> length xs"
  by (induction xs arbitrary: n ys) (auto simp: take_Cons split: nat.splits)

lemma take_prefix_trans:
  assumes "take (length a) b = a" and "take (length b) c = b"
  shows "take (length a) c = a"
proof -
  have le: "length a \<le> length b" using assms(1) by (rule take_length_le) simp
  have "take (length a) (take (length b) c) = take (length a) c"
    using le by (simp add: min_def)
  with assms show ?thesis by simp
qed

lemma old_objects_unchanged_trans:
  "old_objects_unchanged h h1 \<Longrightarrow> old_objects_unchanged h1 h2 \<Longrightarrow> old_objects_unchanged h h2"
  unfolding old_objects_unchanged_def
  using take_prefix_trans [of "arrays h" "arrays h1" "arrays h2"]
        take_prefix_trans [of "frames h" "frames h1" "frames h2"]
  by simp

lemma MyScaler_transform_unchanged:
  assumes "MyScaler_transform rnd h self X = (r, h')"
  shows "old_objects_unchanged h h'
       \<and> (\<forall>Xt. r = Inr Xt \<longrightarrow> length (arrays h) \<le> Xt \<and> Xt < length (arrays h'))"
  using MyScaler_transform_frame [OF assms]
  by (auto simp: old_objects_unchanged_def)

lemma CustomSelector_transform_unchanged:
  assumes "CustomSelector_transform h self X = (r, h')"
  shows "old_objects_unchanged h h'
       \<and> (\<forall>Xt. r = Inr Xt \<longrightarrow> length (frames h) \<le> Xt \<and> Xt < length (frames h'))"
  using assms
  by (auto simp: CustomSelector_transform_def new_frame_def old_objects_unchanged_def
           split: sum.splits if_splits)

lemma CustomCategoricalImputer_transform_unchanged:
  assumes "CustomCategoricalImputer_transform h self X = (r, h')"
  shows "old_objects_unchanged h h'
       \<and> (\<forall>Xt. r = Inr Xt \<longrightarrow> length (frames h) \<le> Xt \<and> Xt < length (frames h'))"
  using assms
  by (auto simp: CustomCategoricalImputer_transform_def new_frame_def old_objects_unchanged_def
           split: sum.splits option.splits)

lemma encode_columns_unchanged:
  "encode_columns fstr h X cs = (r, h') \<Longrightarrow>
     old_objects_unchanged h h'
   \<and> (\<forall>Xt. r = Inr Xt \<longrightarrow> (if cs = [] then Xt = X
                             else length (frames h) \<le> Xt \<and> Xt < length (frames h')))"
proof (induction cs arbitrary: h X)
  case Nil
  then show ?case by (auto simp: old_objects_unchanged_def)
next
  case (Cons col rest)
  show ?case
  proof (cases "lookup (frames h) X")
    case (Inl e)
    with Cons.prems show ?thesis by (auto simp: old_objects_unchanged_def)
  next
    case (Inr df)
    show ?thesis
    proof (cases "getitem df col")
      case (Inl e)
      with Cons.prems Inr show ?thesis by (auto simp: old_objects_unchanged_def)
    next
      case s: (Inr s)
      let ?new = "concat_axis1 df (get_dummies fstr s col)"
      show ?thesis
      proof (cases "drop_column ?new col")
        case (Inl e)
        with Cons.prems Inr s show ?thesis
          by (auto simp: old_objects_unchanged_def Let_def)
      next
        case d: (Inr d)
        let ?h2 = "h\<lparr>frames := frames h @ [d]\<rparr>"
        from Cons.prems Inr s d
        have rec: "encode_columns fstr ?h2 (length (frames h)) rest = (r, h')"
          by (simp add: Let_def)
        from Cons.IH [OF rec]
        have u: "old_objects_unchanged ?h2 h'"
          and f: "\<forall>Xt. r = Inr Xt \<longrightarrow>
                   (if rest = [] then Xt = length (frames h)
                    else length (frames ?h2) \<le> Xt \<and> Xt < length (frames h'))"
          by auto
        have u0: "old_objects_unchanged h ?h2" by (simp add: old_objects_unchanged_def)
        have u': "old_objects_unchanged h h'"
          by (rule old_objects_unchanged_trans [OF u0 u])
        from u have "take (Suc (length (frames h))) (frames h') = frames h @ [d]"
          by (simp add: old_objects_unchanged_def)
        then have "Suc (length (frames h)) \<le> length (frames h')"
          by (rule take_length_le) simp
        then have "length (frames h') > length (frames h)" by simp
        with f have "\<forall>Xt. r = Inr Xt \<longrightarrow> length (frames h) \<le> Xt \<and> Xt < length (frames h')"
          by (auto split: if_splits)
        with u' show ?thesis by simp
      qed
    qed
  qed
qed

subsection \<open>When the transforms return\<close>

lemma map_of_Some_iff_name: "(\<exists>vs. map_of cs n = Some vs) \<longleftrightarrow> n \<in> fst ` set cs"
proof -
  have "map_of cs n = None \<longleftrightarrow> n \<notin> fst ` set cs" by (rule map_of_eq_None_iff)
  then show ?thesis by (cases "map_of cs n") simp_all
qed

lemma getitem_returns_iff:
  "(\<exists>s. getitem X col = Inr s) \<longleftrightarrow> col \<in> fst ` set (columns X)"
proof (cases "map_of (columns X) col")
  case None
  then have "col \<notin> fst ` set (columns X)" by (simp add: map_of_eq_None_iff)
  with None show ?thesis by (simp add: getitem_def)
next
  case (Some vs)
  then have "\<exists>vs. map_of (columns X) col = Some vs" by simp
  then have "col \<in> fst ` set (columns X)" by (simp only: map_of_Some_iff_name)
  with Some show ?thesis by (simp add: getitem_def)
qed

lemma select_columns_returns:
  "set names \<subseteq> fst ` set cs \<Longrightarrow> \<exists>r. select_columns cs names = Inr r"
proof (induction names)
  case Nil
  then show ?case by simp
next
  case (Cons n ns)
  then have "n \<in> fst ` set cs" by simp
  then have "\<exists>vs. map_of cs n = Some vs" by (simp only: map_of_Some_iff_name)
  then obtain vs where "map_of cs n = Some vs" ..
  moreover from Cons obtain r where "select_columns cs ns = Inr r" by auto
  ultimately show ?case by simp
qed

lemma getitem_list_returns:
  "set names \<subseteq> fst ` set (columns X) \<Longrightarrow> \<exists>r. getitem_list X names = Inr r"
  using select_columns_returns [of names "columns X"]
  by (auto simp: getitem_list_def)

lemma CustomSelector_transform_returns:
  assumes "self < length (selectors h)" and "X < length (frames h)"
    and "set (if categorical (selectors h ! self) then [''Sex'', ''Embarked'', ''Pclass'']
              else [''Fare'', ''Age'', ''SibSp'', ''Parch''])
         \<subseteq> fst ` set (columns (frames h ! X))"
  shows "fst (CustomSelector_transform h self X) = Inr (length (frames h))"
proof (cases "categorical (selectors h ! self)")
  case True
  with assms(3) obtain r where
    "getitem_list (frames h ! X) [''Sex'', ''Embarked'', ''Pclass''] = Inr r"
    using getitem_list_returns [of "[''Sex'', ''Embarked'', ''Pclass'']" "frames h ! X"] by auto
  with True assms(1,2) show ?thesis
    by (simp add: CustomSelector_transform_def new_frame_def)
next
  case False
  with assms(3) obtain r where
    "getitem_list (frames h ! X) [''Fare'', ''Age'', ''SibSp'', ''Parch''] = Inr r"
    using getitem_list_returns [of "[''Fare'', ''Age'', ''SibSp'', ''Parch'']" "frames h ! X"] by auto
  with False assms(1,2) show ?thesis
    by (simp add: CustomSelector_transform_def new_frame_def)
qed

lemma CustomCategoricalImputer_transform_returns:
  assumes "self < length (imputers h)" and "X < length (frames h)"
    and "fill (imputers h ! self) = Some value"
  shows "fst (CustomCategoricalImputer_transform h self X) = Inr (length (frames h))"
  using assms by (simp add: CustomCategoricalImputer_transform_def new_frame_def)

lemma MyScaler_transform_returns:
  assumes "self < length (scalers h)" and "X < length (arrays h)"
    and "arrays h ! X = Float64 a"
    and "mean (scalers h ! self) = Some m" and "scale (scalers h ! self) = Some sc"
    and "length m = length (cols a)" and "length sc = length (cols a)"
  shows "fst (MyScaler_transform rnd h self X) = Inr (length (arrays h))"
  using MyScaler_transform_ok [OF assms] by simp

lemma MyScaler_transform_raises_on_integers:
  assumes "self < length (scalers h)" and "X < length (arrays h)"
    and "arrays h ! X = Int64 b" and "mean (scalers h ! self) = Some m"
  shows "fst (MyScaler_transform rnd h self X) = Inl TypeError"
  using MyScaler_transform_Int64 [OF assms] by simp

lemma encode_columns_returns:
  "X < length (frames h) \<Longrightarrow> distinct cs \<Longrightarrow> set cs \<subseteq> fst ` set (columns (frames h ! X))
     \<Longrightarrow> \<exists>Xt. fst (encode_columns fstr h X cs) = Inr Xt"
proof (induction cs arbitrary: h X)
  case Nil
  then show ?case by simp
next
  case (Cons col rest)
  let ?df = "frames h ! X"
  from Cons.prems have "col \<in> fst ` set (columns ?df)" by simp
  then have "\<exists>s. getitem ?df col = Inr s" by (simp only: getitem_returns_iff)
  then obtain s where s: "getitem ?df col = Inr s" ..
  let ?new = "concat_axis1 ?df (get_dummies fstr s col)"
  have cin: "col \<in> set (map fst (columns ?new))"
    using \<open>col \<in> fst ` set (columns ?df)\<close> by (auto simp: concat_axis1_def)
  let ?d = "?new\<lparr>columns := filter (\<lambda>(n, vs). n \<noteq> col) (columns ?new)\<rparr>"
  have d: "drop_column ?new col = Inr ?d" using cin by (simp add: drop_column_def)
  let ?h2 = "h\<lparr>frames := frames h @ [?d]\<rparr>"
  have step: "encode_columns fstr h X (col # rest) = encode_columns fstr ?h2 (length (frames h)) rest"
    using Cons.prems(1) s d by (simp add: Let_def)
  have x2: "length (frames h) < length (frames ?h2)" by simp
  have "set rest \<subseteq> fst ` set (columns ?d)"
  proof
    fix c assume c: "c \<in> set rest"
    with Cons.prems have "c \<noteq> col" "c \<in> fst ` set (columns ?df)" by auto
    then show "c \<in> fst ` set (columns ?d)"
      by (auto simp: concat_axis1_def image_iff)
  qed
  then have sub: "set rest \<subseteq> fst ` set (columns (frames ?h2 ! length (frames h)))" by simp
  from Cons.prems have dr: "distinct rest" by simp
  from Cons.IH [OF x2 dr sub] show ?case unfolding step .
qed

lemma CustomCategoricalEncoder_transform_returns:
  assumes "X < length (frames h)"
    and "set [''Sex'', ''Embarked'', ''Pclass''] \<subseteq> fst ` set (columns (frames h ! X))"
  shows "\<exists>Xt. fst (CustomCategoricalEncoder_transform fstr h self X) = Inr Xt"
  unfolding CustomCategoricalEncoder_transform_def
  by (rule encode_columns_returns [OF assms(1) _ assms(2)]) simp

text \<open>
  C5. Whatever a \<open>transform\<close> of one of the four transformers does, whether it returns
  or raises, every object that was in the heap before the call, the table \<open>X\<close> of the
  caller among them, is unchanged after it; and the table it returns is a new object,
  not one the caller had. (\<open>MyScaler\<close> scales the copy it made; the in-place drops of
  \<open>CustomCategoricalEncoder\<close> act on the frames that \<open>pd.concat\<close> built.) It returns
  whenever the transformer has the attributes it reads and the table has the shape or
  the columns it reads, for \<open>MyScaler\<close> on an array of float64; on an array of int64
  \<open>MyScaler.transform\<close> raises TypeError, and the caller's array is unchanged then too.
\<close>

theorem transform_leaves_input_unchanged:
  "(MyScaler_transform rnd h self X = (r, h') \<longrightarrow>
       old_objects_unchanged h h'
     \<and> (\<forall>Xt. r = Inr Xt \<longrightarrow> length (arrays h) \<le> Xt \<and> Xt < length (arrays h')))
 \<and> (CustomSelector_transform h self X = (r, h') \<longrightarrow>
       old_objects_unchanged h h'
     \<and> (\<forall>Xt. r = Inr Xt \<longrightarrow> length (frames h) \<le> Xt \<and> Xt < length (frames h')))
 \<and> (CustomCategoricalImputer_transform h self X = (r, h') \<longrightarrow>
       old_objects_unchanged h h'
     \<and> (\<forall>Xt. r = Inr Xt \<longrightarrow> length (frames h) \<le> Xt \<and> Xt < length (frames h')))
 \<and> (CustomCategoricalEncoder_transform fstr h self X = (r, h') \<longrightarrow>
       old_objects_unchanged h h'
     \<and> (\<forall>Xt. r = Inr Xt \<longrightarrow> length (frames h) \<le> Xt \<and> Xt < length (frames h')))
 \<and> (self < length (scalers h) \<and> X < length (arrays h) \<and> arrays h ! X = Float64 a
      \<and> mean (scalers h ! self) = Some m \<and> scale (scalers h ! self) = Some sc
      \<and> length m = length (cols a)
      \<and> length sc = length (cols a) \<longrightarrow>
      fst (MyScaler_transform rnd h self X) = Inr (length (arrays h)))
 \<and> (self < length (selectors h) \<and> X < length (frames h)
      \<and> set (if categorical (selectors h ! self) then [''Sex'', ''Embarked'', ''Pclass'']
               else [''Fare'', ''Age'', ''SibSp'', ''Parch''])
          \<subseteq> fst ` set (columns (frames h ! X)) \<longrightarrow>
      fst (CustomSelector_transform h self X) = Inr (length (frames h)))
 \<and> (self < length (imputers h) \<and> X < length (frames h)
      \<and> fill (imputers h ! self) = Some v \<longrightarrow>
      fst (CustomCategoricalImputer_transform h self X) = Inr (length (frames h)))
 \<and> (X < length (frames h)
      \<and> set [''Sex'', ''Embarked'', ''Pclass''] \<subseteq> fst ` set (columns (frames h ! X)) \<longrightarrow>
      (\<exists>Xt. fst (CustomCategoricalEncoder_transform fstr h self X) = Inr Xt))
 \<and> (self < length (scalers h) \<and> X < length (arrays h) \<and> arrays h ! X = Int64 b
      \<and> mean (scalers h ! self) = Some m \<longrightarrow>
      fst (MyScaler_transform rnd h self X) = Inl TypeError)"
proof (intro conjI)
  show "MyScaler_transform rnd h self X = (r, h') \<longrightarrow>
       old_objects_unchanged h h'
     \<and> (\<forall>Xt. r = Inr Xt \<longrightarrow> length (arrays h) \<le> Xt \<and> Xt < length (arrays h'))"
    by (rule impI) (rule MyScaler_transform_unchanged)
  show "CustomSelector_transform h self X = (r, h') \<longrightarrow>
       old_objects_unchanged h h'
     \<and> (\<forall>Xt. r = Inr Xt \<longrightarrow> length (frames h) \<le> Xt \<and> Xt < length (frames h'))"
    by (rule impI) (rule CustomSelector_transform_unchanged)
  show "CustomCategoricalImputer_transform h self X = (r, h') \<longrightarrow>
       old_objects_unchanged h h'
     \<and> (\<forall>Xt. r = Inr Xt \<longrightarrow> length (frames h) \<le> Xt \<and> Xt < length (frames h'))"
    by (rule impI) (rule CustomCategoricalImputer_transform_unchanged)
  show "CustomCategoricalEncoder_transform fstr h self X = (r, h') \<longrightarrow>
       old_objects_unchanged h h'
     \<and> (\<forall>Xt. r = Inr Xt \<longrightarrow> length (frames h) \<le> Xt \<and> Xt < length (frames h'))"
  proof
    assume "CustomCategoricalEncoder_transform fstr h self X = (r, h')"
    then have "encode_columns fstr h X [''Sex'', ''Embarked'', ''Pclass''] = (r, h')"
      by (simp add: CustomCategoricalEncoder_transform_def)
    from encode_columns_unchanged [OF this]
    show "old_objects_unchanged h h'
       \<and> (\<forall>Xt. r = Inr Xt \<longrightarrow> length (frames h) \<le> Xt \<and> Xt < length (frames h'))"
      by simp
  qed
  show "self < length (scalers h) \<and> X < length (arrays h) \<and> arrays h ! X = Float64 a
      \<and> mean (scalers h ! self) = Some m \<and> scale (scalers h ! self) = Some sc
      \<and> length m = length (cols a)
      \<and> length sc = length (cols a) \<longrightarrow>
      fst (MyScaler_transform rnd h self X) = Inr (length (arrays h))"
    by (intro impI, elim conjE) (rule MyScaler_transform_returns)
  show "self < length (selectors h) \<and> X < length (frames h)
      \<and> set (if categorical (selectors h ! self) then [''Sex'', ''Embarked'', ''Pclass'']
               else [''Fare'', ''Age'', ''SibSp'', ''Parch''])
          \<subseteq> fst ` set (columns (frames h ! X)) \<longrightarrow>
      fst (CustomSelector_transform h self X) = Inr (length (frames h))"
    by (intro impI, elim conjE) (rule CustomSelector_transform_returns)
  show "self < length (imputers h) \<and> X < length (frames h)
      \<and> fill (imputers h ! self) = Some v \<longrightarrow>
      fst (CustomCategoricalImputer_transform h self X) = Inr (length (frames h))"
    by (intro impI, elim conjE) (rule CustomCategoricalImputer_transform_returns)
  show "X < length (frames h)
      \<and> set [''Sex'', ''Embarked'', ''Pclass''] \<subseteq> fst ` set (columns (frames h ! X)) \<longrightarrow>
      (\<exists>Xt. fst (CustomCategoricalEncoder_transform fstr h self X) = Inr Xt)"
    by (intro impI, elim conjE) (rule CustomCategoricalEncoder_transform_returns)
  show "self < length (scalers h) \<and> X < length (arrays h) \<and> arrays h ! X = Int64 b
      \<and> mean (scalers h ! self) = Some m \<longrightarrow>
      fst (MyScaler_transform rnd h self X) = Inl TypeError"
    by (intro impI, elim conjE) (rule MyScaler_transform_raises_on_integers)
qed

theorem transform_leaves_input_unchanged_witness:
  "fst (MyScaler_transform float64 example_heap_fitted 0 0) = Inr 1
 \<and> old_objects_unchanged example_heap_fitted (snd (MyScaler_transform float64 example_heap_fitted 0 0))
 \<and> fst (CustomSelector_transform example_heap_fitted 0 0) = Inr 1
 \<and> old_objects_unchanged example_heap_fitted (snd (CustomSelector_transform example_heap_fitted 0 0))
 \<and> fst (CustomCategoricalImputer_transform example_heap_fitted 0 0) = Inr 1
 \<and> old_objects_unchanged example_heap_fitted (snd (CustomCategoricalImputer_transform example_heap_fitted 0 0))
 \<and> fst (CustomCategoricalEncoder_transform (\<lambda>r. []) example_heap_fitted 0 0) = Inr 3
 \<and> old_objects_unchanged example_heap_fitted
       (snd (CustomCategoricalEncoder_transform (\<lambda>r. []) example_heap_fitted 0 0))"
proof -
  note t = transform_leaves_input_unchanged
    [where h = example_heap_fitted and self = 0 and X = 0 and fstr = "\<lambda>r. []"
       and rnd = float64 and a = "\<lparr>nrows = 2, cols = [[Fin 5, Fin 5], [Fin 0, Fin 4]]\<rparr>"
       and m = "[Fin 5, Fin 2]" and sc = "[Fin 1, Fin 2]"
       and v = "[(''Sex'', StrC ''male''), (''Embarked'', StrC ''S''), (''Pclass'', IntC 3)]"]
  have p1: "(0::nat) < length (scalers example_heap_fitted) \<and> (0::nat) < length (arrays example_heap_fitted)
      \<and> arrays example_heap_fitted ! 0
            = Float64 \<lparr>nrows = 2, cols = [[Fin 5, Fin 5], [Fin 0, Fin 4]]\<rparr>
      \<and> mean (scalers example_heap_fitted ! 0) = Some [Fin 5, Fin 2]
      \<and> scale (scalers example_heap_fitted ! 0) = Some [Fin 1, Fin 2]
      \<and> length [Fin 5, Fin 2] = length (cols \<lparr>nrows = 2, cols = [[Fin 5, Fin 5], [Fin 0, Fin 4]]\<rparr>)
      \<and> length [Fin 1, Fin 2] = length (cols \<lparr>nrows = 2, cols = [[Fin 5, Fin 5], [Fin 0, Fin 4]]\<rparr>)"
    by (simp add: example_heap_fitted_def)
  have p2: "(0::nat) < length (selectors example_heap_fitted) \<and> (0::nat) < length (frames example_heap_fitted)
      \<and> set (if categorical (selectors example_heap_fitted ! 0) then [''Sex'', ''Embarked'', ''Pclass'']
               else [''Fare'', ''Age'', ''SibSp'', ''Parch''])
          \<subseteq> fst ` set (columns (frames example_heap_fitted ! 0))"
    by code_simp
  have p3: "(0::nat) < length (imputers example_heap_fitted) \<and> (0::nat) < length (frames example_heap_fitted)
      \<and> fill (imputers example_heap_fitted ! 0)
          = Some [(''Sex'', StrC ''male''), (''Embarked'', StrC ''S''), (''Pclass'', IntC 3)]"
    by code_simp
  have e1: "fst (MyScaler_transform float64 example_heap_fitted 0 0) = Inr 1"
    using t [THEN conjunct2, THEN conjunct2, THEN conjunct2, THEN conjunct2, THEN conjunct1,
             THEN mp, OF p1]
    by (simp add: example_heap_fitted_def)
  have e2: "fst (CustomSelector_transform example_heap_fitted 0 0) = Inr 1"
    using t [THEN conjunct2, THEN conjunct2, THEN conjunct2, THEN conjunct2, THEN conjunct2,
             THEN conjunct1, THEN mp, OF p2]
    by (simp add: example_heap_fitted_def)
  have e3: "fst (CustomCategoricalImputer_transform example_heap_fitted 0 0) = Inr 1"
    using t [THEN conjunct2, THEN conjunct2, THEN conjunct2, THEN conjunct2, THEN conjunct2,
             THEN conjunct2, THEN conjunct1, THEN mp, OF p3]
    by (simp add: example_heap_fitted_def)
  have e4: "fst (CustomCategoricalEncoder_transform (\<lambda>r. []) example_heap_fitted 0 0) = Inr 3"
    by code_simp
  note f = transform_leaves_input_unchanged
    [where h = example_heap_fitted and self = 0 and X = 0 and fstr = "\<lambda>r. []"
       and rnd = float64]
  have u1: "old_objects_unchanged example_heap_fitted (snd (MyScaler_transform float64 example_heap_fitted 0 0))"
    using f [where r = "fst (MyScaler_transform float64 example_heap_fitted 0 0)"
               and h' = "snd (MyScaler_transform float64 example_heap_fitted 0 0)", THEN conjunct1]
    by simp
  have u2: "old_objects_unchanged example_heap_fitted (snd (CustomSelector_transform example_heap_fitted 0 0))"
    using f [where r = "fst (CustomSelector_transform example_heap_fitted 0 0)"
               and h' = "snd (CustomSelector_transform example_heap_fitted 0 0)",
             THEN conjunct2, THEN conjunct1]
    by simp
  have u3: "old_objects_unchanged example_heap_fitted
              (snd (CustomCategoricalImputer_transform example_heap_fitted 0 0))"
    using f [where r = "fst (CustomCategoricalImputer_transform example_heap_fitted 0 0)"
               and h' = "snd (CustomCategoricalImputer_transform example_heap_fitted 0 0)",
             THEN conjunct2, THEN conjunct2, THEN conjunct1]
    by simp
  have u4: "old_objects_unchanged example_heap_fitted
              (snd (CustomCategoricalEncoder_transform (\<lambda>r. []) example_heap_fitted 0 0))"
    using f [where r = "fst (CustomCategoricalEncoder_transform (\<lambda>r. []) example_heap_fitted 0 0)"
               and h' = "snd (CustomCategoricalEncoder_transform (\<lambda>r. []) example_heap_fitted 0 0)",
             THEN conjunct2, THEN conjunct2, THEN conjunct2, THEN conjunct1]
    by simp
  from e1 e2 e3 e4 u1 u2 u3 u4 show ?thesis by simp
qed

section \<open>Modes, and the fit and transform of the imputer\<close>

lemma set_cell_insort: "set (cell_insort v ws) = insert v (set ws)"
  by (induction ws) auto

lemma set_cell_sort: "set (cell_sort xs) = set xs"
  by (induction xs) (simp_all add: cell_sort_def set_cell_insort)

lemma cell_sort_Nil_iff: "cell_sort xs = [] \<longleftrightarrow> xs = []"
  by (metis set_cell_sort set_empty)

lemma foldr_max_upper: "y \<in> set ys \<Longrightarrow> f y \<le> foldr max (map f ys) (0::nat)"
  by (induction ys) auto

lemma foldr_max_attained: "ys \<noteq> [] \<Longrightarrow> \<exists>y \<in> set ys. f y = foldr max (map f ys) (0::nat)"
proof (induction ys)
  case Nil
  then show ?case by simp
next
  case (Cons a ys)
  show ?case
  proof (cases "ys = []")
    case True
    then show ?thesis by simp
  next
    case False
    with Cons.IH obtain y where y: "y \<in> set ys" "f y = foldr max (map f ys) 0" by blast
    have m: "foldr max (map f (a # ys)) 0 = max (f a) (f y)" using y(2) by simp
    show ?thesis
    proof (cases "f a \<le> f y")
      case True
      then have "f y = foldr max (map f (a # ys)) 0" unfolding m by (simp add: max_def)
      with y(1) show ?thesis by (intro bexI [of _ y]) simp_all
    next
      case False
      then have "f a = foldr max (map f (a # ys)) 0" unfolding m by (simp add: max_def)
      then show ?thesis by (intro bexI [of _ a]) simp_all
    qed
  qed
qed

lemma max_count_upper: "x \<in> set xs \<Longrightarrow> count_list xs x \<le> max_count xs"
  unfolding max_count_def by (rule foldr_max_upper)

lemma max_count_attained: "xs \<noteq> [] \<Longrightarrow> \<exists>x \<in> set xs. count_list xs x = max_count xs"
  unfolding max_count_def by (rule foldr_max_attained)

lemma set_mode_values:
  "set (mode_values vs) = {v \<in> set (notna vs). count_list (notna vs) v = max_count (notna vs)}"
  by (auto simp: mode_values_def Let_def set_cell_sort)

lemma mode_values_Nil_iff: "mode_values vs = [] \<longleftrightarrow> notna vs = []"
proof
  assume "mode_values vs = []"
  then have e: "{v \<in> set (notna vs). count_list (notna vs) v = max_count (notna vs)} = {}"
    using set_mode_values [of vs] by simp
  show "notna vs = []"
  proof (rule ccontr)
    assume "notna vs \<noteq> []"
    from max_count_attained [OF this] e show False by blast
  qed
next
  assume "notna vs = []"
  then show "mode_values vs = []" by (simp add: mode_values_def cell_sort_def)
qed

lemma count_list_notna: "w \<noteq> NA \<Longrightarrow> count_list (notna vs) w = count_list vs w"
  by (induction vs) (auto simp: notna_def)

lemma count_list_zero: "w \<notin> set vs \<Longrightarrow> count_list vs w = 0"
  by (induction vs) auto

lemma mode_values_most_frequent:
  assumes "v \<in> set (mode_values vs)"
  shows "v \<noteq> NA \<and> v \<in> set vs \<and> (\<forall>w. w \<noteq> NA \<longrightarrow> count_list vs w \<le> count_list vs v)"
proof -
  from assms have m: "v \<in> set (notna vs)" "count_list (notna vs) v = max_count (notna vs)"
    by (simp_all add: set_mode_values)
  then have v: "v \<noteq> NA" "v \<in> set vs" by (auto simp: notna_def)
  have "count_list vs w \<le> count_list vs v" if w: "w \<noteq> NA" for w
  proof (cases "w \<in> set vs")
    case True
    with w have "w \<in> set (notna vs)" by (simp add: notna_def)
    from max_count_upper [OF this] m(2) show ?thesis
      by (simp add: count_list_notna w v)
  next
    case False
    then show ?thesis by (simp add: count_list_zero)
  qed
  with v show ?thesis by blast
qed

lemma foldr_max_zero_iff: "foldr max (map f ys) (0::nat) = 0 \<longleftrightarrow> (\<forall>y \<in> set ys. f y = 0)"
  by (induction ys) (auto simp: max_def)

lemma DataFrame_mode_index_Nil_iff:
  "index (DataFrame_mode X) = [] \<longleftrightarrow> (\<forall>(n, vs) \<in> set (columns X). notna vs = [])"
proof -
  let ?ms = "map (\<lambda>(n, vs). (n, mode_values vs)) (columns X)"
  let ?k = "foldr max (map (\<lambda>(n, m). length m) ?ms) 0"
  have "index (DataFrame_mode X) = map int [0..<?k]"
    by (simp add: DataFrame_mode_def Let_def)
  then have "index (DataFrame_mode X) = [] \<longleftrightarrow> ?k = 0" by simp
  also have "\<dots> \<longleftrightarrow> (\<forall>y \<in> set ?ms. (\<lambda>(n, m). length m) y = 0)"
    by (rule foldr_max_zero_iff)
  also have "\<dots> \<longleftrightarrow> (\<forall>(n, vs) \<in> set (columns X). notna vs = [])"
    by (auto simp: mode_values_Nil_iff)
  finally show ?thesis .
qed

lemma hd_pad:
  "0 < k \<Longrightarrow> (case m @ replicate (k - length m) NA of [] \<Rightarrow> NA | v # _ \<Rightarrow> v)
             = (case m of [] \<Rightarrow> NA | v # _ \<Rightarrow> v)"
  by (cases m) (auto simp: gr0_conv_Suc)

lemma iloc0_DataFrame_mode:
  "iloc0 (DataFrame_mode X) =
     (if \<forall>(n, vs) \<in> set (columns X). notna vs = [] then Inl IndexError
      else Inr (map (\<lambda>(n, vs). (n, case mode_values vs of [] \<Rightarrow> NA | v # _ \<Rightarrow> v)) (columns X)))"
proof (cases "\<forall>(n, vs) \<in> set (columns X). notna vs = []")
  case True
  then have "index (DataFrame_mode X) = []" by (simp only: DataFrame_mode_index_Nil_iff)
  with True show ?thesis by (simp add: iloc0_def)
next
  case False
  then have ne: "index (DataFrame_mode X) \<noteq> []" by (simp only: DataFrame_mode_index_Nil_iff) simp
  define ms where "ms = map (\<lambda>(n, vs). (n, mode_values vs)) (columns X)"
  define k where "k = foldr max (map (\<lambda>(n, m). length m) ms) 0"
  have dm: "DataFrame_mode X =
              \<lparr>index = map int [0..<k],
               columns = map (\<lambda>(n, m). (n, m @ replicate (k - length m) NA)) ms\<rparr>"
    by (simp add: DataFrame_mode_def Let_def k_def ms_def)
  have k: "0 < k" using ne by (simp add: dm)
  have "map (\<lambda>(n, vs). (n, case vs of [] \<Rightarrow> NA | v # _ \<Rightarrow> v)) (columns (DataFrame_mode X))
        = map (\<lambda>(n, vs). (n, case mode_values vs of [] \<Rightarrow> NA | v # _ \<Rightarrow> v)) (columns X)"
    by (simp add: dm ms_def hd_pad [OF k] split_def)
  with ne False show ?thesis by (simp add: iloc0_def)
qed

lemma CustomCategoricalImputer_update_all:
  "(s::CustomCategoricalImputer)\<lparr>fill := a\<rparr> = \<lparr>fill = a\<rparr>"
  by (cases s) simp

lemma CustomCategoricalImputer_fit_cases:
  assumes "self < length (imputers h)" and "X < length (frames h)"
  shows "CustomCategoricalImputer_fit h self X y =
           (if \<forall>(n, vs) \<in> set (columns (frames h ! X)). notna vs = []
            then (Inl IndexError, h)
            else (Inr self,
                  h\<lparr>imputers := (imputers h)[self :=
                      \<lparr>fill = Some (map (\<lambda>(n, vs). (n, case mode_values vs of [] \<Rightarrow> NA | v # _ \<Rightarrow> v))
                                      (columns (frames h ! X)))\<rparr>]\<rparr>))"
  using assms
  by (simp add: CustomCategoricalImputer_fit_def iloc0_DataFrame_mode
      CustomCategoricalImputer_update_all)

text \<open>
  C3 (as amended). \<open>CustomSelector.fit\<close> and \<open>CustomCategoricalEncoder.fit\<close> take a
  table and a label vector that may be left out, change nothing and return the
  transformer itself, always. \<open>CustomCategoricalImputer.fit\<close> takes the same
  arguments; on a table with at least one entry that is not missing it stores the
  first row of the table of modes and returns the transformer itself, and on a table
  without one it raises IndexError and changes nothing. \<open>MyScaler.fit\<close>, called with a
  table and a label vector, stores the means and standard deviations of the columns
  and returns the transformer itself.
\<close>

theorem fit_returns_self:
  "CustomSelector_fit h self X y = (Inr self, h)
 \<and> CustomCategoricalEncoder_fit h self X y = (Inr self, h)
 \<and> (self < length (imputers h) \<and> X < length (frames h)
      \<and> (\<exists>(n, vs) \<in> set (columns (frames h ! X)). notna vs \<noteq> []) \<longrightarrow>
      (\<exists>h'. CustomCategoricalImputer_fit h self X y = (Inr self, h')
          \<and> fill (imputers h' ! self) =
              Some (map (\<lambda>(n, vs). (n, case mode_values vs of [] \<Rightarrow> NA | v # _ \<Rightarrow> v))
                     (columns (frames h ! X)))))
 \<and> (self < length (imputers h) \<and> X < length (frames h)
      \<and> (\<forall>(n, vs) \<in> set (columns (frames h ! X)). notna vs = []) \<longrightarrow>
      CustomCategoricalImputer_fit h self X y = (Inl IndexError, h))
 \<and> (self < length (scalers h) \<and> X < length (arrays h) \<longrightarrow>
      (\<exists>h'. MyScaler_fit rnd h self X (Passed v) = (Inr self, h')
          \<and> mean (scalers h' ! self) = Some (np_mean rnd (asfloat rnd (arrays h ! X)))
          \<and> scale (scalers h' ! self) = Some (np_std rnd (asfloat rnd (arrays h ! X)))))"
proof (intro conjI impI)
  show "CustomSelector_fit h self X y = (Inr self, h)"
    by (simp add: CustomSelector_fit_def)
  show "CustomCategoricalEncoder_fit h self X y = (Inr self, h)"
    by (simp add: CustomCategoricalEncoder_fit_def)
next
  assume a: "self < length (imputers h) \<and> X < length (frames h)
      \<and> (\<exists>(n, vs) \<in> set (columns (frames h ! X)). notna vs \<noteq> [])"
  then have n: "\<not> (\<forall>(n, vs) \<in> set (columns (frames h ! X)). notna vs = [])" by auto
  from a have s: "self < length (imputers h)" and x: "X < length (frames h)" by auto
  show "\<exists>h'. CustomCategoricalImputer_fit h self X y = (Inr self, h')
          \<and> fill (imputers h' ! self) =
              Some (map (\<lambda>(n, vs). (n, case mode_values vs of [] \<Rightarrow> NA | v # _ \<Rightarrow> v))
                     (columns (frames h ! X)))"
    unfolding CustomCategoricalImputer_fit_cases [OF s x] using n s by simp
next
  assume a: "self < length (imputers h) \<and> X < length (frames h)
      \<and> (\<forall>(n, vs) \<in> set (columns (frames h ! X)). notna vs = [])"
  then show "CustomCategoricalImputer_fit h self X y = (Inl IndexError, h)"
    using CustomCategoricalImputer_fit_cases [of self h X y] by simp
next
  assume a: "self < length (scalers h) \<and> X < length (arrays h)"
  then have s: "self < length (scalers h)" and x: "X < length (arrays h)" by auto
  show "\<exists>h'. MyScaler_fit rnd h self X (Passed v) = (Inr self, h')
          \<and> mean (scalers h' ! self) = Some (np_mean rnd (asfloat rnd (arrays h ! X)))
          \<and> scale (scalers h' ! self) = Some (np_std rnd (asfloat rnd (arrays h ! X)))"
    unfolding MyScaler_fit_Passed [OF s x] using s by simp
qed

theorem fit_raises_counterexample:
  "CustomCategoricalImputer_fit example_heap_missing 0 1 Omitted = (Inl IndexError, example_heap_missing)"
  by code_simp

lemma MyScaler_fit_Omitted: "MyScaler_fit rnd h self X Omitted = (Inl TypeError, h)"
  by (simp add: MyScaler_fit_def)

theorem fit_returns_self_witness:
  "CustomSelector_fit example_heap_fitted 0 0 (Omitted :: unit pyarg) = (Inr 0, example_heap_fitted)
 \<and> CustomCategoricalEncoder_fit example_heap_fitted 0 0 (Omitted :: unit pyarg) = (Inr 0, example_heap_fitted)
 \<and> (\<exists>h'. CustomCategoricalImputer_fit example_heap_fitted 0 0 (Omitted :: unit pyarg) = (Inr 0, h')
        \<and> fill (imputers h' ! 0) =
            Some [(''Sex'', StrC ''male''), (''Embarked'', StrC ''C''), (''Pclass'', IntC 3),
                  (''Fare'', FltC 7), (''Age'', FltC 22), (''SibSp'', IntC 1),
                  (''Parch'', IntC 0)])
 \<and> CustomCategoricalImputer_fit example_heap_missing 0 1 (Omitted :: unit pyarg)
       = (Inl IndexError, example_heap_missing)
 \<and> (\<exists>h'. MyScaler_fit float64 example_heap_fitted 0 0 (Passed ()) = (Inr 0, h')
        \<and> mean (scalers h' ! 0) = Some [Fin 5, Fin 2]
        \<and> scale (scalers h' ! 0) = Some [Fin 0, Fin 2])"
proof -
  have a: "(0::nat) < length (imputers example_heap_fitted) \<and> (0::nat) < length (frames example_heap_fitted)
      \<and> (\<exists>(n, vs) \<in> set (columns (frames example_heap_fitted ! 0)). notna vs \<noteq> [])"
    by code_simp
  have b: "(0::nat) < length (imputers example_heap_missing) \<and> (1::nat) < length (frames example_heap_missing)
      \<and> (\<forall>(n, vs) \<in> set (columns (frames example_heap_missing ! 1)). notna vs = [])"
    by code_simp
  have c: "(0::nat) < length (scalers example_heap_fitted) \<and> (0::nat) < length (arrays example_heap_fitted)"
    by code_simp
  have m: "map (\<lambda>(n, vs). (n, case mode_values vs of [] \<Rightarrow> NA | v # _ \<Rightarrow> v))
             (columns (frames example_heap_fitted ! 0)) =
           [(''Sex'', StrC ''male''), (''Embarked'', StrC ''C''), (''Pclass'', IntC 3),
            (''Fare'', FltC 7), (''Age'', FltC 22), (''SibSp'', IntC 1), (''Parch'', IntC 0)]"
    by code_simp
  have n: "np_mean float64 (asfloat float64 (arrays example_heap_fitted ! 0)) = [Fin 5, Fin 2]"
          "np_std float64 (asfloat float64 (arrays example_heap_fitted ! 0)) = [Fin 0, Fin 2]"
    by (simp_all add: example_heap_fitted_def np_mean_def np_std_def np_std1_def np_var1_def
        np_mean1_def np_sum_def fsub_def float64_eval)
  note t2 = fit_returns_self [where h = example_heap_fitted and self = 0 and X = 0
       and y = "Omitted :: unit pyarg" and v = "()" and rnd = float64]
  note t3 = fit_returns_self [where h = example_heap_missing and self = 0 and X = 1
       and y = "Omitted :: unit pyarg" and v = "()" and rnd = float64]
  from t2 a c t3 b show ?thesis unfolding m n by blast
qed

lemma DataFrame_fillna_alt:
  "DataFrame_fillna df value =
     \<lparr>index = index df,
      columns = map (\<lambda>(n, vs). (n, map (\<lambda>c. if c = NA
                                               then (case map_of value n of None \<Rightarrow> NA | Some v \<Rightarrow> v)
                                               else c) vs)) (columns df)\<rparr>"
proof -
  have "(case map_of value n of None \<Rightarrow> vs | Some v \<Rightarrow> fillna_scalar vs v)
        = map (\<lambda>c. if c = NA then (case map_of value n of None \<Rightarrow> NA | Some v \<Rightarrow> v) else c) vs"
    for n vs
    by (cases "map_of value n") (simp_all add: fillna_scalar_def map_idI)
  then show ?thesis
    by (cases df) (simp add: DataFrame_fillna_def)
qed

lemma first_mode_most_frequent:
  assumes "(case mode_values vs of [] \<Rightarrow> NA | v # _ \<Rightarrow> v) = v" and "v \<noteq> NA"
  shows "v \<in> set vs \<and> (\<forall>w. w \<noteq> NA \<longrightarrow> count_list vs w \<le> count_list vs v)"
proof (cases "mode_values vs")
  case Nil
  with assms show ?thesis by simp
next
  case (Cons a rest)
  with assms have "v \<in> set (mode_values vs)" by simp
  from mode_values_most_frequent [OF this] show ?thesis by simp
qed

lemma first_mode_NA_iff:
  "(case mode_values vs of [] \<Rightarrow> NA | v # _ \<Rightarrow> v) = NA \<longleftrightarrow> notna vs = []"
proof (cases "mode_values vs")
  case Nil
  then show ?thesis by (simp add: mode_values_Nil_iff [symmetric])
next
  case (Cons a rest)
  then have "a \<in> set (mode_values vs)" by simp
  from mode_values_most_frequent [OF this] Cons show ?thesis
    by (auto simp: mode_values_Nil_iff [symmetric])
qed

text \<open>
  C4 (as amended). On a table \<open>X\<close> with at least one entry that is not missing,
  \<open>fit(X)\<close> stores one value for each column: the first of the column's modes, which
  is a value of the column that is not missing and that no other such value outnumbers,
  or the missing value when the whole column is missing. For every table \<open>X'\<close> then
  passed to \<open>transform\<close>, the result is a new table like \<open>X'\<close> in which a missing
  entry holds the value stored for the name of its column (and so stays missing when
  that value is missing or no value is stored for the name), and every other entry is
  unchanged.
\<close>

theorem CustomCategoricalImputer_fit_transform:
  assumes self: "self < length (imputers h)"
    and X: "X < length (frames h)" and X': "X' < length (frames h)"
    and some: "\<exists>(n, vs) \<in> set (columns (frames h ! X)). notna vs \<noteq> []"
  shows "\<exists>row h1 R h2.
           CustomCategoricalImputer_fit h self X y = (Inr self, h1)
         \<and> fill (imputers h1 ! self) = Some row
         \<and> row = map (\<lambda>(n, vs). (n, case mode_values vs of [] \<Rightarrow> NA | v # _ \<Rightarrow> v))
                    (columns (frames h ! X))
         \<and> (\<forall>(n, vs) \<in> set (columns (frames h ! X)).
               let v = (case mode_values vs of [] \<Rightarrow> NA | v # _ \<Rightarrow> v)
               in if notna vs = [] then v = NA
                  else v \<noteq> NA \<and> v \<in> set vs
                     \<and> (\<forall>w. w \<noteq> NA \<longrightarrow> count_list vs w \<le> count_list vs v))
         \<and> CustomCategoricalImputer_transform h1 self X' = (Inr R, h2)
         \<and> R = length (frames h)
         \<and> frames h2 ! R =
             \<lparr>index = index (frames h ! X'),
              columns = map (\<lambda>(n, vs).
                          (n, map (\<lambda>c. if c = NA
                                       then (case map_of row n of None \<Rightarrow> NA | Some v \<Rightarrow> v)
                                       else c) vs))
                        (columns (frames h ! X'))\<rparr>"
proof -
  let ?row = "map (\<lambda>(n, vs). (n, case mode_values vs of [] \<Rightarrow> NA | v # _ \<Rightarrow> v))
                (columns (frames h ! X))"
  let ?h1 = "h\<lparr>imputers := (imputers h)[self := \<lparr>fill = Some ?row\<rparr>]\<rparr>"
  let ?new = "DataFrame_fillna (frames h ! X') ?row"
  let ?h2 = "?h1\<lparr>frames := frames ?h1 @ [?new]\<rparr>"
  from some have n: "\<not> (\<forall>(n, vs) \<in> set (columns (frames h ! X)). notna vs = [])" by auto
  have fit: "CustomCategoricalImputer_fit h self X y = (Inr self, ?h1)"
    unfolding CustomCategoricalImputer_fit_cases [OF self X] using n by simp
  have fl: "fill (imputers ?h1 ! self) = Some ?row" using self by simp
  have tr: "CustomCategoricalImputer_transform ?h1 self X' = (Inr (length (frames h)), ?h2)"
    using self X' by (simp add: CustomCategoricalImputer_transform_def new_frame_def)
  have res: "frames ?h2 ! length (frames h) = ?new" by simp
  have stat: "\<forall>(n, vs) \<in> set (columns (frames h ! X)).
               let v = (case mode_values vs of [] \<Rightarrow> NA | v # _ \<Rightarrow> v)
               in if notna vs = [] then v = NA
                  else v \<noteq> NA \<and> v \<in> set vs
                     \<and> (\<forall>w. w \<noteq> NA \<longrightarrow> count_list vs w \<le> count_list vs v)"
    using first_mode_most_frequent first_mode_NA_iff by (auto simp: Let_def)
  show ?thesis
  proof (intro exI conjI)
    show "CustomCategoricalImputer_fit h self X y = (Inr self, ?h1)" by (rule fit)
    show "fill (imputers ?h1 ! self) = Some ?row" by (rule fl)
    show "?row = ?row" by (rule refl)
    show "\<forall>(n, vs) \<in> set (columns (frames h ! X)).
               let v = (case mode_values vs of [] \<Rightarrow> NA | v # _ \<Rightarrow> v)
               in if notna vs = [] then v = NA
                  else v \<noteq> NA \<and> v \<in> set vs
                     \<and> (\<forall>w. w \<noteq> NA \<longrightarrow> count_list vs w \<le> count_list vs v)"
      by (rule stat)
    show "CustomCategoricalImputer_transform ?h1 self X' = (Inr (length (frames h)), ?h2)"
      by (rule tr)
    show "length (frames h) = length (frames h)" by (rule refl)
    show "frames ?h2 ! length (frames h) =
             \<lparr>index = index (frames h ! X'),
              columns = map (\<lambda>(n, vs).
                          (n, map (\<lambda>c. if c = NA
                                       then (case map_of ?row n of None \<Rightarrow> NA | Some v \<Rightarrow> v)
                                       else c) vs))
                        (columns (frames h ! X'))\<rparr>"
      unfolding res by (rule DataFrame_fillna_alt)
  qed
qed

theorem imputer_leaves_missing_counterexample:
  "fill (imputers (snd (CustomCategoricalImputer_fit example_heap_missing 0 0 (Omitted :: unit pyarg))) ! 0)
     = Some [(''Cabin'', NA), (''Embarked'', StrC ''S'')]
 \<and> columns (frames (snd (CustomCategoricalImputer_transform
                (snd (CustomCategoricalImputer_fit example_heap_missing 0 0 (Omitted :: unit pyarg))) 0 0)) ! 2)
     = [(''Cabin'', [NA, NA, NA]), (''Embarked'', [StrC ''S'', StrC ''S'', StrC ''S''])]"
  by code_simp

theorem CustomCategoricalImputer_fit_transform_witness:
  "\<exists>row h1 R h2.
      CustomCategoricalImputer_fit example_heap_fitted 0 0 (Omitted :: unit pyarg) = (Inr 0, h1)
    \<and> fill (imputers h1 ! 0) = Some row
    \<and> row = [(''Sex'', StrC ''male''), (''Embarked'', StrC ''C''), (''Pclass'', IntC 3),
              (''Fare'', FltC 7), (''Age'', FltC 22), (''SibSp'', IntC 1), (''Parch'', IntC 0)]
    \<and> CustomCategoricalImputer_transform h1 0 0 = (Inr R, h2)
    \<and> frames h2 ! R =
         \<lparr>index = [0, 1, 2],
          columns =
            [(''Sex'', [StrC ''male'', StrC ''female'', StrC ''male'']),
             (''Embarked'', [StrC ''S'', StrC ''C'', StrC ''C'']),
             (''Pclass'', [IntC 3, IntC 1, IntC 3]),
             (''Fare'', [FltC 7, FltC 71, FltC 7]),
             (''Age'', [FltC 22, FltC 22, FltC 26]),
             (''SibSp'', [IntC 1, IntC 1, IntC 0]),
             (''Parch'', [IntC 0, IntC 0, IntC 0])]\<rparr>"
proof -
  let ?row = "[(''Sex'', StrC ''male''), (''Embarked'', StrC ''C''), (''Pclass'', IntC 3),
              (''Fare'', FltC 7), (''Age'', FltC 22), (''SibSp'', IntC 1), (''Parch'', IntC 0)]"
  have a: "(0::nat) < length (imputers example_heap_fitted)" "(0::nat) < length (frames example_heap_fitted)"
    by code_simp+
  have b: "\<exists>(n, vs) \<in> set (columns (frames example_heap_fitted ! 0)). notna vs \<noteq> []"
    by code_simp
  have m: "map (\<lambda>(n, vs). (n, case mode_values vs of [] \<Rightarrow> NA | v # _ \<Rightarrow> v))
             (columns (frames example_heap_fitted ! 0)) = ?row"
    by code_simp
  have f: "\<lparr>index = index (frames example_heap_fitted ! 0),
            columns = map (\<lambda>(n, vs).
                          (n, map (\<lambda>c. if c = NA
                                       then (case map_of ?row n of None \<Rightarrow> NA | Some v \<Rightarrow> v)
                                       else c) vs))
                        (columns (frames example_heap_fitted ! 0))\<rparr> =
         \<lparr>index = [0, 1, 2],
          columns =
            [(''Sex'', [StrC ''male'', StrC ''female'', StrC ''male'']),
             (''Embarked'', [StrC ''S'', StrC ''C'', StrC ''C'']),
             (''Pclass'', [IntC 3, IntC 1, IntC 3]),
             (''Fare'', [FltC 7, FltC 71, FltC 7]),
             (''Age'', [FltC 22, FltC 22, FltC 26]),
             (''SibSp'', [IntC 1, IntC 1, IntC 0]),
             (''Parch'', [IntC 0, IntC 0, IntC 0])]\<rparr>"
    by code_simp
  from CustomCategoricalImputer_fit_transform [OF a(1) a(2) a(2) b, of "Omitted :: unit pyarg"]
  obtain row h1 R h2 where
    r: "CustomCategoricalImputer_fit example_heap_fitted 0 0 (Omitted :: unit pyarg) = (Inr 0, h1)"
       "fill (imputers h1 ! 0) = Some row"
       "row = ?row"
       "CustomCategoricalImputer_transform h1 0 0 = (Inr R, h2)"
    and fr: "frames h2 ! R =
             \<lparr>index = index (frames example_heap_fitted ! 0),
              columns = map (\<lambda>(n, vs).
                          (n, map (\<lambda>c. if c = NA
                                       then (case map_of row n of None \<Rightarrow> NA | Some v \<Rightarrow> v)
                                       else c) vs))
                        (columns (frames example_heap_fitted ! 0))\<rparr>"
    unfolding m by blast
  from fr have "frames h2 ! R =
         \<lparr>index = [0, 1, 2],
          columns =
            [(''Sex'', [StrC ''male'', StrC ''female'', StrC ''male'']),
             (''Embarked'', [StrC ''S'', StrC ''C'', StrC ''C'']),
             (''Pclass'', [IntC 3, IntC 1, IntC 3]),
             (''Fare'', [FltC 7, FltC 71, FltC 7]),
             (''Age'', [FltC 22, FltC 22, FltC 26]),
             (''SibSp'', [IntC 1, IntC 1, IntC 0]),
             (''Parch'', [IntC 0, IntC 0, IntC 0])]\<rparr>"
    unfolding r(3) f .
  with r show ?thesis by blast
qed

section \<open>The imputation without a pipeline\<close>

lemma map_of_set_column:
  "map_of (columns (set_column X col vs)) c =
     (if c = col then (case map_of (columns X) col of None \<Rightarrow> None | Some old \<Rightarrow> Some vs)
      else map_of (columns X) c)"
proof -
  have "map_of (map (\<lambda>(n, old). if n = col then (n, vs) else (n, old)) cs) c =
          (if c = col then (case map_of cs col of None \<Rightarrow> None | Some old \<Rightarrow> Some vs)
           else map_of cs c)" for cs
    by (induction cs) (auto split: option.splits)
  then show ?thesis by (simp add: set_column_def)
qed

lemma index_set_column [simp]: "index (set_column X col vs) = index X"
  by (simp add: set_column_def)

lemma getitem_set_column_same:
  "getitem X col = Inr s \<Longrightarrow>
     getitem (set_column X col vs) col = Inr \<lparr>s_index = index X, s_values = vs\<rparr>"
  by (auto simp: getitem_def map_of_set_column split: option.splits)

lemma getitem_index: "getitem X c = Inr s \<Longrightarrow> s_index s = index X"
  by (auto simp: getitem_def split: option.splits)

lemma getitem_set_column_other':
  "c \<noteq> col \<Longrightarrow> getitem X c = Inr s \<Longrightarrow> getitem (set_column X col vs) c = Inr s"
  by (auto simp: getitem_def map_of_set_column split: option.splits)

lemma fillna_median_inplace_ok:
  assumes "getitem target col = Inr s" and "getitem source col = Inr t"
    and "Series_median t = Inr m"
  shows "fillna_median_inplace target source col =
           Inr (set_column target col (fillna_scalar (s_values s) m))"
  using assms by (simp add: fillna_median_inplace_def)

lemma fillna_mode_inplace_ok:
  assumes "getitem target col = Inr s" and "getitem source col = Inr t"
  shows "fillna_mode_inplace target source col =
           Inr (set_column target col (fillna_aligned (s_index s) (s_values s) (Series_mode t)))"
  using assms by (simp add: fillna_mode_inplace_def)

lemma manual_impute_result:
  assumes f: "getitem (X_train s) ''Fare'' = Inr f"
    and a: "getitem (X_train s) ''Age'' = Inr a"
    and e: "getitem (X_train s) ''Embarked'' = Inr e"
    and tf: "getitem (X_test s) ''Fare'' = Inr tf"
    and ta: "getitem (X_test s) ''Age'' = Inr ta"
    and te: "getitem (X_test s) ''Embarked'' = Inr te"
    and mf: "Series_median tf = Inr mf"
    and ma: "Series_median ta = Inr ma"
  shows "manual_impute s =
           Inr \<lparr>X_train =
                  set_column (set_column (set_column (X_train s)
                    ''Fare'' (fillna_scalar (s_values f) mf))
                    ''Age'' (fillna_scalar (s_values a) ma))
                    ''Embarked'' (fillna_aligned (index (X_train s)) (s_values e) (Series_mode te)),
                X_test =
                  set_column (set_column (set_column (X_test s)
                    ''Fare'' (fillna_scalar (s_values tf) mf))
                    ''Age'' (fillna_scalar (s_values ta) ma))
                    ''Embarked'' (fillna_aligned (index (X_test s)) (s_values te) (Series_mode te))\<rparr>"
proof -
  let ?T1 = "set_column (X_train s) ''Fare'' (fillna_scalar (s_values f) mf)"
  let ?T2 = "set_column ?T1 ''Age'' (fillna_scalar (s_values a) ma)"
  let ?T3 = "set_column ?T2 ''Embarked''
               (fillna_aligned (index (X_train s)) (s_values e) (Series_mode te))"
  let ?E1 = "set_column (X_test s) ''Fare'' (fillna_scalar (s_values tf) mf)"
  let ?E2 = "set_column ?E1 ''Age'' (fillna_scalar (s_values ta) ma)"
  let ?E3 = "set_column ?E2 ''Embarked''
               (fillna_aligned (index (X_test s)) (s_values te) (Series_mode te))"
  have ie: "s_index e = index (X_train s)" using e by (rule getitem_index)
  have ite: "s_index te = index (X_test s)" using te by (rule getitem_index)
  have 1: "fillna_median_inplace (X_train s) (X_test s) ''Fare'' = Inr ?T1"
    by (rule fillna_median_inplace_ok [OF f tf mf])
  have a1: "getitem ?T1 ''Age'' = Inr a"
    by (rule getitem_set_column_other' [OF _ a]) simp
  have 2: "fillna_median_inplace ?T1 (X_test s) ''Age'' = Inr ?T2"
    by (rule fillna_median_inplace_ok [OF a1 ta ma])
  have e2: "getitem ?T2 ''Embarked'' = Inr e"
    by (intro getitem_set_column_other' e) simp_all
  have 3: "fillna_mode_inplace ?T2 (X_test s) ''Embarked'' = Inr ?T3"
    using fillna_mode_inplace_ok [OF e2 te] by (simp add: ie)
  have 4: "fillna_median_inplace (X_test s) (X_test s) ''Fare'' = Inr ?E1"
    by (rule fillna_median_inplace_ok [OF tf tf mf])
  have ta1: "getitem ?E1 ''Age'' = Inr ta"
    by (rule getitem_set_column_other' [OF _ ta]) simp
  have 5: "fillna_median_inplace ?E1 ?E1 ''Age'' = Inr ?E2"
    by (rule fillna_median_inplace_ok [OF ta1 ta1 ma])
  have te2: "getitem ?E2 ''Embarked'' = Inr te"
    by (intro getitem_set_column_other' te) simp_all
  have 6: "fillna_mode_inplace ?E2 ?E2 ''Embarked'' = Inr ?E3"
    using fillna_mode_inplace_ok [OF te2 te2] by (simp add: ite)
  show ?thesis
    unfolding manual_impute_def
    by (simp add: bind_def Let_def 1 2 3 4 5 6)
qed

lemma map_of_zip_range:
  assumes "length m = k"
  shows "map_of (zip (map int [0..<k]) m) l =
           (if 0 \<le> l \<and> l < int k then Some (m ! nat l) else None)"
proof (cases "0 \<le> l \<and> l < int k")
  case True
  then have n: "nat l < k" by linarith
  have d: "distinct (map int [0..<k])" by (simp add: distinct_map)
  have "map_of (zip (map int [0..<k]) m) (map int [0..<k] ! nat l) = Some (m ! nat l)"
    using assms n d by (intro map_of_zip_nth) simp_all
  moreover have "map int [0..<k] ! nat l = l" using n True by simp
  ultimately show ?thesis using True by simp
next
  case False
  then have "l \<notin> set (map int [0..<k])" by auto
  then have "map_of (zip (map int [0..<k]) m) l = None"
    using assms by (simp add: map_of_zip_is_None)
  with False show ?thesis by simp
qed

lemma fillna_aligned_Series_mode:
  "fillna_aligned idx vs (Series_mode t) =
     map2 (\<lambda>l c. if c = NA \<and> 0 \<le> l \<and> l < int (length (mode_values (s_values t)))
                  then mode_values (s_values t) ! nat l else c) idx vs"
proof -
  have "(case map_of (zip (map int [0..<length m]) m) l of None \<Rightarrow> NA | Some v \<Rightarrow> v)
        = (if 0 \<le> l \<and> l < int (length m) then m ! nat l else NA)" for m :: "cell list" and l
    by (simp add: map_of_zip_range)
  then show ?thesis
    by (auto simp: fillna_aligned_def Series_mode_def Let_def intro!: map_cong)
qed

text \<open>
  C9. For every pair of partitions on which the imputation runs (both have the
  columns \<open>Fare\<close>, \<open>Age\<close> and \<open>Embarked\<close>, and \<open>Fare\<close> and \<open>Age\<close> of the test
  partition hold no string), it returns, and afterwards every entry of \<open>Fare\<close> in
  the training partition that was missing is the median of \<open>Fare\<close> in the test
  partition, every entry of \<open>Age\<close> that was missing is the median of \<open>Age\<close> in the
  test partition, and the other entries of the two columns are as before.
\<close>

theorem manual_impute_train_uses_test_median:
  assumes "getitem (X_train s) ''Fare'' = Inr f"
    and "getitem (X_train s) ''Age'' = Inr a"
    and "getitem (X_train s) ''Embarked'' = Inr e"
    and "getitem (X_test s) ''Fare'' = Inr tf"
    and "getitem (X_test s) ''Age'' = Inr ta"
    and "getitem (X_test s) ''Embarked'' = Inr te"
    and "Series_median tf = Inr mf"
    and "Series_median ta = Inr ma"
  shows "\<exists>s'. manual_impute s = Inr s'
           \<and> getitem (X_train s') ''Fare'' =
               Inr \<lparr>s_index = index (X_train s),
                    s_values = map (\<lambda>c. if c = NA then mf else c) (s_values f)\<rparr>
           \<and> getitem (X_train s') ''Age'' =
               Inr \<lparr>s_index = index (X_train s),
                    s_values = map (\<lambda>c. if c = NA then ma else c) (s_values a)\<rparr>"
proof -
  let ?T1 = "set_column (X_train s) ''Fare'' (fillna_scalar (s_values f) mf)"
  let ?T2 = "set_column ?T1 ''Age'' (fillna_scalar (s_values a) ma)"
  let ?T3 = "set_column ?T2 ''Embarked''
               (fillna_aligned (index (X_train s)) (s_values e) (Series_mode te))"
  note r = manual_impute_result [OF assms]
  have f1: "getitem ?T1 ''Fare'' =
              Inr \<lparr>s_index = index (X_train s), s_values = fillna_scalar (s_values f) mf\<rparr>"
    by (rule getitem_set_column_same [OF assms(1)])
  have a1: "getitem ?T1 ''Age'' = Inr a"
    by (rule getitem_set_column_other' [OF _ assms(2)]) simp
  have a2: "getitem ?T2 ''Age'' =
              Inr \<lparr>s_index = index (X_train s), s_values = fillna_scalar (s_values a) ma\<rparr>"
    using getitem_set_column_same [OF a1] by simp
  have f3: "getitem ?T3 ''Fare'' =
              Inr \<lparr>s_index = index (X_train s), s_values = fillna_scalar (s_values f) mf\<rparr>"
    by (intro getitem_set_column_other' f1) simp_all
  have a3: "getitem ?T3 ''Age'' =
              Inr \<lparr>s_index = index (X_train s), s_values = fillna_scalar (s_values a) ma\<rparr>"
    by (intro getitem_set_column_other' a2) simp_all
  show ?thesis
    unfolding r using f3 a3 by (simp add: fillna_scalar_def)
qed

theorem manual_impute_train_uses_test_median_witness:
  "\<exists>s'. manual_impute example_split = Inr s'
      \<and> Series_median \<lparr>s_index = [3, 0, 2], s_values = [NA, FltC 10, FltC 30]\<rparr> = Inr (FltC 20)
      \<and> Series_median \<lparr>s_index = [1, 4], s_values = [FltC 8, NA]\<rparr> = Inr (FltC 8)
      \<and> getitem (X_train s') ''Fare'' =
           Inr \<lparr>s_index = [3, 0, 2], s_values = [FltC 8, FltC 10, FltC 30]\<rparr>
      \<and> getitem (X_train s') ''Age'' =
           Inr \<lparr>s_index = [3, 0, 2], s_values = [FltC 25, FltC 40, FltC 25]\<rparr>"
proof -
  have g: "getitem (X_train example_split) ''Fare''
             = Inr \<lparr>s_index = [3, 0, 2], s_values = [NA, FltC 10, FltC 30]\<rparr>"
          "getitem (X_train example_split) ''Age''
             = Inr \<lparr>s_index = [3, 0, 2], s_values = [NA, FltC 40, NA]\<rparr>"
          "getitem (X_train example_split) ''Embarked''
             = Inr \<lparr>s_index = [3, 0, 2], s_values = [NA, NA, StrC ''Q'']\<rparr>"
          "getitem (X_test example_split) ''Fare''
             = Inr \<lparr>s_index = [1, 4], s_values = [FltC 8, NA]\<rparr>"
          "getitem (X_test example_split) ''Age''
             = Inr \<lparr>s_index = [1, 4], s_values = [FltC 20, FltC 30]\<rparr>"
          "getitem (X_test example_split) ''Embarked''
             = Inr \<lparr>s_index = [1, 4], s_values = [StrC ''S'', NA]\<rparr>"
    by code_simp+
  have m: "Series_median \<lparr>s_index = [1, 4], s_values = [FltC 8, NA]\<rparr> = Inr (FltC 8)"
          "Series_median \<lparr>s_index = [1, 4], s_values = [FltC 20, FltC 30]\<rparr> = Inr (FltC 25)"
    by code_simp+
  have tm: "Series_median \<lparr>s_index = [3, 0, 2], s_values = [NA, FltC 10, FltC 30]\<rparr> = Inr (FltC 20)"
    by code_simp
  have i: "index (X_train example_split) = [3, 0, 2]" by code_simp
  from manual_impute_train_uses_test_median [OF g m]
  show ?thesis unfolding i using tm m(1) by simp
qed

text \<open>
  C10. Under the same conditions, the value given to \<open>fillna\<close> for \<open>Embarked\<close> is
  the Series of the modes of the test partition, labelled \<open>0, 1, ...\<close>, none of them
  missing. In either partition a missing entry of \<open>Embarked\<close> is filled only in a row
  whose label is one of these labels (label 0 when there is a single mode), with the
  mode at that label; a missing entry in a row with any other label is still missing
  afterwards, and an entry that was not missing is unchanged.
\<close>

theorem manual_impute_embarked_aligned_on_labels:
  assumes "getitem (X_train s) ''Fare'' = Inr f"
    and "getitem (X_train s) ''Age'' = Inr a"
    and "getitem (X_train s) ''Embarked'' = Inr e"
    and "getitem (X_test s) ''Fare'' = Inr tf"
    and "getitem (X_test s) ''Age'' = Inr ta"
    and "getitem (X_test s) ''Embarked'' = Inr te"
    and "Series_median tf = Inr mf"
    and "Series_median ta = Inr ma"
  shows "\<exists>s' e' te'.
           manual_impute s = Inr s'
         \<and> getitem (X_train s') ''Embarked'' = Inr e'
         \<and> getitem (X_test s') ''Embarked'' = Inr te'
         \<and> s_index (Series_mode te) = map int [0..<length (mode_values (s_values te))]
         \<and> NA \<notin> set (mode_values (s_values te))
         \<and> length (s_values e') = min (length (index (X_train s))) (length (s_values e))
         \<and> (\<forall>i < length (s_values e').
               s_values e' ! i =
                 (if s_values e ! i = NA \<and> 0 \<le> index (X_train s) ! i
                     \<and> index (X_train s) ! i < int (length (mode_values (s_values te)))
                  then mode_values (s_values te) ! nat (index (X_train s) ! i)
                  else s_values e ! i))
         \<and> length (s_values te') = min (length (index (X_test s))) (length (s_values te))
         \<and> (\<forall>i < length (s_values te').
               s_values te' ! i =
                 (if s_values te ! i = NA \<and> 0 \<le> index (X_test s) ! i
                     \<and> index (X_test s) ! i < int (length (mode_values (s_values te)))
                  then mode_values (s_values te) ! nat (index (X_test s) ! i)
                  else s_values te ! i))"
proof -
  let ?m = "mode_values (s_values te)"
  let ?fill = "\<lambda>l c. if c = NA \<and> 0 \<le> l \<and> l < int (length ?m) then ?m ! nat l else c"
  let ?T1 = "set_column (X_train s) ''Fare'' (fillna_scalar (s_values f) mf)"
  let ?T2 = "set_column ?T1 ''Age'' (fillna_scalar (s_values a) ma)"
  let ?E' = "fillna_aligned (index (X_train s)) (s_values e) (Series_mode te)"
  let ?T3 = "set_column ?T2 ''Embarked'' ?E'"
  let ?E1 = "set_column (X_test s) ''Fare'' (fillna_scalar (s_values tf) mf)"
  let ?E2 = "set_column ?E1 ''Age'' (fillna_scalar (s_values ta) ma)"
  let ?TE' = "fillna_aligned (index (X_test s)) (s_values te) (Series_mode te)"
  let ?E3 = "set_column ?E2 ''Embarked'' ?TE'"
  note r = manual_impute_result [OF assms]
  have e2: "getitem ?T2 ''Embarked'' = Inr e"
    by (intro getitem_set_column_other' assms(3)) simp_all
  have e3: "getitem ?T3 ''Embarked'' = Inr \<lparr>s_index = index (X_train s), s_values = ?E'\<rparr>"
    using getitem_set_column_same [OF e2] by simp
  have te2: "getitem ?E2 ''Embarked'' = Inr te"
    by (intro getitem_set_column_other' assms(6)) simp_all
  have te3: "getitem ?E3 ''Embarked'' = Inr \<lparr>s_index = index (X_test s), s_values = ?TE'\<rparr>"
    using getitem_set_column_same [OF te2] by simp
  have E': "?E' = map2 ?fill (index (X_train s)) (s_values e)"
    by (rule fillna_aligned_Series_mode)
  have TE': "?TE' = map2 ?fill (index (X_test s)) (s_values te)"
    by (rule fillna_aligned_Series_mode)
  have na: "NA \<notin> set ?m"
    using mode_values_most_frequent [of NA "s_values te"] by blast
  have idx: "s_index (Series_mode te) = map int [0..<length ?m]"
    by (simp add: Series_mode_def Let_def)
  have l1: "length ?E' = min (length (index (X_train s))) (length (s_values e))"
    unfolding E' by simp
  have l2: "length ?TE' = min (length (index (X_test s))) (length (s_values te))"
    unfolding TE' by simp
  have p1: "\<forall>i < length ?E'. ?E' ! i = ?fill (index (X_train s) ! i) (s_values e ! i)"
    unfolding E' by simp
  have p2: "\<forall>i < length ?TE'. ?TE' ! i = ?fill (index (X_test s) ! i) (s_values te ! i)"
    unfolding TE' by simp
  show ?thesis
  proof (intro exI conjI)
    show "manual_impute s = Inr \<lparr>X_train = ?T3, X_test = ?E3\<rparr>" by (rule r)
    show "getitem (X_train \<lparr>X_train = ?T3, X_test = ?E3\<rparr>) ''Embarked''
            = Inr \<lparr>s_index = index (X_train s), s_values = ?E'\<rparr>"
      using e3 by simp
    show "getitem (X_test \<lparr>X_train = ?T3, X_test = ?E3\<rparr>) ''Embarked''
            = Inr \<lparr>s_index = index (X_test s), s_values = ?TE'\<rparr>"
      using te3 by simp
    show "s_index (Series_mode te) = map int [0..<length ?m]" by (rule idx)
    show "NA \<notin> set ?m" by (rule na)
    show "length (s_values \<lparr>s_index = index (X_train s), s_values = ?E'\<rparr>)
            = min (length (index (X_train s))) (length (s_values e))"
      using l1 by simp
    show "\<forall>i < length (s_values \<lparr>s_index = index (X_train s), s_values = ?E'\<rparr>).
            s_values \<lparr>s_index = index (X_train s), s_values = ?E'\<rparr> ! i =
              (if s_values e ! i = NA \<and> 0 \<le> index (X_train s) ! i
                     \<and> index (X_train s) ! i < int (length ?m)
               then ?m ! nat (index (X_train s) ! i) else s_values e ! i)"
      using p1 by simp
    show "length (s_values \<lparr>s_index = index (X_test s), s_values = ?TE'\<rparr>)
            = min (length (index (X_test s))) (length (s_values te))"
      using l2 by simp
    show "\<forall>i < length (s_values \<lparr>s_index = index (X_test s), s_values = ?TE'\<rparr>).
            s_values \<lparr>s_index = index (X_test s), s_values = ?TE'\<rparr> ! i =
              (if s_values te ! i = NA \<and> 0 \<le> index (X_test s) ! i
                     \<and> index (X_test s) ! i < int (length ?m)
               then ?m ! nat (index (X_test s) ! i) else s_values te ! i)"
      using p2 by simp
  qed
qed

theorem manual_impute_embarked_aligned_on_labels_witness:
  "\<exists>s' e' te'.
      manual_impute example_split = Inr s'
    \<and> getitem (X_train s') ''Embarked'' = Inr e'
    \<and> getitem (X_test s') ''Embarked'' = Inr te'
    \<and> index (X_train example_split) = [3, 0, 2]
    \<and> index (X_test example_split) = [1, 4]
    \<and> mode_values [StrC ''S'', NA] = [StrC ''S'']
    \<and> length (s_values e') = 3
    \<and> s_values e' ! 0 = NA \<and> s_values e' ! 1 = StrC ''S'' \<and> s_values e' ! 2 = StrC ''Q''
    \<and> length (s_values te') = 2
    \<and> s_values te' ! 0 = StrC ''S'' \<and> s_values te' ! 1 = NA"
proof -
  have g: "getitem (X_train example_split) ''Fare''
             = Inr \<lparr>s_index = [3, 0, 2], s_values = [NA, FltC 10, FltC 30]\<rparr>"
          "getitem (X_train example_split) ''Age''
             = Inr \<lparr>s_index = [3, 0, 2], s_values = [NA, FltC 40, NA]\<rparr>"
          "getitem (X_train example_split) ''Embarked''
             = Inr \<lparr>s_index = [3, 0, 2], s_values = [NA, NA, StrC ''Q'']\<rparr>"
          "getitem (X_test example_split) ''Fare''
             = Inr \<lparr>s_index = [1, 4], s_values = [FltC 8, NA]\<rparr>"
          "getitem (X_test example_split) ''Age''
             = Inr \<lparr>s_index = [1, 4], s_values = [FltC 20, FltC 30]\<rparr>"
          "getitem (X_test example_split) ''Embarked''
             = Inr \<lparr>s_index = [1, 4], s_values = [StrC ''S'', NA]\<rparr>"
    by code_simp+
  have m: "Series_median \<lparr>s_index = [1, 4], s_values = [FltC 8, NA]\<rparr> = Inr (FltC 8)"
          "Series_median \<lparr>s_index = [1, 4], s_values = [FltC 20, FltC 30]\<rparr> = Inr (FltC 25)"
    by code_simp+
  have i: "index (X_train example_split) = [3, 0, 2]" "index (X_test example_split) = [1, 4]"
    by code_simp+
  have mo: "mode_values [StrC ''S'', NA] = [StrC ''S'']" by code_simp
  from manual_impute_embarked_aligned_on_labels [OF g m]
  obtain s' e' te' where
    r: "manual_impute example_split = Inr s'"
       "getitem (X_train s') ''Embarked'' = Inr e'"
       "getitem (X_test s') ''Embarked'' = Inr te'"
    and l1: "length (s_values e') = 3"
    and p1: "\<forall>i < length (s_values e').
               s_values e' ! i =
                 (if [NA, NA, StrC ''Q''] ! i = NA \<and> 0 \<le> [3, 0, 2 :: int] ! i
                     \<and> [3, 0, 2 :: int] ! i < int (length [StrC ''S''])
                  then [StrC ''S''] ! nat ([3, 0, 2 :: int] ! i)
                  else [NA, NA, StrC ''Q''] ! i)"
    and l2: "length (s_values te') = 2"
    and p2: "\<forall>i < length (s_values te').
               s_values te' ! i =
                 (if [StrC ''S'', NA] ! i = NA \<and> 0 \<le> [1, 4 :: int] ! i
                     \<and> [1, 4 :: int] ! i < int (length [StrC ''S''])
                  then [StrC ''S''] ! nat ([1, 4 :: int] ! i)
                  else [StrC ''S'', NA] ! i)"
    unfolding i by (auto simp: mo)
  from p1 l1 have "s_values e' ! 0 = NA" "s_values e' ! 1 = StrC ''S''"
      "s_values e' ! 2 = StrC ''Q''"
    by (auto dest: spec [of _ 0] spec [of _ 1] spec [of _ 2])
  moreover from p2 l2 have "s_values te' ! 0 = StrC ''S''" "s_values te' ! 1 = NA"
    by (auto dest: spec [of _ 0] spec [of _ 1])
  ultimately show ?thesis using r i mo l1 l2 by blast
qed

section \<open>Exceptions in the two Titanic cells\<close>

lemma run_append:
  "run (xs @ ys) s = (case run xs s of Inl e \<Rightarrow> Inl e | Inr s' \<Rightarrow> run ys s')"
  by (induction xs arbitrary: s) (auto split: sum.splits)

lemma run_Inl_iff:
  "run cs s = Inl e \<longleftrightarrow>
     (\<exists>k < length cs. \<exists>s'. run (take k cs) s = Inr s' \<and> (cs ! k) s' = Inl e)"
proof (induction cs arbitrary: s)
  case Nil
  then show ?case by simp
next
  case (Cons c cs)
  show ?case
  proof (cases "c s")
    case (Inl e')
    have L: "run (c # cs) s = Inl e'" using Inl by simp
    have R: "(\<exists>k < length (c # cs). \<exists>s'. run (take k (c # cs)) s = Inr s' \<and> ((c # cs) ! k) s' = Inl e)
          \<longleftrightarrow> e' = e"
    proof
      assume "\<exists>k < length (c # cs). \<exists>s'. run (take k (c # cs)) s = Inr s' \<and> ((c # cs) ! k) s' = Inl e"
      then obtain k s' where k: "run (take k (c # cs)) s = Inr s'" "((c # cs) ! k) s' = Inl e"
        by blast
      show "e' = e"
      proof (cases k)
        case 0
        with k Inl show ?thesis by simp
      next
        case (Suc j)
        with k Inl show ?thesis by simp
      qed
    next
      assume "e' = e"
      with Inl have "run (take 0 (c # cs)) s = Inr s \<and> ((c # cs) ! 0) s = Inl e" by simp
      then show "\<exists>k < length (c # cs). \<exists>s'. run (take k (c # cs)) s = Inr s' \<and> ((c # cs) ! k) s' = Inl e"
        by (intro exI [of _ 0] exI [of _ s]) simp
    qed
    show ?thesis unfolding L R by simp
  next
    case (Inr s1)
    have L: "run (c # cs) s = run cs s1" using Inr by simp
    have R: "(\<exists>k < length (c # cs). \<exists>s'. run (take k (c # cs)) s = Inr s' \<and> ((c # cs) ! k) s' = Inl e)
          \<longleftrightarrow> (\<exists>k < length cs. \<exists>s'. run (take k cs) s1 = Inr s' \<and> (cs ! k) s' = Inl e)"
    proof
      assume "\<exists>k < length (c # cs). \<exists>s'. run (take k (c # cs)) s = Inr s' \<and> ((c # cs) ! k) s' = Inl e"
      then obtain k s' where k: "k < length (c # cs)" "run (take k (c # cs)) s = Inr s'"
          "((c # cs) ! k) s' = Inl e"
        by blast
      show "\<exists>k < length cs. \<exists>s'. run (take k cs) s1 = Inr s' \<and> (cs ! k) s' = Inl e"
      proof (cases k)
        case 0
        with k Inr show ?thesis by simp
      next
        case (Suc j)
        with k Inr have "j < length cs" "run (take j cs) s1 = Inr s'" "(cs ! j) s' = Inl e"
          by simp_all
        then show ?thesis by blast
      qed
    next
      assume "\<exists>k < length cs. \<exists>s'. run (take k cs) s1 = Inr s' \<and> (cs ! k) s' = Inl e"
      then obtain j s' where j: "j < length cs" "run (take j cs) s1 = Inr s'" "(cs ! j) s' = Inl e"
        by blast
      with Inr have "Suc j < length (c # cs)" "run (take (Suc j) (c # cs)) s = Inr s'"
          "((c # cs) ! Suc j) s' = Inl e"
        by simp_all
      then show "\<exists>k < length (c # cs). \<exists>s'. run (take k (c # cs)) s = Inr s' \<and> ((c # cs) ! k) s' = Inl e"
        by blast
    qed
    show ?thesis unfolding L R by (rule Cons.IH)
  qed
qed

lemma run_failing_statement:
  assumes "run (take k cs) s = Inr s'" and "k < length cs" and "(cs ! k) s' = Inl e"
  shows "run cs s = Inl e"
proof -
  from assms(1,3) have "run (take k cs) s = Inr s' \<and> (cs ! k) s' = Inl e" by (rule conjI)
  then have "\<exists>s'. run (take k cs) s = Inr s' \<and> (cs ! k) s' = Inl e" by (rule exI)
  with assms(2) have "k < length cs \<and> (\<exists>s'. run (take k cs) s = Inr s' \<and> (cs ! k) s' = Inl e)"
    by (rule conjI)
  then have "\<exists>k < length cs. \<exists>s'. run (take k cs) s = Inr s' \<and> (cs ! k) s' = Inl e"
    by (rule exI)
  then show ?thesis by (rule iffD2 [OF run_Inl_iff])
qed

text \<open>
  The six \<open>fillna\<close> statements of the cell do to its two variables what
  \<open>manual_impute\<close> does to the two partitions.
\<close>

lemma manual_cell_imputation:
  assumes "v_X_train env = Some tr" and "v_X_test env = Some te"
  shows "run [stmt_train_fillna_median ''Fare'', stmt_train_fillna_median ''Age'',
              stmt_train_fillna_mode ''Embarked'',
              stmt_test_fillna_median ''Fare'', stmt_test_fillna_median ''Age'',
              stmt_test_fillna_mode ''Embarked''] env =
           (case manual_impute \<lparr>X_train = tr, X_test = te\<rparr> of
              Inl e \<Rightarrow> Inl e
            | Inr p \<Rightarrow> Inr (env\<lparr>v_X_train := Some (X_train p), v_X_test := Some (X_test p)\<rparr>))"
  using assms
  by (simp add: manual_impute_def stmt_train_fillna_median_def stmt_train_fillna_mode_def
      stmt_test_fillna_median_def stmt_test_fillna_mode_def bind_def var_def Let_def
      split: sum.splits)

lemma manual_cell_list:
  "manual_cell lib fstr =
     [stmt_read_csv lib, stmt_select_features, stmt_pop_Survived, stmt_X,
      stmt_train_test_split lib,
      stmt_train_fillna_median ''Fare'', stmt_train_fillna_median ''Age'',
      stmt_train_fillna_mode ''Embarked'',
      stmt_test_fillna_median ''Fare'', stmt_test_fillna_median ''Age'',
      stmt_test_fillna_mode ''Embarked'',
      stmt_train_dummies fstr ''Sex'', stmt_train_drop ''Sex'',
      stmt_test_dummies fstr ''Sex'', stmt_test_drop ''Sex'',
      stmt_train_dummies fstr ''Embarked'', stmt_train_drop ''Embarked'',
      stmt_test_dummies fstr ''Embarked'', stmt_test_drop ''Embarked'',
      stmt_train_dummies fstr ''Pclass'', stmt_train_drop ''Pclass'',
      stmt_test_dummies fstr ''Pclass'', stmt_test_drop ''Pclass'',
      stmt_features_to_scale, stmt_scaler lib, stmt_scaler_fit lib,
      stmt_scale_train lib, stmt_scale_test lib,
      stmt_random_forest_param_list [], stmt_rf lib, stmt_g lib,
      stmt_g_fit lib, stmt_predict lib v_g, stmt_print_accuracy lib]"
  by (simp add: manual_cell_def one_hot_loop_def)

lemma manual_cell_g_fit:
  "31 < length (manual_cell lib fstr)" "manual_cell lib fstr ! 31 = stmt_g_fit lib"
  by (simp_all add: manual_cell_list)

lemma pipeline_cell_grid_fit:
  "10 < length (pipeline_cell lib)" "pipeline_cell lib ! 10 = stmt_grid_fit lib"
  by (simp_all add: pipeline_cell_def)

lemma read_csv_fails:
  assumes "read_csv lib ''../data/titanic.csv'' = Inl e"
  shows "run (manual_cell lib fstr) env = Inl e" and "run (pipeline_cell lib) env = Inl e"
  using assms
  by (simp_all add: manual_cell_list pipeline_cell_def stmt_read_csv_def bind_def)

lemma select_features_fails:
  assumes "read_csv lib ''../data/titanic.csv'' = Inr df"
    and "getitem_list df [''Sex'', ''Embarked'', ''Pclass'', ''Fare'', ''Age'', ''SibSp'',
                          ''Parch'', ''Survived''] = Inl e"
  shows "run (manual_cell lib fstr) env = Inl e" and "run (pipeline_cell lib) env = Inl e"
  using assms
  by (simp_all add: manual_cell_list pipeline_cell_def stmt_read_csv_def
      stmt_select_features_def bind_def var_def)

lemma g_fit_fails:
  assumes "run (take 31 (manual_cell lib fstr)) env = Inr env'"
    and "v_g env' = Some g" and "v_X_train env' = Some xt" and "v_y_train env' = Some yt"
    and "fit lib g xt (Some yt) = Inl e"
  shows "run (manual_cell lib fstr) env = Inl e"
proof (rule run_failing_statement [OF assms(1) manual_cell_g_fit(1)])
  show "(manual_cell lib fstr ! 31) env' = Inl e"
    using assms(2-5) by (simp add: manual_cell_g_fit(2) stmt_g_fit_def bind_def var_def)
qed

lemma grid_fit_fails:
  assumes "run (take 10 (pipeline_cell lib)) env = Inr env'"
    and "v_grid env' = Some g" and "v_X_train env' = Some xt" and "v_y_train env' = Some yt"
    and "fit lib g xt (Some yt) = Inl e"
  shows "run (pipeline_cell lib) env = Inl e"
proof (rule run_failing_statement [OF assms(1) pipeline_cell_grid_fit(1)])
  show "(pipeline_cell lib ! 10) env' = Inl e"
    using assms(2-5) by (simp add: pipeline_cell_grid_fit(2) stmt_grid_fit_def bind_def var_def)
qed

lemma pipeline_cell_list:
  "pipeline_cell lib =
     [stmt_read_csv lib, stmt_select_features, stmt_pop_Survived, stmt_X,
      stmt_train_test_split lib,
      stmt_num_pipeline lib, stmt_cat_pipeline lib, stmt_full_pipeline lib,
      stmt_random_forest_param_list ''rf__'', stmt_grid lib, stmt_grid_fit lib,
      stmt_predict lib v_grid, stmt_print_accuracy lib]"
  by (simp add: pipeline_cell_def)

lemma np_arange_returns: "step \<noteq> 0 \<Longrightarrow> \<exists>r. np_arange start stop step = Inr r"
  by (simp add: np_arange_def Let_def)

lemma stmt_random_forest_param_list_returns:
  "stmt_random_forest_param_list prefix vars \<noteq> Inl e"
proof -
  obtain a where a: "np_arange 1 9 1 = Inr a"
    using np_arange_returns [of 1 1 9] by auto
  obtain b where b: "np_arange 2 100 10 = Inr b"
    using np_arange_returns [of 10 2 100] by auto
  obtain c where c: "np_arange 2 100 100 = Inr c"
    using np_arange_returns [of 100 2 100] by auto
  show ?thesis
    by (simp add: stmt_random_forest_param_list_def bind_def a b c)
qed

lemma encode_columns_raises_iff:
  assumes "X < length (frames h)"
  shows "fst (encode_columns fstr h X (col # rest)) = Inl e \<longleftrightarrow>
           (case getitem (frames h ! X) col of
              Inl e' \<Rightarrow> e' = e
            | Inr s \<Rightarrow>
               (case drop_column (concat_axis1 (frames h ! X) (get_dummies fstr s col)) col of
                  Inl e' \<Rightarrow> e' = e
                | Inr d \<Rightarrow>
                   fst (encode_columns fstr (h\<lparr>frames := frames h @ [d]\<rparr>)
                          (length (frames h)) rest) = Inl e))"
  using assms by (simp add: Let_def split: sum.splits)

text \<open>
  C7. Whatever the library does, a cell raises an exception exactly when one of its
  statements raises it after the statements before have run, and the exception of the
  cell is that of the statement: nothing catches, wraps or replaces it. So a missing
  input file (\<open>read_csv\<close> raises), malformed data (a column is missing from the
  file) and invalid estimator parameters (the fit of the grid search raises) each end
  the cell with the exception the library raised.

  The statements of the two cells are the ones listed, and each of them, in every
  state \<open>vars\<close> of the variables, raises an exception exactly when the first of its
  operations that raises, raises it: the reading of a variable that is not set
  (NameError), a call of pandas or numpy, or a call of the library. The two
  statements that build a list of names and the dictionary of parameters raise
  nothing. The same holds inside the methods of the transformers, for every heap in
  which the references are valid: a method raises exactly what the first of its
  operations that raises, raises.
\<close>

theorem exceptions_reach_top_of_cell:
  "(run (manual_cell lib fstr) env = Inl e \<longleftrightarrow>
      (\<exists>k < length (manual_cell lib fstr). \<exists>env'.
          run (take k (manual_cell lib fstr)) env = Inr env'
        \<and> (manual_cell lib fstr ! k) env' = Inl e))
 \<and> (run (pipeline_cell lib) env = Inl e \<longleftrightarrow>
      (\<exists>k < length (pipeline_cell lib). \<exists>env'.
          run (take k (pipeline_cell lib)) env = Inr env'
        \<and> (pipeline_cell lib ! k) env' = Inl e))
 \<and> (read_csv lib ''../data/titanic.csv'' = Inl e \<longrightarrow>
      run (manual_cell lib fstr) env = Inl e \<and> run (pipeline_cell lib) env = Inl e)
 \<and> (\<forall>df. read_csv lib ''../data/titanic.csv'' = Inr df
         \<and> getitem_list df [''Sex'', ''Embarked'', ''Pclass'', ''Fare'', ''Age'', ''SibSp'',
                             ''Parch'', ''Survived''] = Inl e \<longrightarrow>
      run (manual_cell lib fstr) env = Inl e \<and> run (pipeline_cell lib) env = Inl e)
 \<and> (\<forall>env' g xt yt. run (take 31 (manual_cell lib fstr)) env = Inr env'
         \<and> v_g env' = Some g \<and> v_X_train env' = Some xt \<and> v_y_train env' = Some yt
         \<and> fit lib g xt (Some yt) = Inl e \<longrightarrow>
      run (manual_cell lib fstr) env = Inl e)
 \<and> (\<forall>env' g xt yt. run (take 10 (pipeline_cell lib)) env = Inr env'
         \<and> v_grid env' = Some g \<and> v_X_train env' = Some xt \<and> v_y_train env' = Some yt
         \<and> fit lib g xt (Some yt) = Inl e \<longrightarrow>
      run (pipeline_cell lib) env = Inl e)
 \<and> manual_cell lib fstr =
     [stmt_read_csv lib, stmt_select_features, stmt_pop_Survived, stmt_X,
      stmt_train_test_split lib,
      stmt_train_fillna_median ''Fare'', stmt_train_fillna_median ''Age'',
      stmt_train_fillna_mode ''Embarked'',
      stmt_test_fillna_median ''Fare'', stmt_test_fillna_median ''Age'',
      stmt_test_fillna_mode ''Embarked'',
      stmt_train_dummies fstr ''Sex'', stmt_train_drop ''Sex'',
      stmt_test_dummies fstr ''Sex'', stmt_test_drop ''Sex'',
      stmt_train_dummies fstr ''Embarked'', stmt_train_drop ''Embarked'',
      stmt_test_dummies fstr ''Embarked'', stmt_test_drop ''Embarked'',
      stmt_train_dummies fstr ''Pclass'', stmt_train_drop ''Pclass'',
      stmt_test_dummies fstr ''Pclass'', stmt_test_drop ''Pclass'',
      stmt_features_to_scale, stmt_scaler lib, stmt_scaler_fit lib,
      stmt_scale_train lib, stmt_scale_test lib,
      stmt_random_forest_param_list [], stmt_rf lib, stmt_g lib,
      stmt_g_fit lib, stmt_predict lib v_g, stmt_print_accuracy lib]
 \<and> pipeline_cell lib =
     [stmt_read_csv lib, stmt_select_features, stmt_pop_Survived, stmt_X,
      stmt_train_test_split lib,
      stmt_num_pipeline lib, stmt_cat_pipeline lib, stmt_full_pipeline lib,
      stmt_random_forest_param_list ''rf__'', stmt_grid lib, stmt_grid_fit lib,
      stmt_predict lib v_grid, stmt_print_accuracy lib]
 \<and> (stmt_read_csv lib vars = Inl e \<longleftrightarrow> read_csv lib ''../data/titanic.csv'' = Inl e)
 \<and> (stmt_select_features vars = Inl e \<longleftrightarrow>
      (case v_df vars of
         None \<Rightarrow> e = NameError
       | Some df \<Rightarrow>
          getitem_list df [''Sex'', ''Embarked'', ''Pclass'', ''Fare'', ''Age'', ''SibSp'',
                           ''Parch'', ''Survived''] = Inl e))
 \<and> (stmt_pop_Survived vars = Inl e \<longleftrightarrow>
      (case v_df_features vars of
         None \<Rightarrow> e = NameError
       | Some d \<Rightarrow> pop d ''Survived'' = Inl e))
 \<and> (pop d col = Inl e \<longleftrightarrow>
      (case getitem d col of
         Inl e' \<Rightarrow> e' = e
       | Inr s \<Rightarrow> drop_column d col = Inl e))
 \<and> (stmt_X vars = Inl e \<longleftrightarrow> v_df_features vars = None \<and> e = NameError)
 \<and> (stmt_train_test_split lib vars = Inl e \<longleftrightarrow>
      (case v_X vars of
         None \<Rightarrow> e = NameError
       | Some X \<Rightarrow>
          (case v_y vars of
             None \<Rightarrow> e = NameError
           | Some y \<Rightarrow> train_test_split lib X y y 0 = Inl e)))
 \<and> (stmt_train_fillna_median col vars = Inl e \<longleftrightarrow>
      (case v_X_train vars of
         None \<Rightarrow> e = NameError
       | Some tr \<Rightarrow>
          (case v_X_test vars of
             None \<Rightarrow> e = NameError
           | Some te \<Rightarrow> fillna_median_inplace tr te col = Inl e)))
 \<and> (stmt_train_fillna_mode col vars = Inl e \<longleftrightarrow>
      (case v_X_train vars of
         None \<Rightarrow> e = NameError
       | Some tr \<Rightarrow>
          (case v_X_test vars of
             None \<Rightarrow> e = NameError
           | Some te \<Rightarrow> fillna_mode_inplace tr te col = Inl e)))
 \<and> (stmt_test_fillna_median col vars = Inl e \<longleftrightarrow>
      (case v_X_test vars of
         None \<Rightarrow> e = NameError
       | Some te \<Rightarrow> fillna_median_inplace te te col = Inl e))
 \<and> (stmt_test_fillna_mode col vars = Inl e \<longleftrightarrow>
      (case v_X_test vars of
         None \<Rightarrow> e = NameError
       | Some te \<Rightarrow> fillna_mode_inplace te te col = Inl e))
 \<and> (fillna_median_inplace target source col = Inl e \<longleftrightarrow>
      (case getitem target col of
         Inl e' \<Rightarrow> e' = e
       | Inr s \<Rightarrow>
          (case getitem source col of
             Inl e' \<Rightarrow> e' = e
           | Inr t \<Rightarrow> Series_median t = Inl e)))
 \<and> (fillna_mode_inplace target source col = Inl e \<longleftrightarrow>
      (case getitem target col of
         Inl e' \<Rightarrow> e' = e
       | Inr s \<Rightarrow> getitem source col = Inl e))
 \<and> (stmt_train_dummies fstr col vars = Inl e \<longleftrightarrow>
      (case v_X_train vars of
         None \<Rightarrow> e = NameError
       | Some tr \<Rightarrow> getitem tr col = Inl e))
 \<and> (stmt_train_drop col vars = Inl e \<longleftrightarrow>
      (case v_X_train vars of
         None \<Rightarrow> e = NameError
       | Some tr \<Rightarrow> drop_column tr col = Inl e))
 \<and> (stmt_test_dummies fstr col vars = Inl e \<longleftrightarrow>
      (case v_X_test vars of
         None \<Rightarrow> e = NameError
       | Some te \<Rightarrow> getitem te col = Inl e))
 \<and> (stmt_test_drop col vars = Inl e \<longleftrightarrow>
      (case v_X_test vars of
         None \<Rightarrow> e = NameError
       | Some te \<Rightarrow> drop_column te col = Inl e))
 \<and> stmt_features_to_scale vars \<noteq> Inl e
 \<and> (stmt_scaler lib vars = Inl e \<longleftrightarrow> StandardScaler lib = Inl e)
 \<and> (stmt_scaler_fit lib vars = Inl e \<longleftrightarrow>
      (case v_scaler vars of
         None \<Rightarrow> e = NameError
       | Some sc \<Rightarrow>
          (case v_X_train vars of
             None \<Rightarrow> e = NameError
           | Some tr \<Rightarrow>
              (case v_features_to_scale vars of
                 None \<Rightarrow> e = NameError
               | Some fs \<Rightarrow>
                  (case getitem_list tr fs of
                     Inl e' \<Rightarrow> e' = e
                   | Inr sel \<Rightarrow> fit lib sc sel None = Inl e)))))
 \<and> (stmt_scale_train lib vars = Inl e \<longleftrightarrow>
      (case v_scaler vars of
         None \<Rightarrow> e = NameError
       | Some sc \<Rightarrow>
          (case v_X_train vars of
             None \<Rightarrow> e = NameError
           | Some tr \<Rightarrow>
              (case v_features_to_scale vars of
                 None \<Rightarrow> e = NameError
               | Some fs \<Rightarrow>
                  (case getitem_list tr fs of
                     Inl e' \<Rightarrow> e' = e
                   | Inr sel \<Rightarrow>
                      (case transform lib sc sel of
                         Inl e' \<Rightarrow> e' = e
                       | Inr scaled \<Rightarrow> setitem_list lib tr fs scaled = Inl e))))))
 \<and> (stmt_scale_test lib vars = Inl e \<longleftrightarrow>
      (case v_scaler vars of
         None \<Rightarrow> e = NameError
       | Some sc \<Rightarrow>
          (case v_X_test vars of
             None \<Rightarrow> e = NameError
           | Some te \<Rightarrow>
              (case v_features_to_scale vars of
                 None \<Rightarrow> e = NameError
               | Some fs \<Rightarrow>
                  (case getitem_list te fs of
                     Inl e' \<Rightarrow> e' = e
                   | Inr sel \<Rightarrow>
                      (case transform lib sc sel of
                         Inl e' \<Rightarrow> e' = e
                       | Inr scaled \<Rightarrow> setitem_list lib te fs scaled = Inl e))))))
 \<and> stmt_random_forest_param_list prefix vars \<noteq> Inl e
 \<and> (stmt_rf lib vars = Inl e \<longleftrightarrow> RandomForestClassifier lib = Inl e)
 \<and> (stmt_g lib vars = Inl e \<longleftrightarrow>
      (case v_rf vars of
         None \<Rightarrow> e = NameError
       | Some rf \<Rightarrow>
          (case v_random_forest_param_list vars of
             None \<Rightarrow> e = NameError
           | Some params \<Rightarrow> GridSearchCV lib rf params ''accuracy'' 3 (- 1) = Inl e)))
 \<and> (stmt_g_fit lib vars = Inl e \<longleftrightarrow>
      (case v_g vars of
         None \<Rightarrow> e = NameError
       | Some g \<Rightarrow>
          (case v_X_train vars of
             None \<Rightarrow> e = NameError
           | Some tr \<Rightarrow>
              (case v_y_train vars of
                 None \<Rightarrow> e = NameError
               | Some yt \<Rightarrow> fit lib g tr (Some yt) = Inl e))))
 \<and> (stmt_predict lib search vars = Inl e \<longleftrightarrow>
      (case search vars of
         None \<Rightarrow> e = NameError
       | Some g \<Rightarrow>
          (case v_X_test vars of
             None \<Rightarrow> e = NameError
           | Some te \<Rightarrow> predict lib g te = Inl e)))
 \<and> (stmt_print_accuracy lib vars = Inl e \<longleftrightarrow>
      (case v_y_test vars of
         None \<Rightarrow> e = NameError
       | Some yt \<Rightarrow>
          (case v_y_pred vars of
             None \<Rightarrow> e = NameError
           | Some yp \<Rightarrow> accuracy_score lib yt yp = Inl e)))
 \<and> (stmt_num_pipeline lib vars = Inl e \<longleftrightarrow>
      (case Imputer lib ''median'' of
         Inl e' \<Rightarrow> e' = e
       | Inr imputer \<Rightarrow>
          (case StandardScaler lib of
             Inl e' \<Rightarrow> e' = e
           | Inr scaler \<Rightarrow>
              Pipeline lib [(''selector'', custom lib (New_CustomSelector False)),
                            (''imputer'', imputer), (''scaler'', scaler)] = Inl e)))
 \<and> (stmt_cat_pipeline lib vars = Inl e \<longleftrightarrow>
      Pipeline lib [(''selector'', custom lib (New_CustomSelector True)),
                    (''imputer'', custom lib New_CustomCategoricalImputer),
                    (''cat_encoder'', custom lib New_CustomCategoricalEncoder)] = Inl e)
 \<and> (stmt_full_pipeline lib vars = Inl e \<longleftrightarrow>
      (case v_num_pipeline vars of
         None \<Rightarrow> e = NameError
       | Some num_pipeline \<Rightarrow>
          (case v_cat_pipeline vars of
             None \<Rightarrow> e = NameError
           | Some cat_pipeline \<Rightarrow>
              (case FeatureUnion lib [(''num_pipeline'', num_pipeline),
                                      (''cat_pipeline'', cat_pipeline)] of
                 Inl e' \<Rightarrow> e' = e
               | Inr u \<Rightarrow>
                  (case RandomForestClassifier lib of
                     Inl e' \<Rightarrow> e' = e
                   | Inr rf \<Rightarrow> Pipeline lib [(''feat_union'', u), (''rf'', rf)] = Inl e)))))
 \<and> (stmt_grid lib vars = Inl e \<longleftrightarrow>
      (case v_full_pipeline vars of
         None \<Rightarrow> e = NameError
       | Some full_pipeline \<Rightarrow>
          (case v_random_forest_param_list vars of
             None \<Rightarrow> e = NameError
           | Some params \<Rightarrow>
              GridSearchCV lib full_pipeline params ''accuracy'' 3 (- 1) = Inl e)))
 \<and> (stmt_grid_fit lib vars = Inl e \<longleftrightarrow>
      (case v_grid vars of
         None \<Rightarrow> e = NameError
       | Some g \<Rightarrow>
          (case v_X_train vars of
             None \<Rightarrow> e = NameError
           | Some tr \<Rightarrow>
              (case v_y_train vars of
                 None \<Rightarrow> e = NameError
               | Some yt \<Rightarrow> fit lib g tr (Some yt) = Inl e))))
 \<and> (self < length (scalers h) \<and> X < length (arrays h) \<longrightarrow>
      (fst (MyScaler_fit rnd h self X y) = Inl e \<longleftrightarrow> y = Omitted \<and> e = TypeError))
 \<and> (self < length (scalers h) \<and> X < length (arrays h) \<longrightarrow>
      (fst (MyScaler_transform rnd h self X) = Inl e \<longleftrightarrow>
         (case mean (scalers h ! self) of
            None \<Rightarrow> e = AttributeError
          | Some m \<Rightarrow>
             (case np_inplace_array (fsub rnd) (arrays h ! X) m of
                Inl e' \<Rightarrow> e' = e
              | Inr a1 \<Rightarrow>
                 (case scale (scalers h ! self) of
                    None \<Rightarrow> e = AttributeError
                  | Some sc \<Rightarrow> np_inplace_array (fdiv rnd) a1 sc = Inl e)))))
 \<and> fst (CustomSelector_fit h self X y) \<noteq> Inl e
 \<and> (self < length (selectors h) \<and> X < length (frames h) \<longrightarrow>
      (fst (CustomSelector_transform h self X) = Inl e \<longleftrightarrow>
         getitem_list (frames h ! X)
           (if categorical (selectors h ! self) then [''Sex'', ''Embarked'', ''Pclass'']
            else [''Fare'', ''Age'', ''SibSp'', ''Parch'']) = Inl e))
 \<and> (self < length (imputers h) \<and> X < length (frames h) \<longrightarrow>
      (fst (CustomCategoricalImputer_fit h self X y) = Inl e \<longleftrightarrow>
         iloc0 (DataFrame_mode (frames h ! X)) = Inl e))
 \<and> (self < length (imputers h) \<and> X < length (frames h) \<longrightarrow>
      (fst (CustomCategoricalImputer_transform h self X) = Inl e \<longleftrightarrow>
         fill (imputers h ! self) = None \<and> e = AttributeError))
 \<and> fst (CustomCategoricalEncoder_fit h self X y) \<noteq> Inl e
 \<and> CustomCategoricalEncoder_transform fstr h self X =
      encode_columns fstr h X [''Sex'', ''Embarked'', ''Pclass'']
 \<and> fst (encode_columns fstr h X []) \<noteq> Inl e
 \<and> (X < length (frames h) \<longrightarrow>
      (fst (encode_columns fstr h X (c # rest)) = Inl e \<longleftrightarrow>
         (case getitem (frames h ! X) c of
            Inl e' \<Rightarrow> e' = e
          | Inr s \<Rightarrow>
             (case drop_column (concat_axis1 (frames h ! X) (get_dummies fstr s c)) c of
                Inl e' \<Rightarrow> e' = e
              | Inr d \<Rightarrow>
                 fst (encode_columns fstr (h\<lparr>frames := frames h @ [d]\<rparr>)
                        (length (frames h)) rest) = Inl e))))"
  apply (intro conjI)
  subgoal by (rule run_Inl_iff)
  subgoal by (rule run_Inl_iff)
  subgoal by (intro impI conjI) (erule read_csv_fails)+
  subgoal by (intro allI impI conjI; elim conjE) (erule (1) select_features_fails)+
  subgoal by (intro allI impI; elim conjE) (erule (4) g_fit_fails)
  subgoal by (intro allI impI; elim conjE) (erule (4) grid_fit_fails)
  subgoal by (rule manual_cell_list)
  subgoal by (rule pipeline_cell_list)
  subgoal by (auto simp: stmt_read_csv_def bind_def split: sum.splits)
  subgoal by (auto simp: stmt_select_features_def bind_def var_def split: option.splits sum.splits)
  subgoal by (auto simp: stmt_pop_Survived_def bind_def var_def split: option.splits sum.splits prod.splits)
  subgoal by (auto simp: pop_def bind_def split: sum.splits)
  subgoal by (auto simp: stmt_X_def bind_def var_def split: option.splits)
  subgoal by (auto simp: stmt_train_test_split_def bind_def var_def split: option.splits sum.splits prod.splits)
  subgoal by (auto simp: stmt_train_fillna_median_def bind_def var_def split: option.splits sum.splits)
  subgoal by (auto simp: stmt_train_fillna_mode_def bind_def var_def split: option.splits sum.splits)
  subgoal by (auto simp: stmt_test_fillna_median_def bind_def var_def split: option.splits sum.splits)
  subgoal by (auto simp: stmt_test_fillna_mode_def bind_def var_def split: option.splits sum.splits)
  subgoal by (auto simp: fillna_median_inplace_def split: sum.splits)
  subgoal by (auto simp: fillna_mode_inplace_def split: sum.splits)
  subgoal by (auto simp: stmt_train_dummies_def bind_def var_def split: option.splits sum.splits)
  subgoal by (auto simp: stmt_train_drop_def bind_def var_def split: option.splits sum.splits)
  subgoal by (auto simp: stmt_test_dummies_def bind_def var_def split: option.splits sum.splits)
  subgoal by (auto simp: stmt_test_drop_def bind_def var_def split: option.splits sum.splits)
  subgoal by (simp add: stmt_features_to_scale_def)
  subgoal by (auto simp: stmt_scaler_def bind_def split: sum.splits)
  subgoal by (auto simp: stmt_scaler_fit_def bind_def var_def split: option.splits sum.splits)
  subgoal by (auto simp: stmt_scale_train_def bind_def var_def split: option.splits sum.splits)
  subgoal by (auto simp: stmt_scale_test_def bind_def var_def split: option.splits sum.splits)
  subgoal by (rule stmt_random_forest_param_list_returns)
  subgoal by (auto simp: stmt_rf_def bind_def split: sum.splits)
  subgoal by (auto simp: stmt_g_def bind_def var_def split: option.splits sum.splits)
  subgoal by (auto simp: stmt_g_fit_def bind_def var_def split: option.splits sum.splits)
  subgoal by (auto simp: stmt_predict_def bind_def var_def split: option.splits sum.splits)
  subgoal by (auto simp: stmt_print_accuracy_def bind_def var_def split: option.splits sum.splits)
  subgoal by (auto simp: stmt_num_pipeline_def bind_def split: sum.splits)
  subgoal by (auto simp: stmt_cat_pipeline_def bind_def split: sum.splits)
  subgoal by (auto simp: stmt_full_pipeline_def bind_def var_def split: option.splits sum.splits)
  subgoal by (auto simp: stmt_grid_def bind_def var_def split: option.splits sum.splits)
  subgoal by (auto simp: stmt_grid_fit_def bind_def var_def split: option.splits sum.splits)
  subgoal by (auto simp: MyScaler_fit_def Let_def split: pyarg.splits)
  subgoal by (auto simp: MyScaler_transform_def Let_def split: option.splits sum.splits)
  subgoal by (simp add: CustomSelector_fit_def)
  subgoal by (auto simp: CustomSelector_transform_def new_frame_def split: sum.splits)
  subgoal by (auto simp: CustomCategoricalImputer_fit_def split: sum.splits)
  subgoal by (auto simp: CustomCategoricalImputer_transform_def new_frame_def split: option.splits)
  subgoal by (simp add: CustomCategoricalEncoder_fit_def)
  subgoal by (rule CustomCategoricalEncoder_transform_def)
  subgoal by simp
  subgoal by (intro impI) (erule encode_columns_raises_iff)
  done

theorem exceptions_reach_top_of_cell_witness:
  "run (manual_cell (example_library []) (\<lambda>r. [])) empty_env = Inl FileNotFoundError
 \<and> run (pipeline_cell (example_library [])) empty_env = Inl FileNotFoundError
 \<and> run (manual_cell (example_library [(''../data/titanic.csv'', example_frame)]) (\<lambda>r. []))
       empty_env = Inl (KeyError ''Survived'')
 \<and> run (pipeline_cell (example_library [(''../data/titanic.csv'', example_frame)]))
       empty_env = Inl (KeyError ''Survived'')
 \<and> run (manual_cell (example_library [(''../data/titanic.csv'', example_titanic)]) (\<lambda>r. []))
       empty_env = Inl ValueError
 \<and> run (pipeline_cell (example_library [(''../data/titanic.csv'', example_titanic)]))
       empty_env = Inl ValueError
 \<and> run (manual_cell
          ((example_library [(''../data/titanic.csv'', example_titanic)])
             \<lparr>fit := \<lambda>est X y. Inr est, predict := \<lambda>est X. Inl AttributeError\<rparr>)
          (\<lambda>r. [])) empty_env = Inl AttributeError
 \<and> fst (CustomCategoricalImputer_fit example_heap_missing 0 1 (Omitted :: unit pyarg))
       = Inl IndexError
 \<and> fst (MyScaler_transform float64
          (example_heap_columns\<lparr>scalers := [\<lparr>mean = Some [Fin 2], scale = Some [Fin 1]\<rparr>]\<rparr>)
          0 2) = Inl TypeError"
proof -
  let ?L0 = "example_library []"
  let ?L1 = "example_library [(''../data/titanic.csv'', example_frame)]"
  let ?L2 = "example_library [(''../data/titanic.csv'', example_titanic)]"
  let ?L3 = "(example_library [(''../data/titanic.csv'', example_titanic)])
               \<lparr>fit := \<lambda>est X y. Inr est, predict := \<lambda>est X. Inl AttributeError\<rparr>"
  let ?f = "\<lambda>r::real. []::string"
  let ?H = "example_heap_columns\<lparr>scalers := [\<lparr>mean = Some [Fin 2], scale = Some [Fin 1]\<rparr>]\<rparr>"
  have a: "read_csv ?L0 ''../data/titanic.csv'' = Inl FileNotFoundError"
    by code_simp
  have b: "read_csv ?L1 ''../data/titanic.csv'' = Inr example_frame
         \<and> getitem_list example_frame [''Sex'', ''Embarked'', ''Pclass'', ''Fare'', ''Age'',
               ''SibSp'', ''Parch'', ''Survived''] = Inl (KeyError ''Survived'')"
    by code_simp
  have c: "(case run (take 31 (manual_cell ?L2 ?f)) empty_env of
              Inl _ \<Rightarrow> False
            | Inr env' \<Rightarrow>
               (case v_g env' of None \<Rightarrow> False | Some g \<Rightarrow>
               (case v_X_train env' of None \<Rightarrow> False | Some xt \<Rightarrow>
               (case v_y_train env' of None \<Rightarrow> False | Some yt \<Rightarrow>
                  fit ?L2 g xt (Some yt) = Inl ValueError))))"
    by code_simp
  have d: "(case run (take 10 (pipeline_cell ?L2)) empty_env of
              Inl _ \<Rightarrow> False
            | Inr env' \<Rightarrow>
               (case v_grid env' of None \<Rightarrow> False | Some g \<Rightarrow>
               (case v_X_train env' of None \<Rightarrow> False | Some xt \<Rightarrow>
               (case v_y_train env' of None \<Rightarrow> False | Some yt \<Rightarrow>
                  fit ?L2 g xt (Some yt) = Inl ValueError))))"
    by code_simp
  have p: "(case run (take 32 (manual_cell ?L3 ?f)) empty_env of
              Inl _ \<Rightarrow> False
            | Inr env' \<Rightarrow>
               (case v_g env' of None \<Rightarrow> False | Some g \<Rightarrow>
               (case v_X_test env' of None \<Rightarrow> False | Some te \<Rightarrow>
                  predict ?L3 g te = Inl AttributeError)))"
    by code_simp
  have i: "(0::nat) < length (imputers example_heap_missing)
         \<and> (1::nat) < length (frames example_heap_missing)"
    by code_simp
  have i': "iloc0 (DataFrame_mode (frames example_heap_missing ! 1)) = Inl IndexError"
    by code_simp
  have s: "(0::nat) < length (scalers ?H) \<and> (2::nat) < length (arrays ?H)"
    by (simp add: example_heap_columns_def)
  have s': "(case mean (scalers ?H ! 0) of
              None \<Rightarrow> TypeError = AttributeError
            | Some m \<Rightarrow>
               (case np_inplace_array (fsub float64) (arrays ?H ! 2) m of
                  Inl e' \<Rightarrow> e' = TypeError
                | Inr a1 \<Rightarrow>
                   (case scale (scalers ?H ! 0) of
                      None \<Rightarrow> TypeError = AttributeError
                    | Some sc \<Rightarrow> np_inplace_array (fdiv float64) a1 sc = Inl TypeError)))"
    by (simp add: example_heap_columns_def np_inplace_array_def)
  from c obtain env2 g2 xt2 yt2 where c':
      "run (take 31 (manual_cell ?L2 ?f)) empty_env = Inr env2
     \<and> v_g env2 = Some g2 \<and> v_X_train env2 = Some xt2 \<and> v_y_train env2 = Some yt2
     \<and> fit ?L2 g2 xt2 (Some yt2) = Inl ValueError"
    by (auto split: sum.splits option.splits)
  from d obtain env3 g3 xt3 yt3 where d':
      "run (take 10 (pipeline_cell ?L2)) empty_env = Inr env3
     \<and> v_grid env3 = Some g3 \<and> v_X_train env3 = Some xt3 \<and> v_y_train env3 = Some yt3
     \<and> fit ?L2 g3 xt3 (Some yt3) = Inl ValueError"
    by (auto split: sum.splits option.splits)
  from p obtain env4 g4 te4 where p':
      "run (take 32 (manual_cell ?L3 ?f)) empty_env = Inr env4"
      "v_g env4 = Some g4" "v_X_test env4 = Some te4"
      "predict ?L3 g4 te4 = Inl AttributeError"
    by (auto split: sum.splits option.splits)
  note t0 = exceptions_reach_top_of_cell
    [where lib = ?L0 and fstr = ?f and env = empty_env and e = FileNotFoundError]
  note t1 = exceptions_reach_top_of_cell
    [where lib = ?L1 and fstr = ?f and env = empty_env and e = "KeyError ''Survived''"]
  note t2 = exceptions_reach_top_of_cell
    [where lib = ?L2 and fstr = ?f and env = empty_env and e = ValueError]
  note t3 = exceptions_reach_top_of_cell
    [where h = example_heap_missing and X = 1 and e = IndexError
       and self = 0 and y = "Omitted :: unit pyarg"]
  note t4 = exceptions_reach_top_of_cell
    [where lib = ?L3 and fstr = ?f and env = empty_env and e = AttributeError
       and search = v_g and vars = env4]
  note t5 = exceptions_reach_top_of_cell
    [where h = ?H and X = 2 and self = 0 and e = TypeError and rnd = float64]
  have r0: "run (manual_cell ?L0 ?f) empty_env = Inl FileNotFoundError
          \<and> run (pipeline_cell ?L0) empty_env = Inl FileNotFoundError"
    by (rule t0 [THEN conjunct2, THEN conjunct2, THEN conjunct1, THEN mp, OF a])
  have r1: "run (manual_cell ?L1 ?f) empty_env = Inl (KeyError ''Survived'')
          \<and> run (pipeline_cell ?L1) empty_env = Inl (KeyError ''Survived'')"
    by (rule t1 [THEN conjunct2, THEN conjunct2, THEN conjunct2, THEN conjunct1, THEN spec, THEN mp, OF b])
  have r2: "run (manual_cell ?L2 ?f) empty_env = Inl ValueError"
    by (rule t2 [THEN conjunct2, THEN conjunct2, THEN conjunct2, THEN conjunct2, THEN conjunct1, THEN spec, THEN spec, THEN spec, THEN spec, THEN mp, OF c'])
  have r3: "run (pipeline_cell ?L2) empty_env = Inl ValueError"
    by (rule t2 [THEN conjunct2, THEN conjunct2, THEN conjunct2, THEN conjunct2, THEN conjunct2, THEN conjunct1, THEN spec, THEN spec, THEN spec, THEN spec, THEN mp, OF d'])
  have q1: "stmt_predict ?L3 v_g env4 = Inl AttributeError \<longleftrightarrow>
              (case v_g env4 of
                 None \<Rightarrow> AttributeError = NameError
               | Some g \<Rightarrow>
                  (case v_X_test env4 of
                     None \<Rightarrow> AttributeError = NameError
                   | Some te \<Rightarrow> predict ?L3 g te = Inl AttributeError))"
    by (rule t4 [THEN conjunct2, THEN conjunct2, THEN conjunct2, THEN conjunct2, THEN conjunct2,
             THEN conjunct2, THEN conjunct2, THEN conjunct2, THEN conjunct2, THEN conjunct2,
             THEN conjunct2, THEN conjunct2, THEN conjunct2, THEN conjunct2, THEN conjunct2,
             THEN conjunct2, THEN conjunct2, THEN conjunct2, THEN conjunct2, THEN conjunct2,
             THEN conjunct2, THEN conjunct2, THEN conjunct2, THEN conjunct2, THEN conjunct2,
             THEN conjunct2, THEN conjunct2, THEN conjunct2, THEN conjunct2, THEN conjunct2,
             THEN conjunct2, THEN conjunct2, THEN conjunct2, THEN conjunct1])
  have q2: "stmt_predict ?L3 v_g env4 = Inl AttributeError"
    unfolding q1 by (simp only: p' option.case)
  have q3: "manual_cell ?L3 ?f ! 32 = stmt_predict ?L3 v_g"
    unfolding t4 [THEN conjunct2, THEN conjunct2, THEN conjunct2, THEN conjunct2, THEN conjunct2,
             THEN conjunct2, THEN conjunct1] by simp
  have q4: "32 < length (manual_cell ?L3 ?f)"
    unfolding t4 [THEN conjunct2, THEN conjunct2, THEN conjunct2, THEN conjunct2, THEN conjunct2,
             THEN conjunct2, THEN conjunct1] by simp
  have q5: "\<exists>k < length (manual_cell ?L3 ?f). \<exists>env'.
              run (take k (manual_cell ?L3 ?f)) empty_env = Inr env'
            \<and> (manual_cell ?L3 ?f ! k) env' = Inl AttributeError"
  proof (intro exI conjI)
    show "32 < length (manual_cell ?L3 ?f)" by (rule q4)
    show "run (take 32 (manual_cell ?L3 ?f)) empty_env = Inr env4" by (rule p'(1))
    show "(manual_cell ?L3 ?f ! 32) env4 = Inl AttributeError" unfolding q3 by (rule q2)
  qed
  have r4: "run (manual_cell ?L3 ?f) empty_env = Inl AttributeError"
    by (rule t4 [THEN conjunct1, THEN iffD2, OF q5])
  have r5: "fst (CustomCategoricalImputer_fit example_heap_missing 0 1 (Omitted :: unit pyarg))
              = Inl IndexError"
    by (rule t3 [THEN conjunct2, THEN conjunct2, THEN conjunct2, THEN conjunct2, THEN conjunct2,
             THEN conjunct2, THEN conjunct2, THEN conjunct2, THEN conjunct2, THEN conjunct2,
             THEN conjunct2, THEN conjunct2, THEN conjunct2, THEN conjunct2, THEN conjunct2,
             THEN conjunct2, THEN conjunct2, THEN conjunct2, THEN conjunct2, THEN conjunct2,
             THEN conjunct2, THEN conjunct2, THEN conjunct2, THEN conjunct2, THEN conjunct2,
             THEN conjunct2, THEN conjunct2, THEN conjunct2, THEN conjunct2, THEN conjunct2,
             THEN conjunct2, THEN conjunct2, THEN conjunct2, THEN conjunct2, THEN conjunct2,
             THEN conjunct2, THEN conjunct2, THEN conjunct2, THEN conjunct2, THEN conjunct2,
             THEN conjunct2, THEN conjunct2, THEN conjunct2, THEN conjunct2, THEN conjunct1, THEN mp, OF i, THEN iffD2, OF i'])
  have r6: "fst (MyScaler_transform float64 ?H 0 2) = Inl TypeError"
    by (rule t5 [THEN conjunct2, THEN conjunct2, THEN conjunct2, THEN conjunct2, THEN conjunct2,
             THEN conjunct2, THEN conjunct2, THEN conjunct2, THEN conjunct2, THEN conjunct2,
             THEN conjunct2, THEN conjunct2, THEN conjunct2, THEN conjunct2, THEN conjunct2,
             THEN conjunct2, THEN conjunct2, THEN conjunct2, THEN conjunct2, THEN conjunct2,
             THEN conjunct2, THEN conjunct2, THEN conjunct2, THEN conjunct2, THEN conjunct2,
             THEN conjunct2, THEN conjunct2, THEN conjunct2, THEN conjunct2, THEN conjunct2,
             THEN conjunct2, THEN conjunct2, THEN conjunct2, THEN conjunct2, THEN conjunct2,
             THEN conjunct2, THEN conjunct2, THEN conjunct2, THEN conjunct2, THEN conjunct2,
             THEN conjunct2, THEN conjunct1, THEN mp, OF s, THEN iffD2, OF s'])
  from r0 r1 r2 r3 r4 r5 r6 show ?thesis by simp
qed

end
